theory Spec2Isabelle
  imports Main "HOL-Library.Word"
begin

unbundle bit_operations_syntax

section \<open>Common types\<close>

text \<open>
  The firmware is C for the ESP32.  \<open>int\<close> values (socket handles, return values of
  \<open>send\<close>, \<open>write\<close>, \<open>read\<close>) are modelled as \<open>int\<close>; the arithmetic the properties
  below depend on stays far inside the 32-bit range.  \<open>uint32_t\<close> counters are \<open>32 word\<close>, so \<open>+=\<close> wraps
  as in C.  \<open>time_t\<close> values are \<open>int\<close>.  Byte buffers (\<open>const char *\<close> with a length)
  are \<open>string\<close>, \<open>const uint8_t *\<close> buffers are \<open>8 word list\<close>.

  Every call into the operating system or into a module that is not part of the
  modelled file appears twice: its result is an argument of the model (the
  environment decides it), and the call itself is appended to a trace kept in
  the state, so that "nothing was sent" and "the socket was closed" are
  statements about that trace.
\<close>

datatype esp_err_t = ESP_OK | ESP_FAIL | ESP_ERR_INVALID_STATE | ESP_ERR_INVALID_ARG
  | ESP_ERR_NO_MEM | ESP_ERR_NOT_FOUND

section \<open>SD card logger (main/sd_logger.c)\<close>

datatype sd_event =
    Fclose string
  | Fopen string
  | Fwrite string "8 word list"
  | Fflush string

text \<open>
  The static variables of the file.  \<open>log_file\<close> is the \<open>FILE *\<close>: \<open>None\<close> is
  \<open>NULL\<close>, \<open>Some name\<close> an open stream on the file of that name.
\<close>

record sd_logger =
  log_file :: "string option"
  current_date :: string
  logging_enabled :: bool
  sd_trace :: "sd_event list"

definition MOUNT_POINT :: string where
  "MOUNT_POINT = ''/sdcard''"

text \<open>
  What the environment decides during one call of \<open>sd_logger_write\<close>:
  \<open>new_date\<close> is the text \<open>strftime\<close> produces from the clock, \<open>fopen_ok\<close> whether
  \<open>fopen\<close> returns a stream, \<open>fwrite_ret\<close> the item count \<open>fwrite\<close> returns.
\<close>

record sd_env =
  new_date :: string
  fopen_ok :: bool
  fwrite_ret :: nat

definition sd_close_current :: "sd_logger \<Rightarrow> sd_logger" where
  "sd_close_current st =
     (case log_file st of
        None \<Rightarrow> st
      | Some f \<Rightarrow> st\<lparr>log_file := None, sd_trace := sd_trace st @ [Fclose f]\<rparr>)"

definition sd_logger_check_date :: "sd_logger \<Rightarrow> sd_env \<Rightarrow> esp_err_t \<times> sd_logger" where
  "sd_logger_check_date st e =
     (if \<not> logging_enabled st then (ESP_OK, st)
      else if current_date st \<noteq> new_date e then
        (let st1 = sd_close_current st;
             st2 = st1\<lparr>current_date := new_date e\<rparr>;
             filename = take 63 (MOUNT_POINT @ ''/logs/'' @ current_date st2 @ ''.rtcm'');
             st3 = st2\<lparr>sd_trace := sd_trace st2 @ [Fopen filename]\<rparr>
         in if \<not> fopen_ok e then (ESP_FAIL, st3\<lparr>log_file := None\<rparr>)
            else (ESP_OK, st3\<lparr>log_file := Some filename\<rparr>))
      else (ESP_OK, st))"

definition sd_logger_write :: "sd_logger \<Rightarrow> 8 word list \<Rightarrow> sd_env \<Rightarrow> esp_err_t \<times> sd_logger" where
  "sd_logger_write st data e =
     (if \<not> logging_enabled st \<or> log_file st = None then (ESP_OK, st)
      else
        (let st1 = snd (sd_logger_check_date st e) in
         case log_file st1 of
           Some f \<Rightarrow>
             (let written = fwrite_ret e;
                  st2 = st1\<lparr>sd_trace := sd_trace st1 @ [Fwrite f (take written data)]\<rparr>
              in if written \<noteq> length data then (ESP_FAIL, st2)
                 else (ESP_OK, st2\<lparr>sd_trace := sd_trace st2 @ [Fflush f]\<rparr>))
         | None \<Rightarrow> (ESP_FAIL, st1)))"

text \<open>The bytes handed to the card, in order, over a whole trace.\<close>

fun sd_bytes :: "sd_event list \<Rightarrow> 8 word list" where
  "sd_bytes [] = []"
| "sd_bytes (Fwrite f bs # es) = bs @ sd_bytes es"
| "sd_bytes (ev # es) = sd_bytes es"

section \<open>Socket client (main/interface/socket_client.c)\<close>

datatype net_event =
    Send int string
  | Close int
  | VTaskDelay int
  | StatusLed nat

record socket_client_stats_t =
  start_time :: int
  last_connect_time :: int
  last_disconnect_time :: int
  connection_count :: "32 word"
  stats_bytes_sent :: "32 word"
  stats_bytes_received :: "32 word"

text \<open>
  The static variables of the file.  The C names \<open>connected\<close> and
  \<open>client_stats.bytes_sent\<close> carry a prefix here, since the socket server has
  fields of the same names.
\<close>

record socket_client =
  client_running :: bool
  client_socket :: int
  client_connected :: bool
  client_stats :: socket_client_stats_t
  net_trace :: "net_event list"

definition RECONNECT_DELAY_MS :: int where
  "RECONNECT_DELAY_MS = 5000"

definition MAX_RECONNECT_DELAY_MS :: int where
  "MAX_RECONNECT_DELAY_MS = 60000"

definition socket_client_disconnect :: "socket_client \<Rightarrow> int \<Rightarrow> socket_client" where
  "socket_client_disconnect st now =
     (let st1 = (if client_socket st \<ge> 0
                 then st\<lparr>net_trace := net_trace st @ [Close (client_socket st)],
                         client_socket := -1\<rparr>
                 else st);
          st2 = st1\<lparr>client_connected := False,
                    client_stats := (client_stats st1)\<lparr>last_disconnect_time := now\<rparr>\<rparr>
      in st2\<lparr>net_trace := net_trace st2 @ [StatusLed 0xFF000000]\<rparr>)"

text \<open>
  \<open>sent\<close> is what \<open>send\<close> returns and \<open>now\<close> what \<open>time(NULL)\<close> returns should
  the failure branch ask for it.
\<close>

definition socket_client_send_data ::
  "socket_client \<Rightarrow> string \<Rightarrow> int \<Rightarrow> int \<Rightarrow> esp_err_t \<times> socket_client" where
  "socket_client_send_data st data sent now =
     (if \<not> client_connected st \<or> client_socket st < 0 then (ESP_ERR_INVALID_STATE, st)
      else
        (let st1 = st\<lparr>net_trace := net_trace st @ [Send (client_socket st) data]\<rparr> in
         if sent < 0 then (ESP_FAIL, socket_client_disconnect st1 now)
         else (ESP_OK, st1\<lparr>client_stats := (client_stats st1)
                 \<lparr>stats_bytes_sent := stats_bytes_sent (client_stats st1) + word_of_int sent\<rparr>\<rparr>)))"

definition socket_client_send_uart_data ::
  "socket_client \<Rightarrow> string \<Rightarrow> int \<Rightarrow> int \<Rightarrow> esp_err_t \<times> socket_client" where
  "socket_client_send_uart_data st data sent now = socket_client_send_data st data sent now"

text \<open>
  \<open>socket_client_connect\<close>.  What the environment decides in one pass of the
  connect loop: whether \<open>socket_client_deinit\<close> cleared \<open>client_running\<close> since the
  last test, whether \<open>gethostbyname\<close> found the host, what \<open>socket\<close> and \<open>connect\<close>
  return, the clock, the configured greeting and what the two \<open>send\<close> calls of the
  greeting return.
\<close>

record attempt =
  att_stop :: bool
  att_resolved :: bool
  att_socket :: int
  att_connect :: int
  att_now :: int
  att_msg :: "string option"
  att_sent1 :: int
  att_sent2 :: int

text \<open>
  The exponential backoff statement, written twice in the source (after a failed
  name resolution and after a failed \<open>connect\<close>).
\<close>

definition next_delay :: "int \<Rightarrow> int" where
  "next_delay reconnect_delay =
     (if reconnect_delay * 2 > MAX_RECONNECT_DELAY_MS then MAX_RECONNECT_DELAY_MS
      else reconnect_delay * 2)"

definition note_stop :: "socket_client \<Rightarrow> bool \<Rightarrow> socket_client" where
  "note_stop st stop = (if stop then st\<lparr>client_running := False\<rparr> else st)"

definition net_log :: "socket_client \<Rightarrow> net_event \<Rightarrow> socket_client" where
  "net_log st ev = st\<lparr>net_trace := net_trace st @ [ev]\<rparr>"

text \<open>
  The first loop: poll the station status once a second until WiFi is up.  Each
  element of the list is one round: the status read after the delay and whether
  the client was stopped meanwhile.  \<open>Some True\<close>: WiFi is up; \<open>Some False\<close>: the
  function returns \<open>ESP_FAIL\<close>; \<open>None\<close>: still waiting when the list ends.
\<close>

fun wifi_wait :: "socket_client \<Rightarrow> bool \<Rightarrow> (bool \<times> bool) list \<Rightarrow> bool option \<times> socket_client" where
  "wifi_wait st True ps = (Some True, st)"
| "wifi_wait st False [] = (None, st)"
| "wifi_wait st False ((up, stop) # ps) =
     (let st1 = note_stop (net_log st (VTaskDelay 1000)) stop in
      if \<not> client_running st1 then (Some False, st1) else wifi_wait st1 up ps)"

definition connect_success :: "socket_client \<Rightarrow> attempt \<Rightarrow> socket_client" where
  "connect_success st a =
     (let st1 = st\<lparr>client_connected := True,
                   client_stats := (client_stats st)
                     \<lparr>connection_count := connection_count (client_stats st) + 1,
                      last_connect_time := att_now a\<rparr>\<rparr>;
          st2 = (case att_msg a of
                   None \<Rightarrow> st1
                 | Some m \<Rightarrow>
                     if length m > 0
                     then (let s1 = snd (socket_client_send_data st1 m (att_sent1 a) (att_now a))
                           in snd (socket_client_send_data s1 [CHR 0x0D, CHR 0x0A] (att_sent2 a) (att_now a)))
                     else st1)
      in net_log st2 (StatusLed 0x00FF0000))"

text \<open>
  The second loop, \<open>while (client_running && !connected)\<close>, with the local variable
  \<open>reconnect_delay\<close> as first argument.  The result is the return value (\<open>None\<close>
  when the list of attempts ends while the loop is still running), the final
  value of \<open>reconnect_delay\<close> and the state.  The argument of every \<open>vTaskDelay\<close>
  is recorded in milliseconds, before the division by the tick period.
\<close>

fun connect_loop :: "int \<Rightarrow> socket_client \<Rightarrow> attempt list \<Rightarrow> esp_err_t option \<times> int \<times> socket_client" where
  "connect_loop reconnect_delay st [] = (None, reconnect_delay, st)"
| "connect_loop reconnect_delay st (a # as) =
     (let st0 = note_stop st (att_stop a) in
      if \<not> (client_running st0 \<and> \<not> client_connected st0) then (Some ESP_FAIL, reconnect_delay, st0)
      else if \<not> att_resolved a then
        connect_loop (next_delay reconnect_delay) (net_log st0 (VTaskDelay reconnect_delay)) as
      else
        (let st1 = st0\<lparr>client_socket := att_socket a\<rparr> in
         if client_socket st1 < 0 then
           connect_loop reconnect_delay (net_log st1 (VTaskDelay reconnect_delay)) as
         else if att_connect a \<noteq> 0 then
           connect_loop (next_delay reconnect_delay)
             (net_log ((net_log st1 (Close (client_socket st1)))\<lparr>client_socket := -1\<rparr>)
                (VTaskDelay reconnect_delay)) as
         else (Some ESP_OK, RECONNECT_DELAY_MS, connect_success st1 a)))"

definition socket_client_connect ::
  "socket_client \<Rightarrow> bool \<Rightarrow> (bool \<times> bool) list \<Rightarrow> attempt list \<Rightarrow> esp_err_t option \<times> int \<times> socket_client" where
  "socket_client_connect st wifi_up polls as =
     (case wifi_wait st wifi_up polls of
        (None, st1) \<Rightarrow> (None, RECONNECT_DELAY_MS, st1)
      | (Some False, st1) \<Rightarrow> (Some ESP_FAIL, RECONNECT_DELAY_MS, st1)
      | (Some True, st1) \<Rightarrow> connect_loop RECONNECT_DELAY_MS st1 as)"

text \<open>The delays of a trace, in order.\<close>

fun delays_of :: "net_event list \<Rightarrow> int list" where
  "delays_of [] = []"
| "delays_of (VTaskDelay d # es) = d # delays_of es"
| "delays_of (ev # es) = delays_of es"


section \<open>Socket server (the socket server file in src/unnamed/part_003)\<close>

definition MAX_CLIENTS :: nat where
  "MAX_CLIENTS = 10"

definition SOCKET_BUFFER_SIZE :: nat where
  "SOCKET_BUFFER_SIZE = 1024"

text \<open>
  \<open>struct sockaddr_in6\<close> comes from the network stack's headers; the fields are
  those of lwIP, which have no padding between them, so that \<open>memcmp\<close> over the
  struct returns 0 exactly when two values are equal as records.
\<close>

record sockaddr_in6 =
  sin6_len :: "8 word"
  sin6_family :: "8 word"
  sin6_port :: "16 word"
  sin6_flowinfo :: "32 word"
  sin6_addr :: "128 word"
  sin6_scope_id :: "32 word"

record socket_client_t =
  socket :: int
  addr :: sockaddr_in6
  connected :: bool
  bytes_sent :: "32 word"
  bytes_received :: "32 word"
  connect_time :: int

datatype srv_event =
    SrvClose int
  | SrvSend int string
  | SrvSendTo int sockaddr_in6 string
  | SrvUartWrite string

text \<open>
  The static variables of the file.  \<open>clients\<close> is the array
  \<open>clients[MAX_CLIENTS]\<close>; every operation below keeps its length.  \<open>udp_rx\<close> is
  the receive queue of the datagram socket, oldest datagram first, each with
  the address it came from: the part of the network stack that the two
  \<open>recvfrom\<close> calls of the server act on.
\<close>

record socket_server =
  server_running :: bool
  tcp_server_socket :: int
  udp_server_socket :: int
  clients :: "socket_client_t list"
  udp_rx :: "(sockaddr_in6 \<times> string) list"
  srv_trace :: "srv_event list"

definition srv_log :: "socket_server \<Rightarrow> srv_event \<Rightarrow> socket_server" where
  "srv_log st ev = st\<lparr>srv_trace := srv_trace st @ [ev]\<rparr>"

text \<open>The six assignments that claim slot \<open>i\<close> for a new peer.\<close>

definition claim_slot ::
  "socket_server \<Rightarrow> nat \<Rightarrow> int \<Rightarrow> sockaddr_in6 \<Rightarrow> int \<Rightarrow> socket_server" where
  "claim_slot st i sock source_addr now =
     st\<lparr>clients := (clients st)[i := \<lparr>socket = sock, addr = source_addr, connected = True,
            bytes_sent = 0, bytes_received = 0, connect_time = now\<rparr>]\<rparr>"

text \<open>\<open>for (int i = 0; i < MAX_CLIENTS; i++) if (!clients[i].connected) ...\<close>\<close>

function find_free :: "socket_client_t list \<Rightarrow> nat \<Rightarrow> nat option" where
  "find_free cs i =
     (if i < MAX_CLIENTS
      then (if \<not> connected (cs ! i) then Some i else find_free cs (i + 1))
      else None)"
  by pat_completeness auto
termination
  by (relation "measure (\<lambda>(cs, i). MAX_CLIENTS - i)") auto

declare find_free.simps [simp del]

text \<open>
  \<open>for (...) if (clients[i].connected && memcmp(&clients[i].addr, &source_addr,
  sizeof(source_addr)) == 0) ...\<close>
\<close>

function find_addr :: "socket_client_t list \<Rightarrow> sockaddr_in6 \<Rightarrow> nat \<Rightarrow> nat option" where
  "find_addr cs source_addr i =
     (if i < MAX_CLIENTS
      then (if connected (cs ! i) \<and> addr (cs ! i) = source_addr then Some i
            else find_addr cs source_addr (i + 1))
      else None)"
  by pat_completeness auto
termination
  by (relation "measure (\<lambda>(cs, a, i). MAX_CLIENTS - i)") auto

declare find_addr.simps [simp del]

text \<open>
  \<open>socket_tcp_accept\<close>: \<open>client_sock\<close> (the local \<open>client_socket\<close>) and \<open>source_addr\<close> are what \<open>accept\<close>
  returns, \<open>now\<close> is \<open>time(NULL)\<close>.
\<close>

definition socket_tcp_accept ::
  "socket_server \<Rightarrow> int \<Rightarrow> sockaddr_in6 \<Rightarrow> int \<Rightarrow> int \<times> socket_server" where
  "socket_tcp_accept st client_sock source_addr now =
     (if client_sock < 0 then (-1, st)
      else case find_free (clients st) 0 of
             Some i \<Rightarrow> (int i, claim_slot st i client_sock source_addr now)
           | None \<Rightarrow> (-1, srv_log st (SrvClose client_sock)))"

text \<open>
  \<open>socket_udp_accept\<close>: \<open>len\<close> and \<open>source_addr\<close> are what its
  \<open>recvfrom(..., MSG_PEEK, ...)\<close> returns.
\<close>

definition socket_udp_accept ::
  "socket_server \<Rightarrow> int \<Rightarrow> int \<Rightarrow> sockaddr_in6 \<Rightarrow> int \<Rightarrow> int \<times> socket_server" where
  "socket_udp_accept st server_socket len source_addr now =
     (if len < 0 then (-1, st)
      else case find_addr (clients st) source_addr 0 of
             Some i \<Rightarrow> (int i, st)
           | None \<Rightarrow>
               (case find_free (clients st) 0 of
                  Some i \<Rightarrow> (int i, claim_slot st i server_socket source_addr now)
                | None \<Rightarrow> (-1, st)))"

definition zero_sockaddr :: sockaddr_in6 where
  "zero_sockaddr = \<lparr>sin6_len = 0, sin6_family = 0, sin6_port = 0, sin6_flowinfo = 0,
     sin6_addr = 0, sin6_scope_id = 0\<rparr>"

definition zero_client :: socket_client_t where
  "zero_client = \<lparr>socket = 0, addr = zero_sockaddr, connected = False, bytes_sent = 0,
     bytes_received = 0, connect_time = 0\<rparr>"

definition socket_client_close :: "socket_server \<Rightarrow> int \<Rightarrow> socket_server" where
  "socket_client_close st client_index =
     (if client_index < 0 \<or> client_index \<ge> int MAX_CLIENTS then st
      else
        (let i = nat client_index; c = clients st ! i in
         if connected c then
           (let st1 = (if socket c \<noteq> tcp_server_socket st \<and> socket c \<noteq> udp_server_socket st
                       then srv_log st (SrvClose (socket c)) else st)
            in st1\<lparr>clients := (clients st1)[i := zero_client]\<rparr>)
         else st))"

text \<open>The call made for an occupied slot: \<open>sendto\<close> for a datagram peer, \<open>send\<close> otherwise.\<close>

definition send_call :: "socket_server \<Rightarrow> string \<Rightarrow> socket_client_t \<Rightarrow> srv_event" where
  "send_call st data c =
     (if socket c = udp_server_socket st then SrvSendTo (socket c) (addr c) data
      else SrvSend (socket c) data)"

text \<open>
  The body of the broadcast loop for slot \<open>i\<close>; \<open>sent\<close> is what \<open>sendto\<close> or
  \<open>send\<close> returns for that slot.
\<close>

definition send_to_client :: "socket_server \<Rightarrow> string \<Rightarrow> int \<Rightarrow> nat \<Rightarrow> socket_server" where
  "send_to_client st data sent i =
     (let c = clients st ! i in
      if connected c then
        (let st1 = srv_log st (send_call st data c)
         in if sent < 0
            then st1\<lparr>clients := (clients st1)[i := c\<lparr>connected := False\<rparr>]\<rparr>
            else st1\<lparr>clients := (clients st1)[i := c\<lparr>bytes_sent := bytes_sent c + word_of_int sent\<rparr>]\<rparr>)
      else st)"

function send_loop :: "socket_server \<Rightarrow> string \<Rightarrow> (nat \<Rightarrow> int) \<Rightarrow> nat \<Rightarrow> socket_server" where
  "send_loop st data res i =
     (if i < MAX_CLIENTS then send_loop (send_to_client st data (res i) i) data res (i + 1)
      else st)"
  by pat_completeness auto
termination
  by (relation "measure (\<lambda>(st, data, res, i). MAX_CLIENTS - i)") auto

declare send_loop.simps [simp del]

text \<open>
  \<open>socket_send_to_all_clients\<close>; \<open>res i\<close> is the result of the send made for
  slot \<open>i\<close>.
\<close>

definition socket_send_to_all_clients ::
  "socket_server \<Rightarrow> string \<Rightarrow> (nat \<Rightarrow> int) \<Rightarrow> socket_server" where
  "socket_send_to_all_clients st data res = send_loop st data res 0"

text \<open>
  The datagram branch of \<open>socket_server_task\<close>, entered when \<open>select\<close> reports the
  datagram socket readable.  \<open>recvfrom\<close> without flags removes the oldest
  datagram from the queue and copies at most \<open>sizeof(buffer) - 1\<close> bytes of it;
  the \<open>recvfrom\<close> with \<open>MSG_PEEK\<close> inside \<open>socket_udp_accept\<close>, which runs after
  it, reads the datagram that is then the oldest one, into a buffer of one
  byte, and leaves it queued.  The socket is a blocking one: on an empty queue
  the call does not return, which is the result \<open>None\<close>.
\<close>

definition udp_peek :: "(sockaddr_in6 \<times> string) list \<Rightarrow> (int \<times> sockaddr_in6) option" where
  "udp_peek q = (case q of [] \<Rightarrow> None | (a, d) # _ \<Rightarrow> Some (int (min 1 (length d)), a))"

definition add_received :: "socket_server \<Rightarrow> nat \<Rightarrow> int \<Rightarrow> socket_server" where
  "add_received st i len =
     st\<lparr>clients := (clients st)[i := (clients st ! i)
           \<lparr>bytes_received := bytes_received (clients st ! i) + word_of_int len\<rparr>]\<rparr>"

definition server_udp_data :: "socket_server \<Rightarrow> int \<Rightarrow> socket_server option" where
  "server_udp_data st now =
     (case udp_rx st of
        [] \<Rightarrow> None
      | (src, d) # q \<Rightarrow>
          (let buffer = take (SOCKET_BUFFER_SIZE - 1) d;
               len = int (length buffer);
               st1 = st\<lparr>udp_rx := q\<rparr>
           in if len > 0 then
                (case udp_peek q of
                   None \<Rightarrow> None
                 | Some (plen, source_addr) \<Rightarrow>
                     (let (client_idx, st2) =
                            socket_udp_accept st1 (udp_server_socket st1) plen source_addr now;
                          st3 = (if client_idx \<ge> 0 then add_received st2 (nat client_idx) len
                                 else st2)
                      in Some (srv_log st3 (SrvUartWrite buffer))))
              else Some st1))"

text \<open>
  The number of occupied slots, as \<open>socket_server_get_client_count\<close> counts
  them; \<open>mutex_created\<close> is whether \<open>clients_mutex\<close> is not \<open>NULL\<close>.
\<close>

definition socket_server_get_client_count :: "bool \<Rightarrow> socket_client_t list \<Rightarrow> nat" where
  "socket_server_get_client_count mutex_created cs =
     (if \<not> mutex_created then 0 else length (filter connected cs))"

text \<open>
  One pass of the loop of \<open>socket_server_task\<close> in which \<open>select\<close> reports
  activity.  The environment decides which handles \<open>select\<close> marked readable,
  what \<open>accept\<close> and each \<open>recv\<close> return, the clock, the bytes
  \<open>uart_read_bytes\<close> delivers and the result of each send of the broadcast.
\<close>

record pass_env =
  pe_tcp_ready :: bool
  pe_accept_socket :: int
  pe_accept_addr :: sockaddr_in6
  pe_udp_ready :: bool
  pe_now :: int
  pe_client_ready :: "nat \<Rightarrow> bool"
  pe_recv_len :: "nat \<Rightarrow> int"
  pe_recv_bytes :: "nat \<Rightarrow> string"
  pe_uart_data :: string
  pe_send_res :: "nat \<Rightarrow> int"

text \<open>The body of the loop that reads the stream peers, for slot \<open>i\<close>.\<close>

definition recv_from_client :: "socket_server \<Rightarrow> pass_env \<Rightarrow> nat \<Rightarrow> socket_server" where
  "recv_from_client st e i =
     (let c = clients st ! i in
      if connected c \<and> socket c \<noteq> udp_server_socket st \<and> pe_client_ready e i then
        (let len = pe_recv_len e i in
         if len > 0 then
           srv_log (add_received st i len) (SrvUartWrite (take (nat len) (pe_recv_bytes e i)))
         else st\<lparr>clients := (clients st)[i := c\<lparr>connected := False\<rparr>]\<rparr>)
      else st)"

function recv_loop :: "socket_server \<Rightarrow> pass_env \<Rightarrow> nat \<Rightarrow> socket_server" where
  "recv_loop st e i =
     (if i < MAX_CLIENTS then recv_loop (recv_from_client st e i) e (i + 1) else st)"
  by pat_completeness auto
termination
  by (relation "measure (\<lambda>(st, e, i). MAX_CLIENTS - i)") auto

declare recv_loop.simps [simp del]

text \<open>
  \<open>for (...) if (!clients[i].connected && clients[i].socket > 0)
  socket_client_close(i);\<close>
\<close>

function cleanup_loop :: "socket_server \<Rightarrow> nat \<Rightarrow> socket_server" where
  "cleanup_loop st i =
     (if i < MAX_CLIENTS
      then cleanup_loop
             (if \<not> connected (clients st ! i) \<and> socket (clients st ! i) > 0
              then socket_client_close st (int i) else st) (i + 1)
      else st)"
  by pat_completeness auto
termination
  by (relation "measure (\<lambda>(st, i). MAX_CLIENTS - i)") auto

declare cleanup_loop.simps [simp del]

text \<open>
  The pass: the new stream connection, the datagram branch, the stream peers,
  the cleanup, and the broadcast of the serial data read.  The result is \<open>None\<close>
  when the task blocks inside the pass, and then nothing that follows the
  blocking call in the pass is done.
\<close>

definition socket_server_task_pass :: "socket_server \<Rightarrow> pass_env \<Rightarrow> socket_server option" where
  "socket_server_task_pass st e =
     (let st1 = (if tcp_server_socket st \<ge> 0 \<and> pe_tcp_ready e
                 then snd (socket_tcp_accept st (pe_accept_socket e) (pe_accept_addr e) (pe_now e))
                 else st)
      in case (if udp_server_socket st1 \<ge> 0 \<and> pe_udp_ready e
               then server_udp_data st1 (pe_now e) else Some st1) of
           None \<Rightarrow> None
         | Some st2 \<Rightarrow>
             (let st3 = recv_loop st2 e 0;
                  st4 = cleanup_loop st3 0
              in Some (if length (pe_uart_data e) > 0
                       then socket_send_to_all_clients st4 (pe_uart_data e) (pe_send_res e)
                       else st4)))"


section \<open>Caster uplinks (the first file of src/unnamed/part_003 and main/interface/ntrip_server_2.c)\<close>

text \<open>
  The two files are the same program up to the log tag, the configuration keys
  and the tag in the status sentences (\<open>SRV\<close>, \<open>SRV2\<close>); each has its own
  \<open>static\<close> variables.  One model serves both, with the tag as a parameter and
  one state value per file.

  The files use names that their headers, which are not among the sources,
  define.  These are parameters of the model: the keep-alive threshold, the
  server name and application version that go into the request, the two error
  codes of \<open>connect_socket\<close>, and the functions \<open>extract_http_header\<close> and
  \<open>ntrip_response_ok\<close>.
\<close>

record ntrip_params =
  NTRIP_KEEP_ALIVE_THRESHOLD :: int
  NTRIP_SERVER_NAME :: string
  app_version :: string
  CONNECT_SOCKET_ERROR_RESOLVE :: int
  CONNECT_SOCKET_ERROR_CONNECT :: int
  extract_http_header :: "string \<Rightarrow> string \<Rightarrow> string option"
  ntrip_response_ok :: "string \<Rightarrow> bool"
  status_tag :: string

definition BUFFER_SIZE :: nat where
  "BUFFER_SIZE = 512"

definition CASTER_READY_BIT :: "32 word" where
  "CASTER_READY_BIT = 1"

definition DATA_READY_BIT :: "32 word" where
  "DATA_READY_BIT = 2"

definition DATA_SENT_BIT :: "32 word" where
  "DATA_SENT_BIT = 4"

text \<open>
  Modelled from the spec: the macro \<open>NEWLINE\<close> of \<open>interface/ntrip.h\<close>, which is
  not among the sources.  The spec has the request "using CRLF line endings".
\<close>

definition NEWLINE :: string where
  "NEWLINE = [CHR 0x0D, CHR 0x0A]"

datatype nmea_arg = S string | D int

datatype up_event =
    UWrite int string
  | URead int
  | UDestroy int
  | UConnect string "16 word"
  | UNmea string "nmea_arg list"
  | URetryDelay
  | URetryReset
  | UStats int
  | USetBits "32 word"
  | UClearBits "32 word"

text \<open>
  Where the worker task \<open>ntrip_server_task\<close> stands: about to call \<open>retry_delay\<close>
  at the top of its loop; blocked in \<open>xEventGroupWaitBits\<close>; released from that
  wait; past \<open>xEventGroupSetBits(server_event_group, CASTER_READY_BIT)\<close> and about
  to call \<open>vTaskSuspend(NULL)\<close>; suspended by that call; resumed from the
  suspension; ended by \<open>vTaskDelete\<close>.
\<close>

datatype worker_pc =
  AtRetryDelay | WaitingForData | AfterWait | CasterReady | Streaming | Woken | Exited

text \<open>
  The static variables of one file, the place of its worker, whether its
  keep-alive task is suspended, and the locals \<open>host\<close>, \<open>port\<close>, \<open>mountpoint\<close> of
  the worker, which live across its suspension.
\<close>

record uplink =
  event_bits :: "32 word"
  sock :: int
  data_keep_alive :: int
  status_led_active :: "bool option"
  worker :: worker_pc
  sleep_suspended :: bool
  endpoint :: "(string \<times> 16 word \<times> string) option"
  up_trace :: "up_event list"

definition up_log :: "uplink \<Rightarrow> up_event \<Rightarrow> uplink" where
  "up_log st ev = st\<lparr>up_trace := up_trace st @ [ev]\<rparr>"

text \<open>
  The event group and task calls of FreeRTOS, as far as this program uses them.
  The only wait on the group is the worker's
  \<open>xEventGroupWaitBits(server_event_group, DATA_READY_BIT, true, false,
  portMAX_DELAY)\<close>: setting \<open>DATA_READY_BIT\<close> while the worker is blocked there
  releases it, and since the wait asked for clear-on-exit the bit is cleared
  again.  \<open>vTaskResume\<close> of a task that is not suspended does nothing.
\<close>

definition xEventGroupSetBits :: "uplink \<Rightarrow> 32 word \<Rightarrow> uplink" where
  "xEventGroupSetBits st bits =
     (let st1 = up_log st (USetBits bits);
          b = event_bits st1 OR bits
      in if worker st1 = WaitingForData \<and> b AND DATA_READY_BIT \<noteq> 0
         then st1\<lparr>event_bits := b AND NOT DATA_READY_BIT, worker := AfterWait\<rparr>
         else st1\<lparr>event_bits := b\<rparr>)"

definition xEventGroupClearBits :: "uplink \<Rightarrow> 32 word \<Rightarrow> uplink" where
  "xEventGroupClearBits st bits =
     (up_log st (UClearBits bits))\<lparr>event_bits := event_bits st AND NOT bits\<rparr>"

definition vTaskResume_server_task :: "uplink \<Rightarrow> uplink" where
  "vTaskResume_server_task st = (if worker st = Streaming then st\<lparr>worker := Woken\<rparr> else st)"

text \<open>
  Modelled from the spec: \<open>destroy_socket\<close> of \<open>util.c\<close>, which is not among the
  sources.  The spec has a failure "tear down the socket" so that the
  connection holds no live handle afterwards: a handle that is open is closed,
  and the variable is set to the invalid handle -1.
\<close>

definition destroy_socket :: "uplink \<Rightarrow> uplink" where
  "destroy_socket st =
     (if sock st < 0 then st else (up_log st (UDestroy (sock st)))\<lparr>sock := -1\<rparr>)"

text \<open>
  \<open>ntrip_server_uart_handler\<close>, called with one chunk of serial data.  \<open>take_ok\<close>
  is whether \<open>xSemaphoreTake\<close> obtained the mutex within 100 ms, \<open>sent\<close> what
  \<open>write\<close> returns.
\<close>

definition ntrip_server_uart_handler :: "uplink \<Rightarrow> string \<Rightarrow> bool \<Rightarrow> int \<Rightarrow> uplink" where
  "ntrip_server_uart_handler st buffer take_ok sent =
     (let bits = event_bits st;
          st1 = (if bits AND DATA_READY_BIT = 0 then xEventGroupSetBits st DATA_READY_BIT else st);
          st2 = st1\<lparr>data_keep_alive := 0\<rparr>
      in if bits AND CASTER_READY_BIT = 0 then st2
         else
           (let st3 = (if bits AND DATA_SENT_BIT = 0 then xEventGroupSetBits st2 DATA_SENT_BIT
                       else st2)
            in if take_ok then
                 (if sock st3 \<ge> 0 then
                    (let st4 = up_log st3 (UWrite (sock st3) buffer)
                     in if sent < 0 then vTaskResume_server_task (destroy_socket st4)
                        else up_log st4 (UStats sent))
                  else st3)
               else st3))"

text \<open>
  \<open>int\<close> arithmetic of the keep-alive counter: the sum wraps to 32 bits and the
  division truncates towards zero.
\<close>

definition int32 :: "int \<Rightarrow> int" where
  "int32 x = (x + 2 ^ 31) mod 2 ^ 32 - 2 ^ 31"

definition c_div :: "int \<Rightarrow> int \<Rightarrow> int" where
  "c_div a b = sgn a * sgn b * (\<bar>a\<bar> div \<bar>b\<bar>)"

text \<open>
  One pass of the loop of \<open>ntrip_server_sleep_task\<close>; the pass ends in a
  \<open>vTaskDelay\<close> of a tenth of the threshold.  The task starts by suspending
  itself, and the worker suspends and resumes it; suspended it makes no pass.
\<close>

definition ntrip_server_sleep_task :: "ntrip_params \<Rightarrow> uplink \<Rightarrow> uplink" where
  "ntrip_server_sleep_task p st =
     (if sleep_suspended st then st
      else
        (let st1 = (if data_keep_alive st = NTRIP_KEEP_ALIVE_THRESHOLD p
                    then xEventGroupClearBits st DATA_READY_BIT else st)
         in st1\<lparr>data_keep_alive :=
                  int32 (data_keep_alive st1 + c_div (NTRIP_KEEP_ALIVE_THRESHOLD p) 10)\<rparr>))"

text \<open>
  What the environment decides during one connection attempt of the worker:
  the three configuration strings (\<open>None\<close> when the allocation failed) and the
  port, what \<open>connect_socket\<close>, \<open>write\<close> and \<open>read\<close> return, and the bytes \<open>read\<close>
  stored.
\<close>

record attempt_env =
  cfg_host :: "string option"
  cfg_password :: "string option"
  cfg_mountpoint :: "string option"
  cfg_port :: "16 word"
  connect_ret :: int
  write_ret :: int
  read_ret :: int
  read_buf :: string

text \<open>
  The request that \<open>snprintf\<close> leaves in the buffer of \<open>BUFFER_SIZE\<close> bytes: at most
  \<open>BUFFER_SIZE - 1\<close> characters of the formatted text.  \<open>&version[1]\<close> is the
  version string without its first character.
\<close>

definition request_text :: "ntrip_params \<Rightarrow> string \<Rightarrow> string \<Rightarrow> string" where
  "request_text p password mountpoint =
     ''SOURCE '' @ password @ '' /'' @ mountpoint @ NEWLINE @
     ''Source-Agent: NTRIP '' @ NTRIP_SERVER_NAME p @ ''/'' @ drop 1 (app_version p) @ NEWLINE @
     NEWLINE"

definition source_request :: "ntrip_params \<Rightarrow> string \<Rightarrow> string \<Rightarrow> string" where
  "source_request p password mountpoint =
     take (BUFFER_SIZE - 1) (request_text p password mountpoint)"

text \<open>The code after the label \<open>_error\<close>, which ends the pass of the loop.\<close>

definition error_exit :: "uplink \<Rightarrow> uplink" where
  "error_exit st =
     (destroy_socket (st\<lparr>sleep_suspended := True\<rparr>))\<lparr>endpoint := None, worker := AtRetryDelay\<rparr>"

definition set_led :: "uplink \<Rightarrow> bool \<Rightarrow> uplink" where
  "set_led st on =
     (case status_led_active st of None \<Rightarrow> st | Some _ \<Rightarrow> st\<lparr>status_led_active := Some on\<rparr>)"

text \<open>
  A connection attempt begins with \<open>vTaskResume(sleep_task)\<close> and then waits in
  \<open>wait_for_ip\<close> until the station has an address; the keep-alive task runs
  from here on, also while the worker is blocked in that wait or in
  \<open>connect_socket\<close>.
\<close>

definition attempt_begin :: "uplink \<Rightarrow> uplink" where
  "attempt_begin st = st\<lparr>sleep_suspended := False\<rparr>"

text \<open>
  The rest of the attempt, from the loading of the configuration to either the
  setting of \<open>CASTER_READY_BIT\<close> or the end of the pass through \<open>_error\<close>.
  \<open>ERROR_ACTION(tag, condition, action, ...)\<close> logs and runs the action when the
  condition holds.
\<close>

definition attempt_rest :: "ntrip_params \<Rightarrow> uplink \<Rightarrow> attempt_env \<Rightarrow> uplink" where
  "attempt_rest p st1 e =
     (case (cfg_host e, cfg_password e, cfg_mountpoint e) of
        (Some host, Some password, Some mountpoint) \<Rightarrow>
          (let st2 = up_log (st1\<lparr>endpoint := Some (host, cfg_port e, mountpoint)\<rparr>)
                       (UNmea (''$PESP,NTRIP,'' @ status_tag p @ '',CONNECTING,%s:%d,%s'')
                          [S host, D (uint (cfg_port e)), S mountpoint]);
               st3 = (up_log st2 (UConnect host (cfg_port e)))\<lparr>sock := connect_ret e\<rparr>
           in if sock st3 = CONNECT_SOCKET_ERROR_RESOLVE p then error_exit st3
              else if sock st3 = CONNECT_SOCKET_ERROR_CONNECT p then error_exit st3
              else
                (let st4 = up_log st3 (UWrite (sock st3) (source_request p password mountpoint))
                 in if write_ret e < 0 then error_exit st4
                    else
                      (let st5 = up_log st4 (URead (sock st4)) in
                       if read_ret e \<le> 0 then error_exit st5
                       else
                         (case extract_http_header p (take (nat (read_ret e)) (read_buf e)) [] of
                            None \<Rightarrow> error_exit st5
                          | Some status \<Rightarrow>
                              if \<not> ntrip_response_ok p status then error_exit st5
                              else
                                (let st6 = up_log st5
                                       (UNmea (''$PESP,NTRIP,'' @ status_tag p @ '',CONNECTED,%s:%d,%s'')
                                          [S host, D (uint (cfg_port e)), S mountpoint]);
                                     st7 = set_led (up_log st6 URetryReset) True;
                                     st8 = xEventGroupSetBits st7 CASTER_READY_BIT
                                 in st8\<lparr>worker := CasterReady\<rparr>)))))
      | _ \<Rightarrow> error_exit st1)"

text \<open>
  The whole attempt, from \<open>vTaskResume(sleep_task)\<close> to either the setting of
  \<open>CASTER_READY_BIT\<close> or the end of the pass through \<open>_error\<close>.
\<close>

definition connect_attempt :: "ntrip_params \<Rightarrow> uplink \<Rightarrow> attempt_env \<Rightarrow> uplink" where
  "connect_attempt p st e = attempt_rest p (attempt_begin st) e"

text \<open>The worker after its suspension ends: the disconnect handling, then \<open>_error\<close>.\<close>

definition after_suspend :: "ntrip_params \<Rightarrow> uplink \<Rightarrow> uplink" where
  "after_suspend p st =
     (let st1 = set_led (xEventGroupClearBits st (CASTER_READY_BIT OR DATA_SENT_BIT)) False;
          st2 = (case endpoint st1 of
                   None \<Rightarrow> st1
                 | Some (host, port, mountpoint) \<Rightarrow>
                     up_log st1
                       (UNmea (''$PESP,NTRIP,'' @ status_tag p @ '',DISCONNECTED,%s:%d,%s'')
                          [S host, D (uint port), S mountpoint]))
      in error_exit st2)"

text \<open>
  The worker up to its loop: it creates the event group (no bit set) and the
  mutex, registers the handler, creates the keep-alive task, adds the status
  indicator when a colour is configured, and allocates its buffer.  Without the
  mutex or the buffer it deletes itself.
\<close>

definition ntrip_server_task_start :: "bool \<Rightarrow> bool \<Rightarrow> bool \<Rightarrow> uplink" where
  "ntrip_server_task_start mutex_ok led_added buffer_ok =
     \<lparr>event_bits = 0, sock = -1, data_keep_alive = 0,
      status_led_active = (if mutex_ok \<and> led_added then Some False else None),
      worker = (if mutex_ok \<and> buffer_ok then AtRetryDelay else Exited),
      sleep_suspended = True, endpoint = None, up_trace = []\<rparr>"

text \<open>
  The worker runs from where it stands until it next blocks, has set
  \<open>CASTER_READY_BIT\<close>, suspends itself or reaches the top of its loop.  Blocked or
  suspended it does not move.
\<close>

definition ntrip_server_task :: "ntrip_params \<Rightarrow> uplink \<Rightarrow> attempt_env \<Rightarrow> uplink" where
  "ntrip_server_task p st e =
     (case worker st of
        AtRetryDelay \<Rightarrow>
          (let st1 = up_log st URetryDelay in
           if event_bits st1 AND DATA_READY_BIT = 0
           then (up_log st1 (UNmea (''$PESP,NTRIP,'' @ status_tag p @ '',WAITING'') []))
                  \<lparr>worker := WaitingForData\<rparr>
           else connect_attempt p st1 e)
      | AfterWait \<Rightarrow> connect_attempt p st e
      | CasterReady \<Rightarrow> st\<lparr>worker := Streaming\<rparr>
      | Woken \<Rightarrow> after_suspend p st
      | WaitingForData \<Rightarrow> st
      | Streaming \<Rightarrow> st
      | Exited \<Rightarrow> st)"

text \<open>
  Modelled from the spec: the source dispatch (\<open>uart.c\<close>, not among the
  sources), which "delivers each chunk of serial data synchronously to every
  registered subscriber on the same call path".  Both uplinks register their
  handler; each handler runs on the state of its own file, with its own mutex
  and its own \<open>write\<close>.
\<close>

definition uart_dispatch ::
  "uplink \<times> uplink \<Rightarrow> string \<Rightarrow> bool \<times> int \<Rightarrow> bool \<times> int \<Rightarrow> uplink \<times> uplink" where
  "uart_dispatch ups buffer ea eb =
     (ntrip_server_uart_handler (fst ups) buffer (fst ea) (snd ea),
      ntrip_server_uart_handler (snd ups) buffer (fst eb) (snd eb))"

text \<open>The events a run appended to the trace.\<close>

definition new_events :: "uplink \<Rightarrow> uplink \<Rightarrow> up_event list" where
  "new_events st st' = drop (length (up_trace st)) (up_trace st')"


section \<open>Properties of the SD card logger\<close>

lemma sd_check_date_enabled:
  "logging_enabled (snd (sd_logger_check_date st e)) = logging_enabled st"
  by (simp add: sd_logger_check_date_def sd_close_current_def Let_def split: option.splits)

lemma sd_bytes_append: "sd_bytes (xs @ ys) = sd_bytes xs @ sd_bytes ys"
  by (induction xs rule: sd_bytes.induct) simp_all

text \<open>
  Claim C10.  \<open>sd_logger_write\<close> returns \<open>ESP_OK\<close> and leaves the state (hence the
  card) untouched when logging is disabled or no file is open.  With logging
  enabled and a file open it returns either \<open>ESP_OK\<close> or \<open>ESP_FAIL\<close>; it returns
  \<open>ESP_OK\<close> exactly when a file is open after the date check and \<open>fwrite\<close> reports
  all \<open>len\<close> items, and then the bytes handed to the card are the whole buffer.
\<close>

theorem sd_logger_write_result:
  "(\<not> logging_enabled st \<or> log_file st = None \<longrightarrow>
      sd_logger_write st data e = (ESP_OK, st)) \<and>
   (logging_enabled st \<and> log_file st \<noteq> None \<longrightarrow>
      (fst (sd_logger_write st data e) = ESP_OK \<or> fst (sd_logger_write st data e) = ESP_FAIL) \<and>
      (fst (sd_logger_write st data e) = ESP_OK \<longleftrightarrow>
         log_file (snd (sd_logger_check_date st e)) \<noteq> None \<and> fwrite_ret e = length data) \<and>
      (fst (sd_logger_write st data e) = ESP_OK \<longrightarrow>
         sd_bytes (sd_trace (snd (sd_logger_write st data e))) =
           sd_bytes (sd_trace (snd (sd_logger_check_date st e))) @ data))"
proof (intro conjI impI)
  assume "\<not> logging_enabled st \<or> log_file st = None"
  then show "sd_logger_write st data e = (ESP_OK, st)"
    by (auto simp add: sd_logger_write_def)
next
  assume a: "logging_enabled st \<and> log_file st \<noteq> None"
  show "fst (sd_logger_write st data e) = ESP_OK \<or> fst (sd_logger_write st data e) = ESP_FAIL"
    using a by (simp add: sd_logger_write_def Let_def split: option.splits)
next
  assume a: "logging_enabled st \<and> log_file st \<noteq> None"
  show "fst (sd_logger_write st data e) = ESP_OK \<longleftrightarrow>
         log_file (snd (sd_logger_check_date st e)) \<noteq> None \<and> fwrite_ret e = length data"
    using a by (simp add: sd_logger_write_def Let_def split: option.splits)
next
  assume a: "logging_enabled st \<and> log_file st \<noteq> None"
     and ok: "fst (sd_logger_write st data e) = ESP_OK"
  from a ok show "sd_bytes (sd_trace (snd (sd_logger_write st data e))) =
           sd_bytes (sd_trace (snd (sd_logger_check_date st e))) @ data"
    by (auto simp add: sd_logger_write_def Let_def sd_bytes_append
        split: option.splits if_splits)
qed

theorem sd_logger_write_result_witness:
  "sd_logger_write \<lparr>log_file = None, current_date = ''20240101'', logging_enabled = True,
        sd_trace = []\<rparr> [1, 2, 3] \<lparr>new_date = ''20240101'', fopen_ok = True, fwrite_ret = 3\<rparr>
     = (ESP_OK, \<lparr>log_file = None, current_date = ''20240101'', logging_enabled = True,
        sd_trace = []\<rparr>) \<and>
   fst (sd_logger_write \<lparr>log_file = Some ''f'', current_date = ''20240101'',
        logging_enabled = True, sd_trace = []\<rparr> [1, 2, 3]
        \<lparr>new_date = ''20240101'', fopen_ok = True, fwrite_ret = 3\<rparr>) = ESP_OK \<and>
   sd_bytes (sd_trace (snd (sd_logger_write \<lparr>log_file = Some ''f'', current_date = ''20240101'',
        logging_enabled = True, sd_trace = []\<rparr> [1, 2, 3]
        \<lparr>new_date = ''20240101'', fopen_ok = True, fwrite_ret = 3\<rparr>))) = [1, 2, 3]"
proof -
  let ?off = "\<lparr>log_file = None, current_date = ''20240101'', logging_enabled = True,
        sd_trace = []\<rparr>"
  let ?on = "\<lparr>log_file = Some ''f'', current_date = ''20240101'',
        logging_enabled = True, sd_trace = []\<rparr>"
  let ?e = "\<lparr>new_date = ''20240101'', fopen_ok = True, fwrite_ret = 3\<rparr>"
  have same: "sd_logger_check_date ?on ?e = (ESP_OK, ?on)"
    by (simp add: sd_logger_check_date_def)
  from sd_logger_write_result [of ?off "[1, 2, 3]" ?e]
  have 1: "sd_logger_write ?off [1, 2, 3] ?e = (ESP_OK, ?off)" by simp
  from sd_logger_write_result [of ?on "[1, 2, 3]" ?e]
  have 2: "fst (sd_logger_write ?on [1, 2, 3] ?e) = ESP_OK"
    by (simp add: same)
  from sd_logger_write_result [of ?on "[1, 2, 3]" ?e] 2
  have 3: "sd_bytes (sd_trace (snd (sd_logger_write ?on [1, 2, 3] ?e))) = [1, 2, 3]"
    by (simp add: same)
  from 1 2 3 show ?thesis by simp
qed

section \<open>Properties of the socket client\<close>

text \<open>
  Claim C9.  When the client is not connected or its socket handle is negative,
  \<open>socket_client_send_data\<close> and \<open>socket_client_send_uart_data\<close> return
  \<open>ESP_ERR_INVALID_STATE\<close> and leave the whole state unchanged: nothing is sent
  and the statistics keep their values.  When connected, a failed \<open>send\<close> closes
  the socket, marks the client disconnected and returns \<open>ESP_FAIL\<close>; a successful
  one adds the count to \<open>bytes_sent\<close> and returns \<open>ESP_OK\<close>.
\<close>

theorem socket_client_send_data_result:
  "(\<not> client_connected st \<or> client_socket st < 0 \<longrightarrow>
      socket_client_send_data st data sent now = (ESP_ERR_INVALID_STATE, st) \<and>
      socket_client_send_uart_data st data sent now = (ESP_ERR_INVALID_STATE, st)) \<and>
   (client_connected st \<and> client_socket st \<ge> 0 \<and> sent < 0 \<longrightarrow>
      fst (socket_client_send_uart_data st data sent now) = ESP_FAIL \<and>
      \<not> client_connected (snd (socket_client_send_uart_data st data sent now)) \<and>
      client_socket (snd (socket_client_send_uart_data st data sent now)) = -1 \<and>
      net_trace (snd (socket_client_send_uart_data st data sent now)) =
        net_trace st @ [Send (client_socket st) data, Close (client_socket st), StatusLed 0xFF000000] \<and>
      stats_bytes_sent (client_stats (snd (socket_client_send_uart_data st data sent now))) =
        stats_bytes_sent (client_stats st)) \<and>
   (client_connected st \<and> client_socket st \<ge> 0 \<and> sent \<ge> 0 \<longrightarrow>
      fst (socket_client_send_uart_data st data sent now) = ESP_OK \<and>
      stats_bytes_sent (client_stats (snd (socket_client_send_uart_data st data sent now))) =
        stats_bytes_sent (client_stats st) + word_of_int sent \<and>
      client_connected (snd (socket_client_send_uart_data st data sent now)) \<and>
      client_socket (snd (socket_client_send_uart_data st data sent now)) = client_socket st \<and>
      net_trace (snd (socket_client_send_uart_data st data sent now)) =
        net_trace st @ [Send (client_socket st) data])"
  by (auto simp add: socket_client_send_uart_data_def socket_client_send_data_def
      socket_client_disconnect_def Let_def)

theorem socket_client_send_data_result_witness:
  "socket_client_send_uart_data
     \<lparr>client_running = True, client_socket = -1, client_connected = False,
      client_stats = \<lparr>start_time = 0, last_connect_time = 0, last_disconnect_time = 0,
        connection_count = 0, stats_bytes_sent = 7, stats_bytes_received = 0\<rparr>,
      net_trace = []\<rparr> ''abc'' 3 100
   = (ESP_ERR_INVALID_STATE,
     \<lparr>client_running = True, client_socket = -1, client_connected = False,
      client_stats = \<lparr>start_time = 0, last_connect_time = 0, last_disconnect_time = 0,
        connection_count = 0, stats_bytes_sent = 7, stats_bytes_received = 0\<rparr>,
      net_trace = []\<rparr>) \<and>
   fst (socket_client_send_uart_data
     \<lparr>client_running = True, client_socket = 5, client_connected = True,
      client_stats = \<lparr>start_time = 0, last_connect_time = 0, last_disconnect_time = 0,
        connection_count = 1, stats_bytes_sent = 7, stats_bytes_received = 0\<rparr>,
      net_trace = []\<rparr> ''abc'' (-1) 100) = ESP_FAIL \<and>
   stats_bytes_sent (client_stats (snd (socket_client_send_uart_data
     \<lparr>client_running = True, client_socket = 5, client_connected = True,
      client_stats = \<lparr>start_time = 0, last_connect_time = 0, last_disconnect_time = 0,
        connection_count = 1, stats_bytes_sent = 7, stats_bytes_received = 0\<rparr>,
      net_trace = []\<rparr> ''abc'' 3 100))) = 10"
proof -
  let ?stats = "\<lparr>start_time = 0, last_connect_time = 0, last_disconnect_time = 0,
        connection_count = 0, stats_bytes_sent = 7, stats_bytes_received = 0\<rparr>"
  let ?stats1 = "\<lparr>start_time = 0, last_connect_time = 0, last_disconnect_time = 0,
        connection_count = 1, stats_bytes_sent = 7, stats_bytes_received = 0\<rparr>"
  let ?off = "\<lparr>client_running = True, client_socket = -1, client_connected = False,
      client_stats = ?stats, net_trace = []\<rparr>"
  let ?on = "\<lparr>client_running = True, client_socket = 5, client_connected = True,
      client_stats = ?stats1, net_trace = []\<rparr>"
  from socket_client_send_data_result [of ?off "''abc''" 3 100]
  have 1: "socket_client_send_uart_data ?off ''abc'' 3 100 = (ESP_ERR_INVALID_STATE, ?off)"
    by simp
  from socket_client_send_data_result [of ?on "''abc''" "-1" 100]
  have 2: "fst (socket_client_send_uart_data ?on ''abc'' (-1) 100) = ESP_FAIL"
    by simp
  from socket_client_send_data_result [of ?on "''abc''" 3 100]
  have 3: "stats_bytes_sent (client_stats (snd (socket_client_send_uart_data ?on ''abc'' 3 100))) = 10"
    by simp
  from 1 2 3 show ?thesis by simp
qed

lemma delays_of_append: "delays_of (xs @ ys) = delays_of xs @ delays_of ys"
  by (induction xs rule: delays_of.induct) simp_all

lemma next_delay_bounds:
  "RECONNECT_DELAY_MS \<le> d \<Longrightarrow> d \<le> MAX_RECONNECT_DELAY_MS \<Longrightarrow>
     d \<le> next_delay d \<and> next_delay d \<le> MAX_RECONNECT_DELAY_MS"
  by (simp add: next_delay_def RECONNECT_DELAY_MS_def MAX_RECONNECT_DELAY_MS_def)

lemma net_trace_note_stop: "net_trace (note_stop st b) = net_trace st"
  by (simp add: note_stop_def)



lemma connect_loop_step:
  assumes lo: "RECONNECT_DELAY_MS \<le> d" and hi: "d \<le> MAX_RECONNECT_DELAY_MS"
    and d': "d \<le> d'" "d' \<le> MAX_RECONNECT_DELAY_MS"
    and tr: "delays_of (net_trace st') = delays_of (net_trace st) @ [d]"
    and IH: "\<exists>ds. delays_of (net_trace (snd (snd (connect_loop d' st' as)))) = delays_of (net_trace st') @ ds \<and>
        sorted ds \<and> (\<forall>x \<in> set ds. d' \<le> x \<and> x \<le> MAX_RECONNECT_DELAY_MS) \<and>
        RECONNECT_DELAY_MS \<le> fst (snd (connect_loop d' st' as)) \<and>
        fst (snd (connect_loop d' st' as)) \<le> MAX_RECONNECT_DELAY_MS"
  shows "\<exists>ds. delays_of (net_trace (snd (snd (connect_loop d' st' as)))) = delays_of (net_trace st) @ ds \<and>
        sorted ds \<and> (\<forall>x \<in> set ds. d \<le> x \<and> x \<le> MAX_RECONNECT_DELAY_MS) \<and>
        RECONNECT_DELAY_MS \<le> fst (snd (connect_loop d' st' as)) \<and>
        fst (snd (connect_loop d' st' as)) \<le> MAX_RECONNECT_DELAY_MS"
proof -
  from IH obtain ds where
    1: "delays_of (net_trace (snd (snd (connect_loop d' st' as)))) = delays_of (net_trace st') @ ds"
    and 2: "sorted ds" and 3: "\<forall>x \<in> set ds. d' \<le> x \<and> x \<le> MAX_RECONNECT_DELAY_MS"
    and 4: "RECONNECT_DELAY_MS \<le> fst (snd (connect_loop d' st' as))"
           "fst (snd (connect_loop d' st' as)) \<le> MAX_RECONNECT_DELAY_MS"
    by blast
  have "sorted (d # ds)" using 2 3 d' by auto
  moreover have "\<forall>x \<in> set (d # ds). d \<le> x \<and> x \<le> MAX_RECONNECT_DELAY_MS"
    using 3 d' hi by auto
  moreover have "delays_of (net_trace (snd (snd (connect_loop d' st' as)))) = delays_of (net_trace st) @ (d # ds)"
    using 1 tr by simp
  ultimately show ?thesis using 4 by blast
qed

lemma connect_loop_delays:
  "RECONNECT_DELAY_MS \<le> d \<Longrightarrow> d \<le> MAX_RECONNECT_DELAY_MS \<Longrightarrow>
   \<exists>ds. delays_of (net_trace (snd (snd (connect_loop d st as)))) = delays_of (net_trace st) @ ds \<and>
        sorted ds \<and> (\<forall>x \<in> set ds. d \<le> x \<and> x \<le> MAX_RECONNECT_DELAY_MS) \<and>
        RECONNECT_DELAY_MS \<le> fst (snd (connect_loop d st as)) \<and>
        fst (snd (connect_loop d st as)) \<le> MAX_RECONNECT_DELAY_MS"
proof (induction as arbitrary: d st)
  case Nil
  then show ?case by simp
next
  case (Cons a as)
  let ?st0 = "note_stop st (att_stop a)"
  let ?st1 = "?st0\<lparr>client_socket := att_socket a\<rparr>"
  have nd: "d \<le> next_delay d" "next_delay d \<le> MAX_RECONNECT_DELAY_MS"
    "RECONNECT_DELAY_MS \<le> next_delay d"
    using next_delay_bounds [OF Cons.prems] Cons.prems by auto
  consider (stop) "\<not> (client_running ?st0 \<and> \<not> client_connected ?st0)"
    | (resolve) "client_running ?st0 \<and> \<not> client_connected ?st0" "\<not> att_resolved a"
    | (sock) "client_running ?st0 \<and> \<not> client_connected ?st0" "att_resolved a" "att_socket a < 0"
    | (conn) "client_running ?st0 \<and> \<not> client_connected ?st0" "att_resolved a" "\<not> att_socket a < 0" "att_connect a \<noteq> 0"
    | (ok) "client_running ?st0 \<and> \<not> client_connected ?st0" "att_resolved a" "\<not> att_socket a < 0" "att_connect a = 0"
    by blast
  then show ?case
  proof cases
    case stop
    then have "connect_loop d st (a # as) = (Some ESP_FAIL, d, ?st0)"
      by (simp add: Let_def)
    then show ?thesis using Cons.prems by (simp add: net_trace_note_stop)
  next
    case resolve
    let ?st' = "net_log ?st0 (VTaskDelay d)"
    have eq: "connect_loop d st (a # as) = connect_loop (next_delay d) ?st' as"
      using resolve by (simp add: Let_def)
    have tr: "delays_of (net_trace ?st') = delays_of (net_trace st) @ [d]"
      by (simp add: net_log_def net_trace_note_stop delays_of_append)
    show ?thesis unfolding eq
      by (rule connect_loop_step [OF Cons.prems nd(1,2) tr Cons.IH [OF nd(3) nd(2)]])
  next
    case sock
    let ?st' = "net_log ?st1 (VTaskDelay d)"
    have eq: "connect_loop d st (a # as) = connect_loop d ?st' as"
      using sock by (simp add: Let_def)
    have tr: "delays_of (net_trace ?st') = delays_of (net_trace st) @ [d]"
      by (simp add: net_log_def net_trace_note_stop delays_of_append)
    show ?thesis unfolding eq
      by (rule connect_loop_step [OF Cons.prems order_refl Cons.prems(2) tr Cons.IH [OF Cons.prems]])
  next
    case conn
    let ?st' = "net_log ((net_log ?st1 (Close (client_socket ?st1)))\<lparr>client_socket := -1\<rparr>) (VTaskDelay d)"
    have eq: "connect_loop d st (a # as) = connect_loop (next_delay d) ?st' as"
      using conn by (simp add: Let_def)
    have tr: "delays_of (net_trace ?st') = delays_of (net_trace st) @ [d]"
      by (simp add: net_log_def net_trace_note_stop delays_of_append)
    show ?thesis unfolding eq
      by (rule connect_loop_step [OF Cons.prems nd(1,2) tr Cons.IH [OF nd(3) nd(2)]])
  next
    case ok
    have eq: "connect_loop d st (a # as) = (Some ESP_OK, RECONNECT_DELAY_MS, connect_success ?st1 a)"
      using ok by (simp add: Let_def)
    have tr: "delays_of (net_trace (connect_success ?st1 a)) = delays_of (net_trace st)"
      by (simp add: connect_success_def net_log_def net_trace_note_stop delays_of_append Let_def
          socket_client_send_data_def socket_client_disconnect_def split: option.splits)
    show ?thesis unfolding eq using tr
      by (simp add: RECONNECT_DELAY_MS_def MAX_RECONNECT_DELAY_MS_def)
  qed
qed

lemma wifi_wait_delays:
  "\<exists>k. delays_of (net_trace (snd (wifi_wait st up ps))) = delays_of (net_trace st) @ replicate k 1000"
proof (induction st up ps rule: wifi_wait.induct)
  case (1 st ps)
  have "delays_of (net_trace (snd (wifi_wait st True ps))) = delays_of (net_trace st) @ replicate 0 1000"
    by simp
  then show ?case by blast
next
  case (2 st)
  have "delays_of (net_trace (snd (wifi_wait st False []))) = delays_of (net_trace st) @ replicate 0 1000"
    by simp
  then show ?case by blast
next
  case (3 st up stop ps)
  let ?st1 = "note_stop (net_log st (VTaskDelay 1000)) stop"
  have tr: "delays_of (net_trace ?st1) = delays_of (net_trace st) @ [1000]"
    by (simp add: net_trace_note_stop net_log_def delays_of_append)
  show ?case
  proof (cases "client_running ?st1")
    case False
    then have "wifi_wait st False ((up, stop) # ps) = (Some False, ?st1)"
      by (simp add: Let_def)
    then have "delays_of (net_trace (snd (wifi_wait st False ((up, stop) # ps)))) =
        delays_of (net_trace st) @ replicate 1 1000"
      using tr by simp
    then show ?thesis by blast
  next
    case True
    then have eq: "wifi_wait st False ((up, stop) # ps) = wifi_wait ?st1 up ps"
      by (simp add: Let_def)
    from 3 [OF refl] True obtain k where
      "delays_of (net_trace (snd (wifi_wait ?st1 up ps))) = delays_of (net_trace ?st1) @ replicate k 1000"
      by blast
    then have "delays_of (net_trace (snd (wifi_wait st False ((up, stop) # ps)))) =
        delays_of (net_trace st) @ replicate (Suc k) 1000"
      using tr eq by simp
    then show ?thesis by blast
  qed
qed

lemma connect_loop_ok_delay:
  "fst (connect_loop d st as) = Some ESP_OK \<Longrightarrow>
     fst (snd (connect_loop d st as)) = RECONNECT_DELAY_MS"
  by (induction as arbitrary: d st) (auto simp add: Let_def split: if_splits)

text \<open>
  Claim C4.  Within one run of \<open>socket_client_connect\<close> (all consecutive failed
  attempts of the connection happen inside one run, which returns only on
  success or when the client is stopped), the delays passed to \<open>vTaskDelay\<close> form
  a non-decreasing sequence that never exceeds the cap \<open>MAX_RECONNECT_DELAY_MS\<close>,
  and when the run ends with a successful connect the variable
  \<open>reconnect_delay\<close> holds the minimum \<open>RECONNECT_DELAY_MS\<close> again.
\<close>

theorem socket_client_connect_backoff:
  "sorted (drop (length (delays_of (net_trace st)))
            (delays_of (net_trace (snd (snd (socket_client_connect st up ps as)))))) \<and>
   (\<forall>x \<in> set (drop (length (delays_of (net_trace st)))
            (delays_of (net_trace (snd (snd (socket_client_connect st up ps as)))))).
      x \<le> MAX_RECONNECT_DELAY_MS) \<and>
   (fst (socket_client_connect st up ps as) = Some ESP_OK \<longrightarrow>
      fst (snd (socket_client_connect st up ps as)) = RECONNECT_DELAY_MS)"
proof -
  obtain r st1 where w: "wifi_wait st up ps = (r, st1)" by (cases "wifi_wait st up ps")
  from wifi_wait_delays [of st up ps] w obtain k where
    k: "delays_of (net_trace st1) = delays_of (net_trace st) @ replicate k 1000"
    by auto
  have bounds: "(1000::int) \<le> RECONNECT_DELAY_MS" "(1000::int) \<le> MAX_RECONNECT_DELAY_MS"
    "RECONNECT_DELAY_MS \<le> MAX_RECONNECT_DELAY_MS"
    by (simp_all add: RECONNECT_DELAY_MS_def MAX_RECONNECT_DELAY_MS_def)
  show ?thesis
  proof (cases "r = Some True")
    case False
    then have "snd (snd (socket_client_connect st up ps as)) = st1 \<and>
        fst (socket_client_connect st up ps as) \<noteq> Some ESP_OK"
      using w by (cases r) (auto simp add: socket_client_connect_def split: bool.splits)
    then show ?thesis using k bounds by (simp add: sorted_replicate)
  next
    case True
    then have eq: "socket_client_connect st up ps as = connect_loop RECONNECT_DELAY_MS st1 as"
      using w by (simp add: socket_client_connect_def)
    from connect_loop_delays [OF order_refl bounds(3), of st1 as] obtain ds where
      ds: "delays_of (net_trace (snd (snd (connect_loop RECONNECT_DELAY_MS st1 as)))) =
             delays_of (net_trace st1) @ ds"
        "sorted ds" "\<forall>x \<in> set ds. RECONNECT_DELAY_MS \<le> x \<and> x \<le> MAX_RECONNECT_DELAY_MS"
      by blast
    have fin: "fst (connect_loop RECONNECT_DELAY_MS st1 as) = Some ESP_OK \<longrightarrow>
        fst (snd (connect_loop RECONNECT_DELAY_MS st1 as)) = RECONNECT_DELAY_MS"
      using connect_loop_ok_delay by blast
    have "sorted (replicate k 1000 @ ds)"
      using ds(2,3) bounds by (auto simp add: sorted_append sorted_replicate)
    then show ?thesis unfolding eq using ds k bounds fin by auto
  qed
qed

theorem socket_client_connect_backoff_witness:
  "delays_of (net_trace (snd (snd (socket_client_connect
      \<lparr>client_running = True, client_socket = -1, client_connected = False,
       client_stats = \<lparr>start_time = 0, last_connect_time = 0, last_disconnect_time = 0,
         connection_count = 0, stats_bytes_sent = 0, stats_bytes_received = 0\<rparr>,
       net_trace = []\<rparr> True []
      [\<lparr>att_stop = False, att_resolved = False, att_socket = 0, att_connect = 0, att_now = 0,
         att_msg = None, att_sent1 = 0, att_sent2 = 0\<rparr>,
       \<lparr>att_stop = False, att_resolved = True, att_socket = 3, att_connect = -1, att_now = 0,
         att_msg = None, att_sent1 = 0, att_sent2 = 0\<rparr>,
       \<lparr>att_stop = False, att_resolved = True, att_socket = 3, att_connect = 0, att_now = 9,
         att_msg = None, att_sent1 = 0, att_sent2 = 0\<rparr>])))) = [5000, 10000] \<and>
   fst (snd (socket_client_connect
      \<lparr>client_running = True, client_socket = -1, client_connected = False,
       client_stats = \<lparr>start_time = 0, last_connect_time = 0, last_disconnect_time = 0,
         connection_count = 0, stats_bytes_sent = 0, stats_bytes_received = 0\<rparr>,
       net_trace = []\<rparr> True []
      [\<lparr>att_stop = False, att_resolved = False, att_socket = 0, att_connect = 0, att_now = 0,
         att_msg = None, att_sent1 = 0, att_sent2 = 0\<rparr>,
       \<lparr>att_stop = False, att_resolved = True, att_socket = 3, att_connect = -1, att_now = 0,
         att_msg = None, att_sent1 = 0, att_sent2 = 0\<rparr>,
       \<lparr>att_stop = False, att_resolved = True, att_socket = 3, att_connect = 0, att_now = 9,
         att_msg = None, att_sent1 = 0, att_sent2 = 0\<rparr>])) = RECONNECT_DELAY_MS"
proof -
  let ?st = "\<lparr>client_running = True, client_socket = -1, client_connected = False,
       client_stats = \<lparr>start_time = 0, last_connect_time = 0, last_disconnect_time = 0,
         connection_count = 0, stats_bytes_sent = 0, stats_bytes_received = 0\<rparr>,
       net_trace = []\<rparr>"
  let ?as = "[\<lparr>att_stop = False, att_resolved = False, att_socket = 0, att_connect = 0, att_now = 0,
         att_msg = None, att_sent1 = 0, att_sent2 = 0\<rparr>,
       \<lparr>att_stop = False, att_resolved = True, att_socket = 3, att_connect = -1, att_now = 0,
         att_msg = None, att_sent1 = 0, att_sent2 = 0\<rparr>,
       \<lparr>att_stop = False, att_resolved = True, att_socket = 3, att_connect = 0, att_now = 9,
         att_msg = None, att_sent1 = 0, att_sent2 = 0\<rparr>]"
  have run: "fst (socket_client_connect ?st True [] ?as) = Some ESP_OK"
    by (simp add: socket_client_connect_def Let_def note_stop_def net_log_def next_delay_def
        RECONNECT_DELAY_MS_def MAX_RECONNECT_DELAY_MS_def)
  have tr: "delays_of (net_trace (snd (snd (socket_client_connect ?st True [] ?as)))) = [5000, 10000]"
    by (simp add: socket_client_connect_def Let_def note_stop_def net_log_def next_delay_def
        RECONNECT_DELAY_MS_def MAX_RECONNECT_DELAY_MS_def connect_success_def)
  from socket_client_connect_backoff [of ?st True "[]" ?as] run
  have "fst (snd (socket_client_connect ?st True [] ?as)) = RECONNECT_DELAY_MS"
    by blast
  with tr show ?thesis by blast
qed

section \<open>Properties of the socket server\<close>



lemma find_free_None:
  "(find_free cs i = None) = (\<forall>j. i \<le> j \<and> j < MAX_CLIENTS \<longrightarrow> connected (cs ! j))"
proof (induction cs i rule: find_free.induct)
  case (1 cs i)
  show ?case
  proof (cases "i < MAX_CLIENTS")
    case False
    then show ?thesis by (auto simp add: find_free.simps [of cs i])
  next
    case True
    show ?thesis
    proof (cases "connected (cs ! i)")
      case False
      with True show ?thesis by (auto simp add: find_free.simps [of cs i])
    next
      case c: True
      have "(\<forall>j. i \<le> j \<and> j < MAX_CLIENTS \<longrightarrow> connected (cs ! j)) =
            (\<forall>j. i + 1 \<le> j \<and> j < MAX_CLIENTS \<longrightarrow> connected (cs ! j))"
        using c by (metis Suc_eq_plus1 Suc_leI le_neq_implies_less le_simps(3) less_imp_le_nat)
      with 1 True c show ?thesis by (simp add: find_free.simps [of cs i])
    qed
  qed
qed

lemma find_free_Some:
  "find_free cs i = Some k \<Longrightarrow>
     i \<le> k \<and> k < MAX_CLIENTS \<and> \<not> connected (cs ! k) \<and>
     (\<forall>j. i \<le> j \<and> j < k \<longrightarrow> connected (cs ! j))"
proof (induction cs i rule: find_free.induct)
  case (1 cs i)
  show ?case
  proof (cases "i < MAX_CLIENTS")
    case False
    with "1.prems" show ?thesis by (simp add: find_free.simps [of cs i])
  next
    case True
    show ?thesis
    proof (cases "connected (cs ! i)")
      case False
      with True "1.prems" show ?thesis by (auto simp add: find_free.simps [of cs i])
    next
      case c: True
      with True "1.prems" have r: "find_free cs (i + 1) = Some k"
        by (simp add: find_free.simps [of cs i])
      from "1.IH" [OF True _ r] c
      have ih: "i + 1 \<le> k \<and> k < MAX_CLIENTS \<and> \<not> connected (cs ! k) \<and>
         (\<forall>j. i + 1 \<le> j \<and> j < k \<longrightarrow> connected (cs ! j))" by simp
      have "\<forall>j. i \<le> j \<and> j < k \<longrightarrow> connected (cs ! j)"
      proof (intro allI impI)
        fix j assume "i \<le> j \<and> j < k"
        then show "connected (cs ! j)" using ih c by (cases "j = i") auto
      qed
      with ih show ?thesis by simp
    qed
  qed
qed

lemma find_addr_None:
  "(find_addr cs a i = None) =
     (\<forall>j. i \<le> j \<and> j < MAX_CLIENTS \<longrightarrow> \<not> (connected (cs ! j) \<and> addr (cs ! j) = a))"
proof (induction cs a i rule: find_addr.induct)
  case (1 cs a i)
  show ?case
  proof (cases "i < MAX_CLIENTS")
    case False
    then show ?thesis by (auto simp add: find_addr.simps [of cs a i])
  next
    case True
    show ?thesis
    proof (cases "connected (cs ! i) \<and> addr (cs ! i) = a")
      case c: True
      with True show ?thesis by (auto simp add: find_addr.simps [of cs a i])
    next
      case c: False
      have "(\<forall>j. i \<le> j \<and> j < MAX_CLIENTS \<longrightarrow> \<not> (connected (cs ! j) \<and> addr (cs ! j) = a)) =
            (\<forall>j. i + 1 \<le> j \<and> j < MAX_CLIENTS \<longrightarrow> \<not> (connected (cs ! j) \<and> addr (cs ! j) = a))"
      proof
        assume "\<forall>j. i \<le> j \<and> j < MAX_CLIENTS \<longrightarrow> \<not> (connected (cs ! j) \<and> addr (cs ! j) = a)"
        then show "\<forall>j. i + 1 \<le> j \<and> j < MAX_CLIENTS \<longrightarrow> \<not> (connected (cs ! j) \<and> addr (cs ! j) = a)"
          by simp
      next
        assume h: "\<forall>j. i + 1 \<le> j \<and> j < MAX_CLIENTS \<longrightarrow> \<not> (connected (cs ! j) \<and> addr (cs ! j) = a)"
        show "\<forall>j. i \<le> j \<and> j < MAX_CLIENTS \<longrightarrow> \<not> (connected (cs ! j) \<and> addr (cs ! j) = a)"
        proof (intro allI impI)
          fix j assume "i \<le> j \<and> j < MAX_CLIENTS"
          then show "\<not> (connected (cs ! j) \<and> addr (cs ! j) = a)"
            using h c by (cases "j = i") auto
        qed
      qed
      with 1 True c show ?thesis by (auto simp add: find_addr.simps [of cs a i])
    qed
  qed
qed

lemma find_addr_Some:
  "find_addr cs a i = Some k \<Longrightarrow>
     i \<le> k \<and> k < MAX_CLIENTS \<and> connected (cs ! k) \<and> addr (cs ! k) = a \<and>
     (\<forall>j. i \<le> j \<and> j < k \<longrightarrow> \<not> (connected (cs ! j) \<and> addr (cs ! j) = a))"
proof (induction cs a i rule: find_addr.induct)
  case (1 cs a i)
  show ?case
  proof (cases "i < MAX_CLIENTS")
    case False
    with "1.prems" show ?thesis by (simp add: find_addr.simps [of cs a i])
  next
    case True
    show ?thesis
    proof (cases "connected (cs ! i) \<and> addr (cs ! i) = a")
      case c: True
      with True "1.prems" show ?thesis by (auto simp add: find_addr.simps [of cs a i])
    next
      case c: False
      with True "1.prems" have r: "find_addr cs a (i + 1) = Some k"
        by (auto simp add: find_addr.simps [of cs a i])
      from "1.IH" [OF True c r]
      have ih: "i + 1 \<le> k \<and> k < MAX_CLIENTS \<and> connected (cs ! k) \<and> addr (cs ! k) = a \<and>
         (\<forall>j. i + 1 \<le> j \<and> j < k \<longrightarrow> \<not> (connected (cs ! j) \<and> addr (cs ! j) = a))" .
      have "\<forall>j. i \<le> j \<and> j < k \<longrightarrow> \<not> (connected (cs ! j) \<and> addr (cs ! j) = a)"
      proof (intro allI impI)
        fix j assume "i \<le> j \<and> j < k"
        then show "\<not> (connected (cs ! j) \<and> addr (cs ! j) = a)"
          using ih c by (cases "j = i") auto
      qed
      with ih show ?thesis by simp
    qed
  qed
qed

lemma find_addr_first:
  assumes "k < MAX_CLIENTS" "connected (cs ! k)" "addr (cs ! k) = a"
    and "\<forall>j. j < k \<longrightarrow> \<not> (connected (cs ! j) \<and> addr (cs ! j) = a)"
  shows "find_addr cs a 0 = Some k"
proof (cases "find_addr cs a 0")
  case None
  with assms find_addr_None [of cs a 0] show ?thesis by auto
next
  case (Some m)
  from find_addr_Some [OF Some] have m: "m < MAX_CLIENTS" "connected (cs ! m)" "addr (cs ! m) = a"
    "\<forall>j. j < m \<longrightarrow> \<not> (connected (cs ! j) \<and> addr (cs ! j) = a)" by auto
  have "m = k"
  proof (rule ccontr)
    assume "m \<noteq> k"
    then consider "m < k" | "k < m" by linarith
    then show False using assms m by cases auto
  qed
  with Some show ?thesis by simp
qed


lemma send_to_client_frame:
  "length (clients (send_to_client st data sent i)) = length (clients st)"
  "udp_server_socket (send_to_client st data sent i) = udp_server_socket st"
  "tcp_server_socket (send_to_client st data sent i) = tcp_server_socket st"
  "udp_rx (send_to_client st data sent i) = udp_rx st"
  by (simp_all add: send_to_client_def srv_log_def Let_def)

lemma send_to_client_other:
  "j \<noteq> i \<Longrightarrow> clients (send_to_client st data sent i) ! j = clients st ! j"
  by (simp add: send_to_client_def srv_log_def Let_def)

lemma send_to_client_self:
  "i < length (clients st) \<Longrightarrow>
   clients (send_to_client st data sent i) ! i =
     (if \<not> connected (clients st ! i) then clients st ! i
      else if sent < 0 then (clients st ! i)\<lparr>connected := False\<rparr>
      else (clients st ! i)\<lparr>bytes_sent := bytes_sent (clients st ! i) + word_of_int sent\<rparr>)"
  by (simp add: send_to_client_def srv_log_def Let_def)

lemma send_to_client_trace:
  "srv_trace (send_to_client st data sent i) =
     srv_trace st @ map (send_call st data) (filter connected [clients st ! i])"
  by (simp add: send_to_client_def srv_log_def Let_def)

lemma send_to_client_drop:
  "drop (Suc i) (clients (send_to_client st data sent i)) = drop (Suc i) (clients st)"
  by (simp add: send_to_client_def srv_log_def Let_def)

lemma send_call_cong:
  "udp_server_socket st' = udp_server_socket st \<Longrightarrow> send_call st' data = send_call st data"
  by (rule ext) (simp add: send_call_def)

lemma send_loop_frame:
  "length (clients (send_loop st data res i)) = length (clients st) \<and>
   udp_server_socket (send_loop st data res i) = udp_server_socket st \<and>
   tcp_server_socket (send_loop st data res i) = tcp_server_socket st \<and>
   udp_rx (send_loop st data res i) = udp_rx st"
proof (induction st data res i rule: send_loop.induct)
  case (1 st data res i)
  show ?case
  proof (cases "i < MAX_CLIENTS")
    case True
    with 1 show ?thesis by (simp add: send_loop.simps [of st data res i] send_to_client_frame)
  next
    case False
    then show ?thesis by (simp add: send_loop.simps [of st data res i])
  qed
qed

lemma send_loop_slot:
  "length (clients st) = MAX_CLIENTS \<Longrightarrow> j < MAX_CLIENTS \<Longrightarrow>
   clients (send_loop st data res i) ! j =
     (if i \<le> j then
        (if \<not> connected (clients st ! j) then clients st ! j
         else if res j < 0 then (clients st ! j)\<lparr>connected := False\<rparr>
         else (clients st ! j)\<lparr>bytes_sent := bytes_sent (clients st ! j) + word_of_int (res j)\<rparr>)
      else clients st ! j)"
proof (induction st data res i rule: send_loop.induct)
  case (1 st data res i)
  show ?case
  proof (cases "i < MAX_CLIENTS")
    case False
    with "1.prems" show ?thesis by (simp add: send_loop.simps [of st data res i])
  next
    case True
    let ?st' = "send_to_client st data (res i) i"
    have len: "length (clients ?st') = MAX_CLIENTS"
      using "1.prems" by (simp add: send_to_client_frame)
    note ih = "1.IH" [OF True len "1.prems"(2)]
    have unf: "send_loop st data res i = send_loop ?st' data res (i + 1)"
      using True by (simp add: send_loop.simps [of st data res i])
    show ?thesis
    proof (cases "j = i")
      case True
      then show ?thesis unfolding unf ih
        using "1.prems" by (simp add: send_to_client_self)
    next
      case False
      then show ?thesis unfolding unf ih
        by (auto simp add: send_to_client_other)
    qed
  qed
qed

lemma send_loop_trace:
  "length (clients st) = MAX_CLIENTS \<Longrightarrow>
   srv_trace (send_loop st data res i) =
     srv_trace st @ map (send_call st data) (filter connected (drop i (clients st)))"
proof (induction st data res i rule: send_loop.induct)
  case (1 st data res i)
  show ?case
  proof (cases "i < MAX_CLIENTS")
    case False
    with "1.prems" show ?thesis by (simp add: send_loop.simps [of st data res i])
  next
    case True
    let ?st' = "send_to_client st data (res i) i"
    have len: "length (clients ?st') = MAX_CLIENTS"
      using "1.prems" by (simp add: send_to_client_frame)
    note ih = "1.IH" [OF True len]
    have unf: "send_loop st data res i = send_loop ?st' data res (i + 1)"
      using True by (simp add: send_loop.simps [of st data res i])
    have dr: "drop i (clients st) = clients st ! i # drop (Suc i) (clients st)"
      using True "1.prems" by (simp add: Cons_nth_drop_Suc)
    have sc: "send_call ?st' data = send_call st data"
      by (rule send_call_cong) (simp add: send_to_client_frame)
    show ?thesis unfolding unf ih sc
      by (simp add: dr send_to_client_drop send_to_client_trace)
  qed
qed

lemma socket_send_to_all_clients_trace_aux:
  "length (clients st) = MAX_CLIENTS \<Longrightarrow>
   srv_trace (socket_send_to_all_clients st data res) =
     srv_trace st @ map (send_call st data) (filter connected (clients st))"
  using send_loop_trace [of st data res 0] by (simp add: socket_send_to_all_clients_def)

text \<open>
  Claim C7.  One pass of \<open>socket_send_to_all_clients\<close> over a table of
  \<open>MAX_CLIENTS\<close> slots, for every table and every pattern \<open>res\<close> of send results:
  a slot that is not occupied is left as it is; an occupied slot whose send
  fails only has its \<open>connected\<close> flag cleared; an occupied slot whose send
  succeeds only has the count added to its \<open>bytes_sent\<close>.  What happens to a
  slot depends on that slot and its own send result alone, and the calls made
  are exactly one send per occupied slot, in slot order, whatever the other
  sends returned.
\<close>

theorem socket_send_to_all_clients_isolation:
  assumes "length (clients st) = MAX_CLIENTS"
  shows "length (clients (socket_send_to_all_clients st data res)) = MAX_CLIENTS \<and>
    (\<forall>i<MAX_CLIENTS.
       clients (socket_send_to_all_clients st data res) ! i =
         (if \<not> connected (clients st ! i) then clients st ! i
          else if res i < 0 then (clients st ! i)\<lparr>connected := False\<rparr>
          else (clients st ! i)\<lparr>bytes_sent := bytes_sent (clients st ! i) + word_of_int (res i)\<rparr>)) \<and>
    srv_trace (socket_send_to_all_clients st data res) =
      srv_trace st @ map (send_call st data) (filter connected (clients st))"
  using assms send_loop_frame [of st data res 0] send_loop_trace [of st data res 0]
  by (simp add: socket_send_to_all_clients_def send_loop_slot)

theorem socket_send_to_all_clients_isolation_witness:
  "\<not> connected (clients (socket_send_to_all_clients
      \<lparr>server_running = True, tcp_server_socket = 3, udp_server_socket = 4,
       clients = [\<lparr>socket = 5, addr = zero_sockaddr, connected = True, bytes_sent = 0,
                    bytes_received = 0, connect_time = 1\<rparr>,
                  \<lparr>socket = 6, addr = zero_sockaddr, connected = True, bytes_sent = 100,
                    bytes_received = 0, connect_time = 2\<rparr>] @ replicate 8 zero_client,
       udp_rx = [], srv_trace = []\<rparr> ''chunk'' (\<lambda>i. if i = 0 then -1 else 5)) ! 0) \<and>
   bytes_sent (clients (socket_send_to_all_clients
      \<lparr>server_running = True, tcp_server_socket = 3, udp_server_socket = 4,
       clients = [\<lparr>socket = 5, addr = zero_sockaddr, connected = True, bytes_sent = 0,
                    bytes_received = 0, connect_time = 1\<rparr>,
                  \<lparr>socket = 6, addr = zero_sockaddr, connected = True, bytes_sent = 100,
                    bytes_received = 0, connect_time = 2\<rparr>] @ replicate 8 zero_client,
       udp_rx = [], srv_trace = []\<rparr> ''chunk'' (\<lambda>i. if i = 0 then -1 else 5)) ! 1) = 105 \<and>
   srv_trace (socket_send_to_all_clients
      \<lparr>server_running = True, tcp_server_socket = 3, udp_server_socket = 4,
       clients = [\<lparr>socket = 5, addr = zero_sockaddr, connected = True, bytes_sent = 0,
                    bytes_received = 0, connect_time = 1\<rparr>,
                  \<lparr>socket = 6, addr = zero_sockaddr, connected = True, bytes_sent = 100,
                    bytes_received = 0, connect_time = 2\<rparr>] @ replicate 8 zero_client,
       udp_rx = [], srv_trace = []\<rparr> ''chunk'' (\<lambda>i. if i = 0 then -1 else 5))
     = [SrvSend 5 ''chunk'', SrvSend 6 ''chunk'']"
proof -
  let ?st = "\<lparr>server_running = True, tcp_server_socket = 3, udp_server_socket = 4,
       clients = [\<lparr>socket = 5, addr = zero_sockaddr, connected = True, bytes_sent = 0,
                    bytes_received = 0, connect_time = 1\<rparr>,
                  \<lparr>socket = 6, addr = zero_sockaddr, connected = True, bytes_sent = 100,
                    bytes_received = 0, connect_time = 2\<rparr>] @ replicate 8 zero_client,
       udp_rx = [], srv_trace = []\<rparr>"
  let ?res = "\<lambda>i::nat. if i = 0 then (-1::int) else 5"
  have len: "length (clients ?st) = MAX_CLIENTS" by (simp add: MAX_CLIENTS_def)
  note th = socket_send_to_all_clients_isolation [OF len, of "''chunk''" ?res]
  have 0: "(0::nat) < MAX_CLIENTS" and 1: "(1::nat) < MAX_CLIENTS" by (simp_all add: MAX_CLIENTS_def)
  from th 0 have a: "\<not> connected (clients (socket_send_to_all_clients ?st ''chunk'' ?res) ! 0)"
    by simp
  from th 1 have b: "bytes_sent (clients (socket_send_to_all_clients ?st ''chunk'' ?res) ! 1) = 105"
    by simp
  from th have c: "srv_trace (socket_send_to_all_clients ?st ''chunk'' ?res)
     = [SrvSend 5 ''chunk'', SrvSend 6 ''chunk'']"
    by (simp add: send_call_def zero_client_def)
  from a b c show ?thesis by blast
qed

lemma full_table_find_free:
  assumes "length cs = MAX_CLIENTS" "\<forall>c \<in> set cs. connected c"
  shows "find_free cs 0 = None"
  using assms by (simp add: find_free_None)

lemma full_table_find_addr:
  assumes "length cs = MAX_CLIENTS" "\<forall>c \<in> set cs. addr c \<noteq> a"
  shows "find_addr cs a 0 = None"
  using assms by (simp add: find_addr_None)

lemma client_count_le: "socket_server_get_client_count mutex_created cs \<le> length cs"
  by (simp add: socket_server_get_client_count_def)

lemma accept_length:
  "length (clients (snd (socket_tcp_accept st s a now))) = length (clients st)"
  "length (clients (snd (socket_udp_accept st ss l a now))) = length (clients st)"
  "length (clients (socket_client_close st idx)) = length (clients st)"
  by (simp_all add: socket_tcp_accept_def socket_udp_accept_def socket_client_close_def
      claim_slot_def srv_log_def Let_def split: option.splits)

lemma full_table_udp_accept:
  assumes "length (clients st) = MAX_CLIENTS" "\<forall>c \<in> set (clients st). connected c"
  shows "snd (socket_udp_accept st ss l a now) = st"
  using full_table_find_free [OF assms]
  by (simp add: socket_udp_accept_def split: option.splits)

text \<open>
  The client table keeps its \<open>MAX_CLIENTS = 10\<close> slots under every
  operation of the server, so it never holds more than 10 peers.  When all
  slots are occupied: \<open>socket_tcp_accept\<close> of an accepted connection returns -1,
  closes the new socket and leaves the table as it is; \<open>socket_udp_accept\<close> for
  a datagram whose source address is in no slot returns -1 and changes nothing
  (for any address it leaves the state as it is); and the next broadcast makes
  one send for each of the slots of the unchanged table.
\<close>

lemma socket_server_capacity:
  assumes len: "length (clients st) = MAX_CLIENTS"
  shows "length (clients (snd (socket_tcp_accept st s a now))) = MAX_CLIENTS \<and>
    length (clients (snd (socket_udp_accept st ss l a now))) = MAX_CLIENTS \<and>
    length (clients (socket_client_close st idx)) = MAX_CLIENTS \<and>
    length (clients (socket_send_to_all_clients st data res)) = MAX_CLIENTS \<and>
    socket_server_get_client_count mutex_created (clients st) \<le> 10 \<and>
    ((\<forall>c \<in> set (clients st). connected c) \<longrightarrow>
       (0 \<le> s \<longrightarrow> socket_tcp_accept st s a now = (-1, srv_log st (SrvClose s))) \<and>
       (0 \<le> l \<and> (\<forall>c \<in> set (clients st). addr c \<noteq> a) \<longrightarrow>
          socket_udp_accept st ss l a now = (-1, st)) \<and>
       clients (snd (socket_tcp_accept st s a now)) = clients st \<and>
       snd (socket_udp_accept st ss l a now) = st \<and>
       srv_trace (socket_send_to_all_clients (snd (socket_tcp_accept st s a now)) data res) =
         srv_trace (snd (socket_tcp_accept st s a now)) @ map (send_call st data) (clients st) \<and>
       srv_trace (socket_send_to_all_clients (snd (socket_udp_accept st ss l a now)) data res) =
         srv_trace st @ map (send_call st data) (clients st))"
proof -
  have cnt: "socket_server_get_client_count mutex_created (clients st) \<le> 10"
    using client_count_le [of mutex_created "clients st"] len by (simp add: MAX_CLIENTS_def)
  have lens: "length (clients (snd (socket_tcp_accept st s a now))) = MAX_CLIENTS"
    "length (clients (snd (socket_udp_accept st ss l a now))) = MAX_CLIENTS"
    "length (clients (socket_client_close st idx)) = MAX_CLIENTS"
    using len by (simp_all add: accept_length)
  have bl: "length (clients (socket_send_to_all_clients st data res)) = MAX_CLIENTS"
    using len send_loop_frame [of st data res 0] by (simp add: socket_send_to_all_clients_def)
  have full: "(\<forall>c \<in> set (clients st). connected c) \<longrightarrow>
       (0 \<le> s \<longrightarrow> socket_tcp_accept st s a now = (-1, srv_log st (SrvClose s))) \<and>
       (0 \<le> l \<and> (\<forall>c \<in> set (clients st). addr c \<noteq> a) \<longrightarrow>
          socket_udp_accept st ss l a now = (-1, st)) \<and>
       clients (snd (socket_tcp_accept st s a now)) = clients st \<and>
       snd (socket_udp_accept st ss l a now) = st \<and>
       srv_trace (socket_send_to_all_clients (snd (socket_tcp_accept st s a now)) data res) =
         srv_trace (snd (socket_tcp_accept st s a now)) @ map (send_call st data) (clients st) \<and>
       srv_trace (socket_send_to_all_clients (snd (socket_udp_accept st ss l a now)) data res) =
         srv_trace st @ map (send_call st data) (clients st)"
  proof
    assume f: "\<forall>c \<in> set (clients st). connected c"
    note ff = full_table_find_free [OF len f]
    have t1: "0 \<le> s \<longrightarrow> socket_tcp_accept st s a now = (-1, srv_log st (SrvClose s))"
      using ff by (simp add: socket_tcp_accept_def)
    have t2: "clients (snd (socket_tcp_accept st s a now)) = clients st"
      using ff by (simp add: socket_tcp_accept_def srv_log_def)
    have u1: "0 \<le> l \<and> (\<forall>c \<in> set (clients st). addr c \<noteq> a) \<longrightarrow>
          socket_udp_accept st ss l a now = (-1, st)"
      using ff full_table_find_addr [OF len, of a] by (auto simp add: socket_udp_accept_def)
    have u2: "snd (socket_udp_accept st ss l a now) = st"
      by (rule full_table_udp_accept [OF len f])
    have fl: "filter connected (clients st) = clients st"
      using f by simp
    let ?t = "snd (socket_tcp_accept st s a now)"
    have tl: "length (clients ?t) = MAX_CLIENTS" using t2 len by simp
    have tu: "udp_server_socket ?t = udp_server_socket st"
      by (simp add: socket_tcp_accept_def srv_log_def claim_slot_def split: option.splits)
    have b1: "srv_trace (socket_send_to_all_clients ?t data res) =
         srv_trace ?t @ map (send_call st data) (clients st)"
      using socket_send_to_all_clients_trace_aux [OF tl] t2 fl send_call_cong [OF tu]
      by simp
    have b2: "srv_trace (socket_send_to_all_clients (snd (socket_udp_accept st ss l a now)) data res) =
         srv_trace st @ map (send_call st data) (clients st)"
      unfolding u2 using socket_send_to_all_clients_trace_aux [OF len] fl by simp
    from t1 t2 u1 u2 b1 b2 show "(0 \<le> s \<longrightarrow> socket_tcp_accept st s a now = (-1, srv_log st (SrvClose s))) \<and>
       (0 \<le> l \<and> (\<forall>c \<in> set (clients st). addr c \<noteq> a) \<longrightarrow>
          socket_udp_accept st ss l a now = (-1, st)) \<and>
       clients (snd (socket_tcp_accept st s a now)) = clients st \<and>
       snd (socket_udp_accept st ss l a now) = st \<and>
       srv_trace (socket_send_to_all_clients (snd (socket_tcp_accept st s a now)) data res) =
         srv_trace (snd (socket_tcp_accept st s a now)) @ map (send_call st data) (clients st) \<and>
       srv_trace (socket_send_to_all_clients (snd (socket_udp_accept st ss l a now)) data res) =
         srv_trace st @ map (send_call st data) (clients st)"
      by blast
  qed
  from lens bl cnt full show ?thesis by blast
qed


lemma socket_server_capacity_witness:
  "socket_tcp_accept
     \<lparr>server_running = True, tcp_server_socket = 3, udp_server_socket = 4,
      clients = replicate 10 \<lparr>socket = 7, addr = zero_sockaddr, connected = True,
                  bytes_sent = 0, bytes_received = 0, connect_time = 1\<rparr>,
      udp_rx = [], srv_trace = []\<rparr> 42 (zero_sockaddr\<lparr>sin6_port := 1\<rparr>) 9
   = (-1, \<lparr>server_running = True, tcp_server_socket = 3, udp_server_socket = 4,
      clients = replicate 10 \<lparr>socket = 7, addr = zero_sockaddr, connected = True,
                  bytes_sent = 0, bytes_received = 0, connect_time = 1\<rparr>,
      udp_rx = [], srv_trace = [SrvClose 42]\<rparr>) \<and>
   socket_udp_accept
     \<lparr>server_running = True, tcp_server_socket = 3, udp_server_socket = 4,
      clients = replicate 10 \<lparr>socket = 7, addr = zero_sockaddr, connected = True,
                  bytes_sent = 0, bytes_received = 0, connect_time = 1\<rparr>,
      udp_rx = [], srv_trace = []\<rparr> 4 1 (zero_sockaddr\<lparr>sin6_port := 1\<rparr>) 9
   = (-1, \<lparr>server_running = True, tcp_server_socket = 3, udp_server_socket = 4,
      clients = replicate 10 \<lparr>socket = 7, addr = zero_sockaddr, connected = True,
                  bytes_sent = 0, bytes_received = 0, connect_time = 1\<rparr>,
      udp_rx = [], srv_trace = []\<rparr>)"
proof -
  let ?c = "\<lparr>socket = 7, addr = zero_sockaddr, connected = True,
                  bytes_sent = 0, bytes_received = 0, connect_time = 1\<rparr>"
  let ?st = "\<lparr>server_running = True, tcp_server_socket = 3, udp_server_socket = 4,
      clients = replicate 10 ?c, udp_rx = [], srv_trace = []\<rparr>"
  let ?a = "zero_sockaddr\<lparr>sin6_port := 1\<rparr>"
  have len: "length (clients ?st) = MAX_CLIENTS" by (simp add: MAX_CLIENTS_def)
  have full: "\<forall>c \<in> set (clients ?st). connected c" by simp
  have new: "\<forall>c \<in> set (clients ?st). addr c \<noteq> ?a" by (simp add: zero_sockaddr_def)
  from socket_server_capacity [OF len, of 42 ?a 9 4 1] full new
  have "socket_tcp_accept ?st 42 ?a 9 = (-1, srv_log ?st (SrvClose 42)) \<and>
        socket_udp_accept ?st 4 1 ?a 9 = (-1, ?st)"
    by simp
  then show ?thesis by (simp add: srv_log_def)
qed

lemma recv_loop_idle:
  "\<forall>i. \<not> pe_client_ready e i \<Longrightarrow> recv_loop st e i = st"
proof (induction st e i rule: recv_loop.induct)
  case (1 st e i)
  have r: "recv_from_client st e i = st"
    using "1.prems" by (simp add: recv_from_client_def Let_def)
  show ?case
  proof (cases "i < MAX_CLIENTS")
    case True
    with "1.IH" "1.prems" r show ?thesis by (simp add: recv_loop.simps [of st e i])
  next
    case False
    then show ?thesis by (simp add: recv_loop.simps [of st e i])
  qed
qed

lemma cleanup_loop_full:
  "length (clients st) = MAX_CLIENTS \<Longrightarrow> \<forall>c \<in> set (clients st). connected c \<Longrightarrow>
     cleanup_loop st i = st"
proof (induction st i rule: cleanup_loop.induct)
  case (1 st i)
  show ?case
  proof (cases "i < MAX_CLIENTS")
    case True
    then have c: "connected (clients st ! i)" using "1.prems" by simp
    with True "1.IH" "1.prems" show ?thesis by (simp add: cleanup_loop.simps [of st i])
  next
    case False
    then show ?thesis by (simp add: cleanup_loop.simps [of st i])
  qed
qed

text \<open>
  A pass that finds on the datagram socket a single datagram that is not
  empty does not complete: the task removes the datagram and then blocks in the
  \<open>recvfrom\<close> with \<open>MSG_PEEK\<close> of \<open>socket_udp_accept\<close>, before the stream peers are
  read and before the broadcast.
\<close>

lemma single_datagram_blocks_pass:
  assumes "udp_rx st = [(src, d)]" "d \<noteq> []" "0 \<le> udp_server_socket st" "pe_udp_ready e"
    and "\<not> pe_tcp_ready e"
  shows "socket_server_task_pass st e = None"
  using assms
  by (cases d)
    (simp_all add: socket_server_task_pass_def server_udp_data_def udp_peek_def Let_def
      SOCKET_BUFFER_SIZE_def)

text \<open>
  Claim C2 says that with all 10 slots occupied a datagram from a further
  source address creates no slot and raises no error, while every existing
  slot continues to receive broadcasts.  No slot is created
  (\<open>socket_server_capacity\<close> above), but \<open>socket_server_task\<close> has removed the
  datagram from the queue when \<open>socket_udp_accept\<close> peeks.  With the table full
  and one datagram from an eleventh address queued, the pass in which \<open>select\<close>
  reports the datagram and the serial port delivers a chunk blocks in that
  peek, and the chunk is broadcast to no slot.  The same pass without the
  datagram sends the chunk to each of the ten slots, and so does the pass
  when a second datagram of the same source is queued behind the first, where
  the table is left as it is.
\<close>

theorem full_table_datagram_blocks_broadcast:
  "socket_server_task_pass
     \<lparr>server_running = True, tcp_server_socket = 3, udp_server_socket = 4,
      clients = replicate 10 \<lparr>socket = 7, addr = zero_sockaddr, connected = True,
                  bytes_sent = 0, bytes_received = 0, connect_time = 1\<rparr>,
      udp_rx = [(zero_sockaddr\<lparr>sin6_port := 1\<rparr>, ''xyz'')], srv_trace = []\<rparr>
     \<lparr>pe_tcp_ready = False, pe_accept_socket = -1, pe_accept_addr = zero_sockaddr,
      pe_udp_ready = True, pe_now = 9, pe_client_ready = (\<lambda>i. False),
      pe_recv_len = (\<lambda>i. 0), pe_recv_bytes = (\<lambda>i. []), pe_uart_data = ''chunk'',
      pe_send_res = (\<lambda>i. 5)\<rparr> = None \<and>
   map_option srv_trace
     (socket_server_task_pass
        \<lparr>server_running = True, tcp_server_socket = 3, udp_server_socket = 4,
         clients = replicate 10 \<lparr>socket = 7, addr = zero_sockaddr, connected = True,
                     bytes_sent = 0, bytes_received = 0, connect_time = 1\<rparr>,
         udp_rx = [], srv_trace = []\<rparr>
        \<lparr>pe_tcp_ready = False, pe_accept_socket = -1, pe_accept_addr = zero_sockaddr,
         pe_udp_ready = False, pe_now = 9, pe_client_ready = (\<lambda>i. False),
         pe_recv_len = (\<lambda>i. 0), pe_recv_bytes = (\<lambda>i. []), pe_uart_data = ''chunk'',
         pe_send_res = (\<lambda>i. 5)\<rparr>)
     = Some (replicate 10 (SrvSend 7 ''chunk'')) \<and>
   map_option srv_trace
     (socket_server_task_pass
        \<lparr>server_running = True, tcp_server_socket = 3, udp_server_socket = 4,
         clients = replicate 10 \<lparr>socket = 7, addr = zero_sockaddr, connected = True,
                     bytes_sent = 0, bytes_received = 0, connect_time = 1\<rparr>,
         udp_rx = [(zero_sockaddr\<lparr>sin6_port := 1\<rparr>, ''xyz''),
                   (zero_sockaddr\<lparr>sin6_port := 1\<rparr>, ''uvw'')], srv_trace = []\<rparr>
        \<lparr>pe_tcp_ready = False, pe_accept_socket = -1, pe_accept_addr = zero_sockaddr,
         pe_udp_ready = True, pe_now = 9, pe_client_ready = (\<lambda>i. False),
         pe_recv_len = (\<lambda>i. 0), pe_recv_bytes = (\<lambda>i. []), pe_uart_data = ''chunk'',
         pe_send_res = (\<lambda>i. 5)\<rparr>)
     = Some (SrvUartWrite ''xyz'' # replicate 10 (SrvSend 7 ''chunk''))"
proof -
  let ?c = "\<lparr>socket = 7, addr = zero_sockaddr, connected = True,
                  bytes_sent = 0, bytes_received = 0, connect_time = 1\<rparr>"
  let ?a = "zero_sockaddr\<lparr>sin6_port := 1\<rparr>"
  let ?st = "\<lparr>server_running = True, tcp_server_socket = 3, udp_server_socket = 4,
      clients = replicate 10 ?c, udp_rx = [], srv_trace = []\<rparr>"
  let ?s = "\<lparr>server_running = True, tcp_server_socket = 3, udp_server_socket = 4,
      clients = replicate 10 ?c, udp_rx = [(?a, ''xyz'')], srv_trace = []\<rparr>"
  let ?t = "\<lparr>server_running = True, tcp_server_socket = 3, udp_server_socket = 4,
      clients = replicate 10 ?c, udp_rx = [(?a, ''xyz''), (?a, ''uvw'')], srv_trace = []\<rparr>"
  let ?u = "\<lparr>server_running = True, tcp_server_socket = 3, udp_server_socket = 4,
      clients = replicate 10 ?c, udp_rx = [(?a, ''uvw'')], srv_trace = [SrvUartWrite ''xyz'']\<rparr>"
  let ?e = "\<lparr>pe_tcp_ready = False, pe_accept_socket = -1, pe_accept_addr = zero_sockaddr,
      pe_udp_ready = True, pe_now = 9, pe_client_ready = (\<lambda>i. False),
      pe_recv_len = (\<lambda>i. 0), pe_recv_bytes = (\<lambda>i. []), pe_uart_data = ''chunk'',
      pe_send_res = (\<lambda>i. 5)\<rparr>"
  let ?f = "\<lparr>pe_tcp_ready = False, pe_accept_socket = -1, pe_accept_addr = zero_sockaddr,
      pe_udp_ready = False, pe_now = 9, pe_client_ready = (\<lambda>i. False),
      pe_recv_len = (\<lambda>i. 0), pe_recv_bytes = (\<lambda>i. []), pe_uart_data = ''chunk'',
      pe_send_res = (\<lambda>i. 5)\<rparr>"
  have q: "udp_rx ?s = [(?a, ''xyz'')]" "''xyz'' \<noteq> []" "0 \<le> udp_server_socket ?s"
    "pe_udp_ready ?e" "\<not> pe_tcp_ready ?e"
    by simp_all
  have 1: "socket_server_task_pass ?s ?e = None"
    by (rule single_datagram_blocks_pass [OF q])
  have idle: "\<forall>i. \<not> pe_client_ready ?e i" "\<forall>i. \<not> pe_client_ready ?f i" by simp_all
  have len: "length (clients ?st) = MAX_CLIENTS" "length (clients ?u) = MAX_CLIENTS"
    "length (clients (?t\<lparr>udp_rx := [(?a, ''uvw'')]\<rparr>)) = MAX_CLIENTS"
    by (simp_all add: MAX_CLIENTS_def)
  have full: "\<forall>c \<in> set (clients ?st). connected c" "\<forall>c \<in> set (clients ?u). connected c"
    "\<forall>c \<in> set (clients (?t\<lparr>udp_rx := [(?a, ''uvw'')]\<rparr>)). connected c"
    by simp_all
  have b0: "srv_trace (socket_send_to_all_clients ?st ''chunk'' (\<lambda>i. 5)) =
      replicate 10 (SrvSend 7 ''chunk'')"
    using socket_send_to_all_clients_trace_aux [OF len(1), of "''chunk''" "\<lambda>i. 5"]
    by (simp add: send_call_def)
  have bu: "srv_trace (socket_send_to_all_clients ?u ''chunk'' (\<lambda>i. 5)) =
      SrvUartWrite ''xyz'' # replicate 10 (SrvSend 7 ''chunk'')"
    using socket_send_to_all_clients_trace_aux [OF len(2), of "''chunk''" "\<lambda>i. 5"]
    by (simp add: send_call_def)
  have 2: "map_option srv_trace (socket_server_task_pass ?st ?f) =
      Some (replicate 10 (SrvSend 7 ''chunk''))"
    using b0
    by (simp add: socket_server_task_pass_def Let_def recv_loop_idle [OF idle(2)]
        cleanup_loop_full [OF len(1) full(1)])
  have new: "\<forall>c \<in> set (clients (?t\<lparr>udp_rx := [(?a, ''uvw'')]\<rparr>)). addr c \<noteq> ?a"
    by (simp add: zero_sockaddr_def)
  have ua: "socket_udp_accept (?t\<lparr>udp_rx := [(?a, ''uvw'')]\<rparr>) 4 1 ?a 9 =
      (-1, ?t\<lparr>udp_rx := [(?a, ''uvw'')]\<rparr>)"
    using full_table_find_free [OF len(3) full(3)] full_table_find_addr [OF len(3) new]
    by (simp add: socket_udp_accept_def)
  have ud: "server_udp_data ?t 9 = Some ?u"
    using ua
    by (simp add: server_udp_data_def udp_peek_def Let_def SOCKET_BUFFER_SIZE_def
        srv_log_def)
  have 3: "map_option srv_trace (socket_server_task_pass ?t ?e) =
      Some (SrvUartWrite ''xyz'' # replicate 10 (SrvSend 7 ''chunk''))"
    using bu
    by (simp add: socket_server_task_pass_def Let_def ud recv_loop_idle [OF idle(1)]
        cleanup_loop_full [OF len(2) full(2)])
  from 1 2 3 show ?thesis by blast
qed

lemma socket_udp_accept_same_addr:
  assumes len: "length (clients st) = MAX_CLIENTS"
    and l: "0 \<le> l" "0 \<le> l'"
    and first: "socket_udp_accept st ss l a now = (i, st')"
    and i: "0 \<le> i"
  shows "socket_udp_accept st' ss l' a now' = (i, st')"
proof (cases "find_addr (clients st) a 0")
  case (Some k)
  with first l have "i = int k" "st' = st" by (simp_all add: socket_udp_accept_def)
  with Some l show ?thesis by (simp add: socket_udp_accept_def)
next
  case None
  show ?thesis
  proof (cases "find_free (clients st) 0")
    case n: None
    with None first l i show ?thesis by (simp add: socket_udp_accept_def)
  next
    case (Some k)
    with None first l have ik: "i = int k" and st': "st' = claim_slot st k ss a now"
      by (simp_all add: socket_udp_accept_def)
    from find_free_Some [OF Some] have k: "k < MAX_CLIENTS" by simp
    have none: "\<forall>j. j < MAX_CLIENTS \<longrightarrow> \<not> (connected (clients st ! j) \<and> addr (clients st ! j) = a)"
      using None by (simp add: find_addr_None)
    have "find_addr (clients st') a 0 = Some k"
    proof (rule find_addr_first [OF k])
      show "connected (clients st' ! k)" using k len by (simp add: st' claim_slot_def)
      show "addr (clients st' ! k) = a" using k len by (simp add: st' claim_slot_def)
      show "\<forall>j. j < k \<longrightarrow> \<not> (connected (clients st' ! j) \<and> addr (clients st' ! j) = a)"
        using none k by (auto simp add: st' claim_slot_def)
    qed
    with l ik show ?thesis by (simp add: socket_udp_accept_def)
  qed
qed

text \<open>
  Claim C8 says that two datagrams from the same source address and port are
  counted on the same slot.  The lookup itself behaves that way
  (\<open>socket_udp_accept_same_addr\<close> above: a second lookup of the same address
  returns the same index and changes nothing).  The datagram branch of
  \<open>socket_server_task\<close>, however, removes the datagram from the queue before
  \<open>socket_udp_accept\<close> peeks, so the lookup is made with the source address of
  the datagram that follows.  With the queue holding two datagrams from port 1
  (2 and 3 bytes) followed by one from port 2, the two passes count the first
  on the slot of port 1 and the second on a new slot for port 2.
\<close>

theorem udp_datagram_counted_on_next_sender:
  "map_option (\<lambda>s. (sin6_port (addr (clients s ! 0)), bytes_received (clients s ! 0),
                     sin6_port (addr (clients s ! 1)), bytes_received (clients s ! 1)))
     (Option.bind
        (server_udp_data
           \<lparr>server_running = True, tcp_server_socket = 3, udp_server_socket = 4,
            clients = replicate 10 zero_client,
            udp_rx = [(zero_sockaddr\<lparr>sin6_port := 1\<rparr>, ''aa''),
                      (zero_sockaddr\<lparr>sin6_port := 1\<rparr>, ''bbb''),
                      (zero_sockaddr\<lparr>sin6_port := 2\<rparr>, ''c'')],
            srv_trace = []\<rparr> 100)
        (\<lambda>s. server_udp_data s 101))
   = Some (1, 2, 2, 3)"
  by (simp add: server_udp_data_def udp_peek_def socket_udp_accept_def Let_def
      find_addr.simps find_free.simps MAX_CLIENTS_def SOCKET_BUFFER_SIZE_def
      claim_slot_def add_received_def srv_log_def zero_client_def zero_sockaddr_def)

section \<open>Properties of the caster uplinks\<close>


lemma bits_disjoint:
  "DATA_READY_BIT AND CASTER_READY_BIT = 0" "DATA_SENT_BIT AND CASTER_READY_BIT = 0"
  "DATA_SENT_BIT AND DATA_READY_BIT = 0" "CASTER_READY_BIT AND DATA_READY_BIT = 0"
  "DATA_READY_BIT \<noteq> 0"
  by (simp_all add: CASTER_READY_BIT_def DATA_READY_BIT_def DATA_SENT_BIT_def)

lemma or_other_bit: "x AND c = 0 \<Longrightarrow> (b OR x) AND c = b AND (c::32 word)"
  by (simp add: bit.conj_disj_distrib2)

lemma or_same_bit: "(b OR x) AND x = (x::32 word)"
  by (simp add: and.commute)

lemma clear_same_bit: "(b AND NOT x) AND x = (0::32 word)"
  by (simp add: and.assoc)

lemma up_trace_set_bits:
  "up_trace (xEventGroupSetBits st bits) = up_trace st @ [USetBits bits]"
  "sock (xEventGroupSetBits st bits) = sock st"
  "data_keep_alive (xEventGroupSetBits st bits) = data_keep_alive st"
  by (simp_all add: xEventGroupSetBits_def up_log_def Let_def)

lemma set_bits_not_waiting:
  "worker st \<noteq> WaitingForData \<Longrightarrow>
     worker (xEventGroupSetBits st bits) = worker st \<and>
     event_bits (xEventGroupSetBits st bits) = event_bits st OR bits"
  by (simp add: xEventGroupSetBits_def up_log_def Let_def)

lemma set_data_ready_waiting:
  "worker st = WaitingForData \<Longrightarrow>
     worker (xEventGroupSetBits st DATA_READY_BIT) = AfterWait \<and>
     event_bits (xEventGroupSetBits st DATA_READY_BIT) =
       (event_bits st OR DATA_READY_BIT) AND NOT DATA_READY_BIT"
  by (simp add: xEventGroupSetBits_def up_log_def Let_def or_same_bit bits_disjoint)

lemma new_events_append: "up_trace st' = up_trace st @ es \<Longrightarrow> new_events st st' = es"
  by (simp add: new_events_def)

text \<open>The handler on an uplink whose worker is suspended with the caster ready.\<close>

lemma handler_streaming:
  assumes c: "event_bits st AND CASTER_READY_BIT \<noteq> 0" and w: "worker st = Streaming"
    and s: "0 \<le> sock st"
  shows "\<exists>pre. up_trace (ntrip_server_uart_handler st buffer True sent) =
            up_trace st @ pre @ [UWrite (sock st) buffer] @
              (if sent < 0 then [UDestroy (sock st)] else [UStats sent]) \<and>
          (\<forall>ev \<in> set pre. \<exists>b. ev = USetBits b)"
    and "sock (ntrip_server_uart_handler st buffer True sent) = (if sent < 0 then -1 else sock st)"
    and "worker (ntrip_server_uart_handler st buffer True sent) =
           (if sent < 0 then Woken else Streaming)"
    and "event_bits (ntrip_server_uart_handler st buffer True sent) AND CASTER_READY_BIT =
           event_bits st AND CASTER_READY_BIT"
proof -
  let ?st1 = "if event_bits st AND DATA_READY_BIT = 0 then xEventGroupSetBits st DATA_READY_BIT else st"
  let ?st2 = "?st1\<lparr>data_keep_alive := 0\<rparr>"
  let ?st3 = "if event_bits st AND DATA_SENT_BIT = 0 then xEventGroupSetBits ?st2 DATA_SENT_BIT else ?st2"
  have w1: "worker ?st1 = Streaming" using w by (simp add: set_bits_not_waiting)
  then have w3: "worker ?st3 = Streaming" by (simp add: set_bits_not_waiting)
  have s3: "sock ?st3 = sock st" by (simp add: up_trace_set_bits)
  have b1: "event_bits ?st1 AND CASTER_READY_BIT = event_bits st AND CASTER_READY_BIT"
    using w by (simp add: set_bits_not_waiting or_other_bit bits_disjoint)
  have b3: "event_bits ?st3 AND CASTER_READY_BIT = event_bits st AND CASTER_READY_BIT"
    using w1 b1 by (simp add: set_bits_not_waiting or_other_bit bits_disjoint)
  define pre where "pre = (if event_bits st AND DATA_READY_BIT = 0 then [USetBits DATA_READY_BIT] else [])
      @ (if event_bits st AND DATA_SENT_BIT = 0 then [USetBits DATA_SENT_BIT] else [])"
  have t3: "up_trace ?st3 = up_trace st @ pre"
    by (simp add: pre_def up_trace_set_bits)
  have pre: "\<forall>ev \<in> set pre. \<exists>b. ev = USetBits b" by (auto simp add: pre_def)
  have h: "ntrip_server_uart_handler st buffer True sent =
      (let st4 = up_log ?st3 (UWrite (sock ?st3) buffer)
       in if sent < 0 then vTaskResume_server_task (destroy_socket st4) else up_log st4 (UStats sent))"
    using c s s3 by (simp add: ntrip_server_uart_handler_def Let_def)
  have "up_trace (ntrip_server_uart_handler st buffer True sent) =
            up_trace st @ pre @ [UWrite (sock st) buffer] @
              (if sent < 0 then [UDestroy (sock st)] else [UStats sent])"
    unfolding h using s s3 t3
    by (simp add: Let_def up_log_def destroy_socket_def vTaskResume_server_task_def)
  with pre show "\<exists>pre. up_trace (ntrip_server_uart_handler st buffer True sent) =
            up_trace st @ pre @ [UWrite (sock st) buffer] @
              (if sent < 0 then [UDestroy (sock st)] else [UStats sent]) \<and>
          (\<forall>ev \<in> set pre. \<exists>b. ev = USetBits b)" by blast
  show "sock (ntrip_server_uart_handler st buffer True sent) = (if sent < 0 then -1 else sock st)"
    unfolding h using s s3
    by (simp add: Let_def up_log_def destroy_socket_def vTaskResume_server_task_def)
  show "worker (ntrip_server_uart_handler st buffer True sent) =
           (if sent < 0 then Woken else Streaming)"
    unfolding h using s s3 w3
    by (simp add: Let_def up_log_def destroy_socket_def vTaskResume_server_task_def)
  show "event_bits (ntrip_server_uart_handler st buffer True sent) AND CASTER_READY_BIT =
           event_bits st AND CASTER_READY_BIT"
    unfolding h using s s3 b3
    by (simp add: Let_def up_log_def destroy_socket_def vTaskResume_server_task_def)
qed

text \<open>
  Two uplinks \<open>a\<close> and \<open>b\<close>, both with the caster ready, the worker already
  suspended and a valid socket, receive the same chunk in one dispatch call;
  the \<open>write\<close> on the socket of \<open>a\<close> fails and the one on the socket of \<open>b\<close>
  succeeds.  Then the socket of \<open>a\<close> is destroyed and the worker of \<open>a\<close> is
  woken, while for \<open>b\<close> the caster-ready bit, the suspended worker and the
  socket are as before, the chunk was written to the socket of \<open>b\<close>, and that
  socket was not destroyed.  The order in which the two handlers are called
  makes no difference.
\<close>

lemma uplink_write_failure_isolated:
  assumes A: "event_bits a AND CASTER_READY_BIT \<noteq> 0" "worker a = Streaming" "0 \<le> sock a"
    and B: "event_bits b AND CASTER_READY_BIT \<noteq> 0" "worker b = Streaming" "0 \<le> sock b"
    and fail: "wa < 0" and ok: "0 \<le> wb"
  shows "sock (fst (uart_dispatch (a, b) chunk (True, wa) (True, wb))) = -1 \<and>
    worker (fst (uart_dispatch (a, b) chunk (True, wa) (True, wb))) = Woken \<and>
    UDestroy (sock a) \<in> set (new_events a (fst (uart_dispatch (a, b) chunk (True, wa) (True, wb)))) \<and>
    event_bits (snd (uart_dispatch (a, b) chunk (True, wa) (True, wb))) AND CASTER_READY_BIT =
      event_bits b AND CASTER_READY_BIT \<and>
    worker (snd (uart_dispatch (a, b) chunk (True, wa) (True, wb))) = Streaming \<and>
    sock (snd (uart_dispatch (a, b) chunk (True, wa) (True, wb))) = sock b \<and>
    UWrite (sock b) chunk \<in> set (new_events b (snd (uart_dispatch (a, b) chunk (True, wa) (True, wb)))) \<and>
    UDestroy (sock b) \<notin> set (new_events b (snd (uart_dispatch (a, b) chunk (True, wa) (True, wb)))) \<and>
    uart_dispatch (b, a) chunk (True, wb) (True, wa) =
      (snd (uart_dispatch (a, b) chunk (True, wa) (True, wb)),
       fst (uart_dispatch (a, b) chunk (True, wa) (True, wb)))"
proof -
  let ?a' = "ntrip_server_uart_handler a chunk True wa"
  let ?b' = "ntrip_server_uart_handler b chunk True wb"
  have d: "uart_dispatch (a, b) chunk (True, wa) (True, wb) = (?a', ?b')"
    "uart_dispatch (b, a) chunk (True, wb) (True, wa) = (?b', ?a')"
    by (simp_all add: uart_dispatch_def)
  from handler_streaming(1) [OF A, of chunk wa] fail obtain pa where
    ta: "up_trace ?a' = up_trace a @ pa @ [UWrite (sock a) chunk] @ [UDestroy (sock a)]"
    by auto
  from handler_streaming(1) [OF B, of chunk wb] ok obtain pb where
    tb: "up_trace ?b' = up_trace b @ pb @ [UWrite (sock b) chunk] @ [UStats wb]"
    and pb: "\<forall>ev \<in> set pb. \<exists>x. ev = USetBits x"
    by auto
  have na: "new_events a ?a' = pa @ [UWrite (sock a) chunk] @ [UDestroy (sock a)]"
    by (rule new_events_append) (simp add: ta)
  have nb: "new_events b ?b' = pb @ [UWrite (sock b) chunk] @ [UStats wb]"
    by (rule new_events_append) (simp add: tb)
  have 1: "sock ?a' = -1" "worker ?a' = Woken"
    using handler_streaming(2,3) [OF A, of chunk wa] fail by simp_all
  have 2: "sock ?b' = sock b" "worker ?b' = Streaming"
    "event_bits ?b' AND CASTER_READY_BIT = event_bits b AND CASTER_READY_BIT"
    using handler_streaming(2,3,4) [OF B, of chunk wb] ok by simp_all
  have 3: "UDestroy (sock a) \<in> set (new_events a ?a')" by (simp add: na)
  have 4: "UWrite (sock b) chunk \<in> set (new_events b ?b')" by (simp add: nb)
  have 5: "UDestroy (sock b) \<notin> set (new_events b ?b')" using pb by (auto simp add: nb)
  show ?thesis unfolding d using 1 2 3 4 5 by simp
qed


lemma uplink_write_failure_isolated_witness:
  "sock (fst (uart_dispatch
      (\<lparr>event_bits = 7, sock = 5, data_keep_alive = 300, status_led_active = None,
        worker = Streaming, sleep_suspended = False,
        endpoint = Some (''caster.example.com'', 2101, ''TEST''), up_trace = []\<rparr>,
       \<lparr>event_bits = 7, sock = 6, data_keep_alive = 300, status_led_active = None,
        worker = Streaming, sleep_suspended = False,
        endpoint = Some (''other.example.com'', 2101, ''TEST2''), up_trace = []\<rparr>)
      ''chunk'' (True, -1) (True, 5))) = -1 \<and>
   worker (snd (uart_dispatch
      (\<lparr>event_bits = 7, sock = 5, data_keep_alive = 300, status_led_active = None,
        worker = Streaming, sleep_suspended = False,
        endpoint = Some (''caster.example.com'', 2101, ''TEST''), up_trace = []\<rparr>,
       \<lparr>event_bits = 7, sock = 6, data_keep_alive = 300, status_led_active = None,
        worker = Streaming, sleep_suspended = False,
        endpoint = Some (''other.example.com'', 2101, ''TEST2''), up_trace = []\<rparr>)
      ''chunk'' (True, -1) (True, 5))) = Streaming \<and>
   UWrite 6 ''chunk'' \<in> set (new_events
      \<lparr>event_bits = 7, sock = 6, data_keep_alive = 300, status_led_active = None,
        worker = Streaming, sleep_suspended = False,
        endpoint = Some (''other.example.com'', 2101, ''TEST2''), up_trace = []\<rparr>
      (snd (uart_dispatch
      (\<lparr>event_bits = 7, sock = 5, data_keep_alive = 300, status_led_active = None,
        worker = Streaming, sleep_suspended = False,
        endpoint = Some (''caster.example.com'', 2101, ''TEST''), up_trace = []\<rparr>,
       \<lparr>event_bits = 7, sock = 6, data_keep_alive = 300, status_led_active = None,
        worker = Streaming, sleep_suspended = False,
        endpoint = Some (''other.example.com'', 2101, ''TEST2''), up_trace = []\<rparr>)
      ''chunk'' (True, -1) (True, 5))))"
proof -
  let ?a = "\<lparr>event_bits = 7, sock = 5, data_keep_alive = 300, status_led_active = None,
        worker = Streaming, sleep_suspended = False,
        endpoint = Some (''caster.example.com'', 2101, ''TEST''), up_trace = []\<rparr>"
  let ?b = "\<lparr>event_bits = 7, sock = 6, data_keep_alive = 300, status_led_active = None,
        worker = Streaming, sleep_suspended = False,
        endpoint = Some (''other.example.com'', 2101, ''TEST2''), up_trace = []\<rparr>"
  have A: "event_bits ?a AND CASTER_READY_BIT \<noteq> 0" "worker ?a = Streaming" "0 \<le> sock ?a"
    by (simp_all add: CASTER_READY_BIT_def)
  have B: "event_bits ?b AND CASTER_READY_BIT \<noteq> 0" "worker ?b = Streaming" "0 \<le> sock ?b"
    by (simp_all add: CASTER_READY_BIT_def)
  have f: "(-1::int) < 0" and k: "(0::int) \<le> 5" by simp_all
  from uplink_write_failure_isolated [OF A B f k, of "''chunk''"]
  show ?thesis by simp
qed


lemma error_exit_simps:
  "worker (error_exit st) = AtRetryDelay"
  "event_bits (error_exit st) = event_bits st"
  "sleep_suspended (error_exit st)"
  "0 \<le> sock st \<Longrightarrow> sock (error_exit st) = -1"
  "0 \<le> sock st \<Longrightarrow> up_trace (error_exit st) = up_trace st @ [UDestroy (sock st)]"
  "sock st < 0 \<Longrightarrow> up_trace (error_exit st) = up_trace st"
  by (simp_all add: error_exit_def destroy_socket_def up_log_def)

lemma connect_attempt_bad_status:
  assumes cfg: "cfg_host e = Some host" "cfg_password e = Some password"
      "cfg_mountpoint e = Some mountpoint"
    and codes: "CONNECT_SOCKET_ERROR_RESOLVE p < 0" "CONNECT_SOCKET_ERROR_CONNECT p < 0"
    and conn: "0 \<le> connect_ret e" and wr: "0 \<le> write_ret e" and rd: "0 < read_ret e"
    and bad: "extract_http_header p (take (nat (read_ret e)) (read_buf e)) [] = None \<or>
       (\<exists>status. extract_http_header p (take (nat (read_ret e)) (read_buf e)) [] = Some status \<and>
          \<not> ntrip_response_ok p status)"
  shows "connect_attempt p st e =
     error_exit (up_log (up_log ((up_log (up_log (st\<lparr>sleep_suspended := False,
         endpoint := Some (host, cfg_port e, mountpoint)\<rparr>)
         (UNmea (''$PESP,NTRIP,'' @ status_tag p @ '',CONNECTING,%s:%d,%s'')
            [S host, D (uint (cfg_port e)), S mountpoint]))
         (UConnect host (cfg_port e)))\<lparr>sock := connect_ret e\<rparr>)
         (UWrite (connect_ret e) (source_request p password mountpoint)))
         (URead (connect_ret e)))"
  using assms
  by (auto simp add: connect_attempt_def attempt_begin_def attempt_rest_def Let_def up_log_def split: option.splits)

lemma connect_attempt_bad_status_effect:
  assumes cfg: "cfg_host e = Some host" "cfg_password e = Some password"
      "cfg_mountpoint e = Some mountpoint"
    and codes: "CONNECT_SOCKET_ERROR_RESOLVE p < 0" "CONNECT_SOCKET_ERROR_CONNECT p < 0"
    and conn: "0 \<le> connect_ret e" and wr: "0 \<le> write_ret e" and rd: "0 < read_ret e"
    and bad: "extract_http_header p (take (nat (read_ret e)) (read_buf e)) [] = None \<or>
       (\<exists>status. extract_http_header p (take (nat (read_ret e)) (read_buf e)) [] = Some status \<and>
          \<not> ntrip_response_ok p status)"
  shows "sock (connect_attempt p st e) = -1"
    and "worker (connect_attempt p st e) = AtRetryDelay"
    and "event_bits (connect_attempt p st e) = event_bits st"
    and "sleep_suspended (connect_attempt p st e)"
    and "up_trace (connect_attempt p st e) = up_trace st @
       [UNmea (''$PESP,NTRIP,'' @ status_tag p @ '',CONNECTING,%s:%d,%s'')
            [S host, D (uint (cfg_port e)), S mountpoint],
        UConnect host (cfg_port e),
        UWrite (connect_ret e) (source_request p password mountpoint),
        URead (connect_ret e),
        UDestroy (connect_ret e)]"
  unfolding connect_attempt_bad_status [OF assms]
  using conn by (simp_all add: error_exit_simps up_log_def)

lemma error_exit_trace:
  "up_trace (error_exit t) = up_trace t @ (if 0 \<le> sock t then [UDestroy (sock t)] else [])"
  by (simp add: error_exit_def destroy_socket_def up_log_def)

lemma set_led_simps:
  "up_trace (set_led st on) = up_trace st" "event_bits (set_led st on) = event_bits st"
  "sock (set_led st on) = sock st" "worker (set_led st on) = worker st"
  by (simp_all add: set_led_def split: option.splits)

lemma connect_attempt_extends:
  "\<exists>es. up_trace (connect_attempt p s e) = up_trace s @ es"
  by (simp add: connect_attempt_def attempt_begin_def attempt_rest_def Let_def up_log_def error_exit_trace set_led_simps
      up_trace_set_bits split: option.splits)

lemma task_starts_with_retry_delay:
  "worker st = AtRetryDelay \<Longrightarrow>
     take 1 (new_events st (ntrip_server_task p st e)) = [URetryDelay]"
proof -
  assume w: "worker st = AtRetryDelay"
  from connect_attempt_extends [of p "up_log st URetryDelay" e] obtain es where
    es: "up_trace (connect_attempt p (up_log st URetryDelay) e) = up_trace st @ URetryDelay # es"
    by (auto simp add: up_log_def)
  show ?thesis
  proof (cases "event_bits st AND DATA_READY_BIT = 0")
    case True
    with w show ?thesis
      by (simp add: ntrip_server_task_def Let_def up_log_def new_events_def)
  next
    case False
    with w have "ntrip_server_task p st e = connect_attempt p (up_log st URetryDelay) e"
      by (simp add: ntrip_server_task_def Let_def up_log_def)
    with es show ?thesis by (simp add: new_events_def)
  qed
qed

text \<open>
  Claim C3.  The worker makes a connection attempt (it was released from its
  wait, or it is at the top of its loop with data ready): the configuration is
  loaded, \<open>connect_socket\<close> returns a socket, the request is written and a
  response of positive length is read.  If \<open>extract_http_header\<close> finds no
  status in it, or \<open>ntrip_response_ok\<close> rejects the status found, then the pass
  ends with the socket destroyed and the handle -1, the event bits are what
  they were (the only bit operation of the worker in a pass, setting
  \<open>CASTER_READY_BIT\<close>, was not made; nor was \<open>retry_reset\<close> called), and the
  worker is at the top of its loop, where its next action is \<open>retry_delay\<close>.
\<close>

theorem handshake_failure_retries:
  assumes start: "worker st = AfterWait \<or>
       (worker st = AtRetryDelay \<and> event_bits st AND DATA_READY_BIT \<noteq> 0)"
    and cfg: "cfg_host e = Some host" "cfg_password e = Some password"
      "cfg_mountpoint e = Some mountpoint"
    and codes: "CONNECT_SOCKET_ERROR_RESOLVE p < 0" "CONNECT_SOCKET_ERROR_CONNECT p < 0"
    and conn: "0 \<le> connect_ret e" and wr: "0 \<le> write_ret e" and rd: "0 < read_ret e"
    and bad: "extract_http_header p (take (nat (read_ret e)) (read_buf e)) [] = None \<or>
       (\<exists>status. extract_http_header p (take (nat (read_ret e)) (read_buf e)) [] = Some status \<and>
          \<not> ntrip_response_ok p status)"
  shows "sock (ntrip_server_task p st e) = -1 \<and>
    worker (ntrip_server_task p st e) = AtRetryDelay \<and>
    event_bits (ntrip_server_task p st e) = event_bits st \<and>
    new_events st (ntrip_server_task p st e) =
      (if worker st = AtRetryDelay then [URetryDelay] else []) @
      [UNmea (''$PESP,NTRIP,'' @ status_tag p @ '',CONNECTING,%s:%d,%s'')
            [S host, D (uint (cfg_port e)), S mountpoint],
       UConnect host (cfg_port e),
       UWrite (connect_ret e) (source_request p password mountpoint),
       URead (connect_ret e),
       UDestroy (connect_ret e)] \<and>
    USetBits CASTER_READY_BIT \<notin> set (new_events st (ntrip_server_task p st e)) \<and>
    take 1 (new_events (ntrip_server_task p st e)
              (ntrip_server_task p (ntrip_server_task p st e) e')) = [URetryDelay]"
proof -
  note eff = connect_attempt_bad_status_effect [OF cfg codes conn wr rd bad]
  let ?st0 = "if worker st = AtRetryDelay then up_log st URetryDelay else st"
  have run: "ntrip_server_task p st e = connect_attempt p ?st0 e"
    using start by (auto simp add: ntrip_server_task_def Let_def up_log_def)
  have b0: "event_bits ?st0 = event_bits st" by (simp add: up_log_def)
  have t0: "up_trace ?st0 = up_trace st @ (if worker st = AtRetryDelay then [URetryDelay] else [])"
    by (simp add: up_log_def)
  have 1: "sock (ntrip_server_task p st e) = -1" unfolding run by (rule eff(1))
  have 2: "worker (ntrip_server_task p st e) = AtRetryDelay" unfolding run by (rule eff(2))
  have 3: "event_bits (ntrip_server_task p st e) = event_bits st"
    unfolding run eff(3) by (rule b0)
  have 4: "new_events st (ntrip_server_task p st e) =
      (if worker st = AtRetryDelay then [URetryDelay] else []) @
      [UNmea (''$PESP,NTRIP,'' @ status_tag p @ '',CONNECTING,%s:%d,%s'')
            [S host, D (uint (cfg_port e)), S mountpoint],
       UConnect host (cfg_port e),
       UWrite (connect_ret e) (source_request p password mountpoint),
       URead (connect_ret e),
       UDestroy (connect_ret e)]"
    unfolding run by (rule new_events_append) (simp add: eff(5) t0)
  have 5: "USetBits CASTER_READY_BIT \<notin> set (new_events st (ntrip_server_task p st e))"
    unfolding 4 by simp
  have 6: "take 1 (new_events (ntrip_server_task p st e)
              (ntrip_server_task p (ntrip_server_task p st e) e')) = [URetryDelay]"
    by (rule task_starts_with_retry_delay [OF 2])
  from 1 2 3 4 5 6 show ?thesis by blast
qed

theorem handshake_failure_retries_witness:
  "sock (ntrip_server_task
      \<lparr>NTRIP_KEEP_ALIVE_THRESHOLD = 10000, NTRIP_SERVER_NAME = ''NTRIP-DUO'',
       app_version = ''v1.0'', CONNECT_SOCKET_ERROR_RESOLVE = -2,
       CONNECT_SOCKET_ERROR_CONNECT = -3, extract_http_header = (\<lambda>buf name. Some buf),
       ntrip_response_ok = (\<lambda>status. status = ''ICY 200 OK''), status_tag = ''SRV''\<rparr>
      \<lparr>event_bits = 0, sock = -1, data_keep_alive = 0, status_led_active = None,
       worker = AfterWait, sleep_suspended = True, endpoint = None, up_trace = []\<rparr>
      \<lparr>cfg_host = Some ''caster.example.com'', cfg_password = Some ''secret'',
       cfg_mountpoint = Some ''TEST'', cfg_port = 2101, connect_ret = 5, write_ret = 50,
       read_ret = 20, read_buf = ''ERROR - Bad Password''\<rparr>) = -1 \<and>
   worker (ntrip_server_task
      \<lparr>NTRIP_KEEP_ALIVE_THRESHOLD = 10000, NTRIP_SERVER_NAME = ''NTRIP-DUO'',
       app_version = ''v1.0'', CONNECT_SOCKET_ERROR_RESOLVE = -2,
       CONNECT_SOCKET_ERROR_CONNECT = -3, extract_http_header = (\<lambda>buf name. Some buf),
       ntrip_response_ok = (\<lambda>status. status = ''ICY 200 OK''), status_tag = ''SRV''\<rparr>
      \<lparr>event_bits = 0, sock = -1, data_keep_alive = 0, status_led_active = None,
       worker = AfterWait, sleep_suspended = True, endpoint = None, up_trace = []\<rparr>
      \<lparr>cfg_host = Some ''caster.example.com'', cfg_password = Some ''secret'',
       cfg_mountpoint = Some ''TEST'', cfg_port = 2101, connect_ret = 5, write_ret = 50,
       read_ret = 20, read_buf = ''ERROR - Bad Password''\<rparr>) = AtRetryDelay \<and>
   event_bits (ntrip_server_task
      \<lparr>NTRIP_KEEP_ALIVE_THRESHOLD = 10000, NTRIP_SERVER_NAME = ''NTRIP-DUO'',
       app_version = ''v1.0'', CONNECT_SOCKET_ERROR_RESOLVE = -2,
       CONNECT_SOCKET_ERROR_CONNECT = -3, extract_http_header = (\<lambda>buf name. Some buf),
       ntrip_response_ok = (\<lambda>status. status = ''ICY 200 OK''), status_tag = ''SRV''\<rparr>
      \<lparr>event_bits = 0, sock = -1, data_keep_alive = 0, status_led_active = None,
       worker = AfterWait, sleep_suspended = True, endpoint = None, up_trace = []\<rparr>
      \<lparr>cfg_host = Some ''caster.example.com'', cfg_password = Some ''secret'',
       cfg_mountpoint = Some ''TEST'', cfg_port = 2101, connect_ret = 5, write_ret = 50,
       read_ret = 20, read_buf = ''ERROR - Bad Password''\<rparr>) = 0"
proof -
  let ?p = "\<lparr>NTRIP_KEEP_ALIVE_THRESHOLD = 10000, NTRIP_SERVER_NAME = ''NTRIP-DUO'',
       app_version = ''v1.0'', CONNECT_SOCKET_ERROR_RESOLVE = -2,
       CONNECT_SOCKET_ERROR_CONNECT = -3, extract_http_header = (\<lambda>buf name. Some buf),
       ntrip_response_ok = (\<lambda>status. status = ''ICY 200 OK''), status_tag = ''SRV''\<rparr>"
  let ?st = "\<lparr>event_bits = 0, sock = -1, data_keep_alive = 0, status_led_active = None,
       worker = AfterWait, sleep_suspended = True, endpoint = None, up_trace = []\<rparr>"
  let ?e = "\<lparr>cfg_host = Some ''caster.example.com'', cfg_password = Some ''secret'',
       cfg_mountpoint = Some ''TEST'', cfg_port = 2101, connect_ret = 5, write_ret = 50,
       read_ret = 20, read_buf = ''ERROR - Bad Password''\<rparr>"
  have start: "worker ?st = AfterWait \<or>
       (worker ?st = AtRetryDelay \<and> event_bits ?st AND DATA_READY_BIT \<noteq> 0)" by simp
  have cfg: "cfg_host ?e = Some ''caster.example.com''" "cfg_password ?e = Some ''secret''"
      "cfg_mountpoint ?e = Some ''TEST''" by simp_all
  have codes: "CONNECT_SOCKET_ERROR_RESOLVE ?p < 0" "CONNECT_SOCKET_ERROR_CONNECT ?p < 0"
    by simp_all
  have io: "0 \<le> connect_ret ?e" "0 \<le> write_ret ?e" "0 < read_ret ?e" by simp_all
  have bad: "extract_http_header ?p (take (nat (read_ret ?e)) (read_buf ?e)) [] = None \<or>
       (\<exists>status. extract_http_header ?p (take (nat (read_ret ?e)) (read_buf ?e)) [] = Some status \<and>
          \<not> ntrip_response_ok ?p status)" by simp
  from handshake_failure_retries [OF start cfg codes io bad]
  show ?thesis by simp
qed


lemma connect_attempt_success:
  assumes "cfg_host e = Some host" "cfg_password e = Some password"
      "cfg_mountpoint e = Some mountpoint"
    and "connect_ret e \<noteq> CONNECT_SOCKET_ERROR_RESOLVE p"
      "connect_ret e \<noteq> CONNECT_SOCKET_ERROR_CONNECT p"
    and "0 \<le> write_ret e" "0 < read_ret e"
    and "extract_http_header p (take (nat (read_ret e)) (read_buf e)) [] = Some status"
      "ntrip_response_ok p status"
    and "worker st \<noteq> WaitingForData"
  shows "worker (connect_attempt p st e) = CasterReady"
    and "sock (connect_attempt p st e) = connect_ret e"
    and "event_bits (connect_attempt p st e) AND CASTER_READY_BIT = CASTER_READY_BIT"
  using assms
  by (simp_all add: connect_attempt_def attempt_begin_def attempt_rest_def Let_def up_log_def
      set_led_simps set_bits_not_waiting up_trace_set_bits or_same_bit)

text \<open>
  The handler on an uplink whose worker has set \<open>CASTER_READY_BIT\<close> and has not
  yet called \<open>vTaskSuspend(NULL)\<close>: a failed \<open>write\<close> destroys the socket, and
  \<open>vTaskResume\<close> finds the worker running and does nothing.  The worker then
  suspends itself, with the socket gone.
\<close>

lemma handler_before_suspend:
  assumes "event_bits st AND CASTER_READY_BIT \<noteq> 0" "worker st = CasterReady" "0 \<le> sock st"
    and "sent < 0"
  shows "sock (ntrip_server_uart_handler st buffer True sent) = -1"
    and "worker (ntrip_server_uart_handler st buffer True sent) = CasterReady"
    and "worker (ntrip_server_task p (ntrip_server_uart_handler st buffer True sent) e) = Streaming"
    and "sock (ntrip_server_task p (ntrip_server_uart_handler st buffer True sent) e) = -1"
proof -
  let ?st1 = "if event_bits st AND DATA_READY_BIT = 0 then xEventGroupSetBits st DATA_READY_BIT else st"
  let ?st2 = "?st1\<lparr>data_keep_alive := 0\<rparr>"
  define st3 where
    "st3 = (if event_bits st AND DATA_SENT_BIT = 0 then xEventGroupSetBits ?st2 DATA_SENT_BIT else ?st2)"
  have w1: "worker ?st1 = CasterReady" "sock ?st1 = sock st"
    using assms by (simp_all add: xEventGroupSetBits_def Let_def up_log_def)
  have w3: "worker st3 = CasterReady" "sock st3 = sock st"
    using w1 by (simp_all add: st3_def xEventGroupSetBits_def Let_def up_log_def)
  have h: "ntrip_server_uart_handler st buffer True sent =
      vTaskResume_server_task (destroy_socket (up_log st3 (UWrite (sock st3) buffer)))"
    using assms w3 by (simp add: ntrip_server_uart_handler_def Let_def st3_def)
  show 1: "sock (ntrip_server_uart_handler st buffer True sent) = -1"
    unfolding h using w3 assms
    by (simp add: vTaskResume_server_task_def destroy_socket_def up_log_def)
  show 2: "worker (ntrip_server_uart_handler st buffer True sent) = CasterReady"
    unfolding h using w3 assms
    by (simp add: vTaskResume_server_task_def destroy_socket_def up_log_def)
  show "worker (ntrip_server_task p (ntrip_server_uart_handler st buffer True sent) e) = Streaming"
    using 2 by (simp add: ntrip_server_task_def)
  show "sock (ntrip_server_task p (ntrip_server_uart_handler st buffer True sent) e) = -1"
    using 1 2 by (simp add: ntrip_server_task_def)
qed

text \<open>
  An uplink whose worker is suspended and whose socket is gone stays that way:
  the handler writes nothing and resumes nobody, whatever the chunk, the
  keep-alive task does not touch the worker, and the worker does not move.
\<close>

lemma suspended_without_socket_stays:
  assumes "worker st = Streaming" "sock st < 0"
  shows "worker (ntrip_server_uart_handler st buffer take_ok sent) = Streaming"
    and "sock (ntrip_server_uart_handler st buffer take_ok sent) = sock st"
    and "worker (ntrip_server_sleep_task p st) = Streaming"
    and "sock (ntrip_server_sleep_task p st) = sock st"
    and "ntrip_server_task p st e = st"
proof -
  show "worker (ntrip_server_uart_handler st buffer take_ok sent) = Streaming"
    using assms
    by (simp add: ntrip_server_uart_handler_def Let_def up_trace_set_bits set_bits_not_waiting)
  show "sock (ntrip_server_uart_handler st buffer take_ok sent) = sock st"
    using assms
    by (simp add: ntrip_server_uart_handler_def Let_def up_trace_set_bits set_bits_not_waiting)
  show "worker (ntrip_server_sleep_task p st) = Streaming"
    using assms by (simp add: ntrip_server_sleep_task_def Let_def xEventGroupClearBits_def up_log_def)
  show "sock (ntrip_server_sleep_task p st) = sock st"
    by (simp add: ntrip_server_sleep_task_def Let_def xEventGroupClearBits_def up_log_def)
  show "ntrip_server_task p st e = st"
    using assms by (simp add: ntrip_server_task_def)
qed

text \<open>
  Claim C1 says that a write failure on the socket of uplink A, with A and B
  streaming, tears down the socket of A and wakes the worker of A.  The worker
  sets \<open>CASTER_READY_BIT\<close> before it calls \<open>vTaskSuspend(NULL)\<close>, and from that
  bit on the handler writes to the socket.  Here uplink \<open>a\<close> has just completed
  its handshake on socket 5 and stands between the two calls; uplink \<open>b\<close>
  streams on socket 6.  The dispatch of the next chunk fails to write on socket
  5: the socket of \<open>a\<close> is destroyed, but \<open>vTaskResume\<close> of a worker that is not
  suspended does nothing, and the worker of \<open>a\<close> then suspends itself with no
  socket.  The following chunk is not written for \<open>a\<close> and wakes nobody, and the
  worker of \<open>a\<close> does not move: \<open>a\<close> makes no new connection attempt.  Uplink \<open>b\<close>
  is not affected: it stays suspended on its socket and the chunk is written
  to it.
\<close>

theorem write_failure_before_suspend_loses_wake:
  "(let p = \<lparr>NTRIP_KEEP_ALIVE_THRESHOLD = 10000, NTRIP_SERVER_NAME = ''NTRIP-DUO'',
             app_version = ''v1.0'', CONNECT_SOCKET_ERROR_RESOLVE = -2,
             CONNECT_SOCKET_ERROR_CONNECT = -3, extract_http_header = (\<lambda>buf name. Some buf),
             ntrip_response_ok = (\<lambda>status. status = ''ICY 200 OK''), status_tag = ''SRV''\<rparr>;
        e = \<lparr>cfg_host = Some ''caster.example.com'', cfg_password = Some ''secret'',
             cfg_mountpoint = Some ''TEST'', cfg_port = 2101, connect_ret = 5, write_ret = 50,
             read_ret = 10, read_buf = ''ICY 200 OK''\<rparr>;
        a = ntrip_server_task p
              (ntrip_server_uart_handler (ntrip_server_task_start True False True)
                 ''chunk1'' True 0) e;
        b = \<lparr>event_bits = 7, sock = 6, data_keep_alive = 0, status_led_active = None,
             worker = Streaming, sleep_suspended = False,
             endpoint = Some (''other.example.com'', 2101, ''TEST2''), up_trace = []\<rparr>;
        d = uart_dispatch (a, b) ''chunk2'' (True, -1) (True, 6);
        a1 = ntrip_server_task p (fst d) e;
        a2 = ntrip_server_uart_handler a1 ''chunk3'' True 6
    in worker a = CasterReady \<and> sock a = 5 \<and> event_bits a = 3 \<and>
       worker (fst d) = CasterReady \<and> sock (fst d) = -1 \<and>
       new_events a (fst d) = [USetBits DATA_SENT_BIT, UWrite 5 ''chunk2'', UDestroy 5] \<and>
       worker a1 = Streaming \<and> sock a1 = -1 \<and>
       a2 = a1 \<and> ntrip_server_task p a2 e = a2 \<and>
       worker (snd d) = Streaming \<and> sock (snd d) = 6 \<and>
       event_bits (snd d) = 7 \<and>
       new_events b (snd d) = [UWrite 6 ''chunk2'', UStats 6])"
proof -
  let ?p = "\<lparr>NTRIP_KEEP_ALIVE_THRESHOLD = 10000, NTRIP_SERVER_NAME = ''NTRIP-DUO'',
             app_version = ''v1.0'', CONNECT_SOCKET_ERROR_RESOLVE = -2,
             CONNECT_SOCKET_ERROR_CONNECT = -3, extract_http_header = (\<lambda>buf name. Some buf),
             ntrip_response_ok = (\<lambda>status. status = ''ICY 200 OK''), status_tag = ''SRV''\<rparr>"
  let ?e = "\<lparr>cfg_host = Some ''caster.example.com'', cfg_password = Some ''secret'',
             cfg_mountpoint = Some ''TEST'', cfg_port = 2101, connect_ret = 5, write_ret = 50,
             read_ret = 10, read_buf = ''ICY 200 OK''\<rparr>"
  let ?b = "\<lparr>event_bits = 7, sock = 6, data_keep_alive = 0, status_led_active = None,
             worker = Streaming, sleep_suspended = False,
             endpoint = Some (''other.example.com'', 2101, ''TEST2''), up_trace = []\<rparr>"
  define a where "a = ntrip_server_task ?p
              (ntrip_server_uart_handler (ntrip_server_task_start True False True)
                 ''chunk1'' True 0) ?e"
  define a' where "a' = ntrip_server_uart_handler a ''chunk2'' True (-1)"
  define b' where "b' = ntrip_server_uart_handler ?b ''chunk2'' True 6"
  define a1 where "a1 = ntrip_server_task ?p a' ?e"
  have s1: "ntrip_server_uart_handler (ntrip_server_task_start True False True) ''chunk1'' True 0 =
      \<lparr>event_bits = 2, sock = -1, data_keep_alive = 0, status_led_active = None,
       worker = AtRetryDelay, sleep_suspended = True, endpoint = None,
       up_trace = [USetBits DATA_READY_BIT]\<rparr>"
    by (simp add: ntrip_server_uart_handler_def ntrip_server_task_start_def Let_def
        xEventGroupSetBits_def up_log_def DATA_READY_BIT_def CASTER_READY_BIT_def)
  have a: "worker a = CasterReady" "sock a = 5" "event_bits a = 3" "data_keep_alive a = 0"
    unfolding a_def s1
    by (simp_all add: ntrip_server_task_def connect_attempt_def attempt_begin_def
        attempt_rest_def Let_def up_log_def set_led_def xEventGroupSetBits_def
        DATA_READY_BIT_def CASTER_READY_BIT_def)
  have a': "a' = a\<lparr>event_bits := 7, sock := -1,
      up_trace := up_trace a @ [USetBits DATA_SENT_BIT, UWrite 5 ''chunk2'', UDestroy 5]\<rparr>"
    unfolding a'_def using a
    by (simp add: ntrip_server_uart_handler_def Let_def xEventGroupSetBits_def up_log_def
        destroy_socket_def vTaskResume_server_task_def
        DATA_READY_BIT_def CASTER_READY_BIT_def DATA_SENT_BIT_def)
  have a1: "a1 = a'\<lparr>worker := Streaming\<rparr>"
    unfolding a1_def using a by (simp add: a' ntrip_server_task_def)
  have a2: "ntrip_server_uart_handler a1 ''chunk3'' True 6 = a1"
    using a
    by (simp add: a1 a' ntrip_server_uart_handler_def Let_def
        DATA_READY_BIT_def CASTER_READY_BIT_def DATA_SENT_BIT_def)
  have a3: "ntrip_server_task ?p a1 ?e = a1"
    by (simp add: a1 ntrip_server_task_def)
  have b': "b' = ?b\<lparr>up_trace := [UWrite 6 ''chunk2'', UStats 6]\<rparr>"
    unfolding b'_def
    by (simp add: ntrip_server_uart_handler_def Let_def up_log_def
        DATA_READY_BIT_def CASTER_READY_BIT_def DATA_SENT_BIT_def)
  have d: "uart_dispatch (a, ?b) ''chunk2'' (True, -1) (True, 6) = (a', b')"
    by (simp add: uart_dispatch_def a'_def b'_def)
  have n: "new_events a a' = [USetBits DATA_SENT_BIT, UWrite 5 ''chunk2'', UDestroy 5]"
    by (simp add: a' new_events_def)
  have nb: "new_events ?b b' = [UWrite 6 ''chunk2'', UStats 6]"
    by (simp add: b' new_events_def)
  have r: "worker a' = CasterReady" "sock a' = -1" "worker a1 = Streaming" "sock a1 = -1"
    "worker b' = Streaming" "sock b' = 6" "event_bits b' = 7"
    using a by (simp_all add: a1 a' b')
  show ?thesis
    unfolding Let_def a_def [symmetric] d fst_conv snd_conv a1_def [symmetric] a2 a3
    using a(1,2,3) r n nb by simp
qed

lemma int32_id: "- (2 ^ 31) \<le> x \<Longrightarrow> x < 2 ^ 31 \<Longrightarrow> int32 x = x"
  by (simp add: int32_def)

lemma c_div_pos: "0 < t \<Longrightarrow> c_div t 10 = t div 10"
  by (simp add: c_div_def)

lemma sleep_task_below:
  "\<not> sleep_suspended s \<Longrightarrow> data_keep_alive s \<noteq> NTRIP_KEEP_ALIVE_THRESHOLD p \<Longrightarrow>
     ntrip_server_sleep_task p s =
       s\<lparr>data_keep_alive :=
           int32 (data_keep_alive s + c_div (NTRIP_KEEP_ALIVE_THRESHOLD p) 10)\<rparr>"
  by (simp add: ntrip_server_sleep_task_def)

lemma sleep_task_at:
  "\<not> sleep_suspended s \<Longrightarrow> data_keep_alive s = NTRIP_KEEP_ALIVE_THRESHOLD p \<Longrightarrow>
     event_bits (ntrip_server_sleep_task p s) = event_bits s AND NOT DATA_READY_BIT \<and>
     worker (ntrip_server_sleep_task p s) = worker s \<and>
     sleep_suspended (ntrip_server_sleep_task p s) = sleep_suspended s \<and>
     sock (ntrip_server_sleep_task p s) = sock s \<and>
     endpoint (ntrip_server_sleep_task p s) = endpoint s"
  by (simp add: ntrip_server_sleep_task_def Let_def xEventGroupClearBits_def up_log_def)

lemma sleep_task_steps:
  assumes T: "0 < NTRIP_KEEP_ALIVE_THRESHOLD p" "NTRIP_KEEP_ALIVE_THRESHOLD p mod 10 = 0"
      "NTRIP_KEEP_ALIVE_THRESHOLD p < 2 ^ 31"
    and r: "\<not> sleep_suspended st" and z: "data_keep_alive st = 0"
  shows "k \<le> 10 \<Longrightarrow>
     data_keep_alive ((ntrip_server_sleep_task p ^^ k) st) =
       int k * (NTRIP_KEEP_ALIVE_THRESHOLD p div 10) \<and>
     event_bits ((ntrip_server_sleep_task p ^^ k) st) = event_bits st \<and>
     worker ((ntrip_server_sleep_task p ^^ k) st) = worker st \<and>
     \<not> sleep_suspended ((ntrip_server_sleep_task p ^^ k) st) \<and>
     up_trace ((ntrip_server_sleep_task p ^^ k) st) = up_trace st"
proof (induction k)
  case 0
  then show ?case using z r by simp
next
  case (Suc k)
  let ?T = "NTRIP_KEEP_ALIVE_THRESHOLD p"
  let ?s = "(ntrip_server_sleep_task p ^^ k) st"
  from Suc have ih: "data_keep_alive ?s = int k * (?T div 10)"
    "event_bits ?s = event_bits st" "worker ?s = worker st" "\<not> sleep_suspended ?s"
    "up_trace ?s = up_trace st"
    by simp_all
  have ten: "10 * (?T div 10) = ?T" using T(2) by presburger
  have pos: "0 < ?T div 10" using T(1) ten by linarith
  have lt: "int k * (?T div 10) < 10 * (?T div 10)"
    using Suc.prems pos by (intro mult_strict_right_mono) auto
  then have ne: "data_keep_alive ?s \<noteq> ?T" using ih(1) ten by simp
  have le: "int (Suc k) * (?T div 10) \<le> 10 * (?T div 10)"
    using Suc.prems pos by (intro mult_right_mono) auto
  have nn: "0 \<le> int (Suc k) * (?T div 10)" using pos by simp
  have w: "int32 (int k * (?T div 10) + c_div ?T 10) = int (Suc k) * (?T div 10)"
  proof -
    have "int k * (?T div 10) + c_div ?T 10 = int (Suc k) * (?T div 10)"
      using T(1) by (simp add: c_div_pos algebra_simps)
    moreover have "int32 (int (Suc k) * (?T div 10)) = int (Suc k) * (?T div 10)"
      using nn le ten T(3) by (intro int32_id) linarith+
    ultimately show ?thesis by simp
  qed
  have step: "(ntrip_server_sleep_task p ^^ Suc k) st = ntrip_server_sleep_task p ?s"
    by simp
  show ?case unfolding step sleep_task_below [OF ih(4) ne] using ih w
    by simp
qed

lemma sleep_task_clears:
  assumes T: "0 < NTRIP_KEEP_ALIVE_THRESHOLD p" "NTRIP_KEEP_ALIVE_THRESHOLD p mod 10 = 0"
      "NTRIP_KEEP_ALIVE_THRESHOLD p < 2 ^ 31"
    and r: "\<not> sleep_suspended st" and z: "data_keep_alive st = 0"
  shows "event_bits ((ntrip_server_sleep_task p ^^ 11) st) = event_bits st AND NOT DATA_READY_BIT"
    and "worker ((ntrip_server_sleep_task p ^^ 11) st) = worker st"
proof -
  let ?s = "(ntrip_server_sleep_task p ^^ 10) st"
  from sleep_task_steps [OF T r z, of 10]
  have s: "data_keep_alive ?s = 10 * (NTRIP_KEEP_ALIVE_THRESHOLD p div 10)"
    "event_bits ?s = event_bits st" "worker ?s = worker st" "\<not> sleep_suspended ?s"
    by simp_all
  have "10 * (NTRIP_KEEP_ALIVE_THRESHOLD p div 10) = NTRIP_KEEP_ALIVE_THRESHOLD p"
    using T(2) by presburger
  with s have eq: "data_keep_alive ?s = NTRIP_KEEP_ALIVE_THRESHOLD p" by simp
  have unf: "(ntrip_server_sleep_task p ^^ 11) st = ntrip_server_sleep_task p ?s"
    by (simp add: eval_nat_numeral)
  show "event_bits ((ntrip_server_sleep_task p ^^ 11) st) = event_bits st AND NOT DATA_READY_BIT"
    unfolding unf using sleep_task_at [OF s(4) eq] s by simp
  show "worker ((ntrip_server_sleep_task p ^^ 11) st) = worker st"
    unfolding unf using sleep_task_at [OF s(4) eq] s by simp
qed

lemma sleep_task_suspended: "sleep_suspended st \<Longrightarrow> ntrip_server_sleep_task p st = st"
  by (simp add: ntrip_server_sleep_task_def)

lemma sleep_task_suspended_funpow:
  "sleep_suspended st \<Longrightarrow> (ntrip_server_sleep_task p ^^ n) st = st"
  by (induction n) (simp_all add: sleep_task_suspended)

lemma clear_other_bit: "c AND x = 0 \<Longrightarrow> (b AND NOT x) AND c = b AND (c::32 word)"
proof -
  assume "c AND x = 0"
  then have "\<And>n. \<not> (bit c n \<and> bit x n)"
    by (metis bit_0_eq bit_and_iff bot_apply bot_bool_def)
  then show ?thesis
    by (auto simp add: bit_eq_iff bit_and_iff bit_not_iff)
qed

lemma error_exit_bits: "event_bits (error_exit st) = event_bits st"
  by (simp add: error_exit_def destroy_socket_def up_log_def)

lemma attempt_rest_data_bit:
  "worker s \<noteq> WaitingForData \<Longrightarrow>
     event_bits (attempt_rest p s e) AND DATA_READY_BIT = event_bits s AND DATA_READY_BIT"
  by (simp add: attempt_rest_def Let_def up_log_def error_exit_bits set_led_simps
      set_bits_not_waiting or_other_bit bits_disjoint split: option.splits)

lemma connect_attempt_data_bit:
  "worker s \<noteq> WaitingForData \<Longrightarrow>
     event_bits (connect_attempt p s e) AND DATA_READY_BIT = event_bits s AND DATA_READY_BIT"
  by (simp add: connect_attempt_def attempt_begin_def attempt_rest_data_bit)

lemma clear_bits_simps:
  "c AND m = 0 \<Longrightarrow> event_bits (xEventGroupClearBits s m) AND c = event_bits s AND c"
  "endpoint (xEventGroupClearBits s m) = endpoint s"
  by (simp_all add: xEventGroupClearBits_def up_log_def clear_other_bit)

lemma set_led_endpoint: "endpoint (set_led s on) = endpoint s"
  by (simp add: set_led_def split: option.splits)

lemma after_suspend_data_bit:
  "event_bits (after_suspend p s) AND DATA_READY_BIT = event_bits s AND DATA_READY_BIT"
proof -
  have d: "DATA_READY_BIT AND (CASTER_READY_BIT OR DATA_SENT_BIT) = 0"
    by (simp add: CASTER_READY_BIT_def DATA_READY_BIT_def DATA_SENT_BIT_def)
  show ?thesis
    by (simp add: after_suspend_def Let_def up_log_def error_exit_bits set_led_simps
        set_led_endpoint clear_bits_simps(1) [OF d] split: option.splits)
qed

lemma worker_keeps_data_bit:
  "event_bits (ntrip_server_task p st e) AND DATA_READY_BIT = event_bits st AND DATA_READY_BIT"
  by (cases "worker st")
    (simp_all add: ntrip_server_task_def Let_def up_log_def connect_attempt_data_bit
      after_suspend_data_bit)

lemma task_parks_without_data:
  assumes "worker st = AtRetryDelay" "event_bits st AND DATA_READY_BIT = 0"
  shows "worker (ntrip_server_task p st e) = WaitingForData"
    and "new_events st (ntrip_server_task p st e) =
       [URetryDelay, UNmea (''$PESP,NTRIP,'' @ status_tag p @ '',WAITING'') []]"
    and "sock (ntrip_server_task p st e) = sock st"
    and "event_bits (ntrip_server_task p st e) = event_bits st"
    and "ntrip_server_task p (ntrip_server_task p st e) e' = ntrip_server_task p st e"
  using assms by (simp_all add: ntrip_server_task_def Let_def up_log_def new_events_def)

lemma handler_rearms:
  assumes "event_bits st AND DATA_READY_BIT = 0"
  shows "data_keep_alive (ntrip_server_uart_handler st buffer take_ok sent) = 0"
    and "take 1 (new_events st (ntrip_server_uart_handler st buffer take_ok sent)) =
       [USetBits DATA_READY_BIT]"
    and "worker st = WaitingForData \<Longrightarrow>
       worker (ntrip_server_uart_handler st buffer take_ok sent) = AfterWait"
    and "worker st \<noteq> WaitingForData \<Longrightarrow>
       event_bits (ntrip_server_uart_handler st buffer take_ok sent) AND DATA_READY_BIT \<noteq> 0"
proof -
  let ?st1 = "xEventGroupSetBits st DATA_READY_BIT"
  let ?st2 = "?st1\<lparr>data_keep_alive := 0\<rparr>"
  define st3 where
    "st3 = (if event_bits st AND DATA_SENT_BIT = 0 then xEventGroupSetBits ?st2 DATA_SENT_BIT else ?st2)"
  let ?h = "ntrip_server_uart_handler st buffer take_ok sent"
  have h: "?h = (if event_bits st AND CASTER_READY_BIT = 0 then ?st2
      else if take_ok then
        (if sock st3 \<ge> 0 then
           (let st4 = up_log st3 (UWrite (sock st3) buffer)
            in if sent < 0 then vTaskResume_server_task (destroy_socket st4)
               else up_log st4 (UStats sent))
         else st3)
      else st3)"
    using assms by (simp add: ntrip_server_uart_handler_def Let_def st3_def)
  have t2: "up_trace ?st2 = up_trace st @ [USetBits DATA_READY_BIT]"
    by (simp add: up_trace_set_bits)
  have t3: "\<exists>es. up_trace st3 = up_trace st @ USetBits DATA_READY_BIT # es"
    by (simp add: up_trace_set_bits st3_def)
  have k3: "data_keep_alive st3 = 0" by (simp add: up_trace_set_bits st3_def)
  show "data_keep_alive ?h = 0"
    unfolding h using k3
    by (simp add: Let_def up_log_def destroy_socket_def vTaskResume_server_task_def up_trace_set_bits)
  from t3 obtain es where es: "up_trace st3 = up_trace st @ USetBits DATA_READY_BIT # es" by blast
  have "\<exists>es. up_trace ?h = up_trace st @ USetBits DATA_READY_BIT # es"
    unfolding h using es t2
    by (simp add: Let_def up_log_def destroy_socket_def vTaskResume_server_task_def)
  then show "take 1 (new_events st ?h) = [USetBits DATA_READY_BIT]"
    by (auto simp add: new_events_def)
  show "worker ?h = AfterWait" if w: "worker st = WaitingForData"
  proof -
    have w1: "worker ?st2 = AfterWait" using set_data_ready_waiting [OF w] by simp
    then have w3: "worker st3 = AfterWait" by (simp add: set_bits_not_waiting st3_def)
    show ?thesis unfolding h using w1 w3
      by (simp add: Let_def up_log_def destroy_socket_def vTaskResume_server_task_def)
  qed
  show "event_bits ?h AND DATA_READY_BIT \<noteq> 0" if w: "worker st \<noteq> WaitingForData"
  proof -
    have b1: "event_bits ?st1 = event_bits st OR DATA_READY_BIT" "worker ?st1 \<noteq> WaitingForData"
      using set_bits_not_waiting [OF w] w by simp_all
    have b2: "event_bits ?st2 AND DATA_READY_BIT = DATA_READY_BIT"
      using b1 by (simp add: or_same_bit)
    have w2: "worker ?st2 \<noteq> WaitingForData" using b1 by simp
    have b3: "event_bits st3 AND DATA_READY_BIT = DATA_READY_BIT"
      using b2 set_bits_not_waiting [OF w2, of DATA_SENT_BIT]
      by (simp add: st3_def or_other_bit bits_disjoint)
    show ?thesis unfolding h using b2 b3 bits_disjoint(5)
      by (simp add: Let_def up_log_def destroy_socket_def vTaskResume_server_task_def)
  qed
qed

lemma handler_resets_keep_alive:
  "data_keep_alive (ntrip_server_uart_handler st buffer take_ok sent) = 0"
  by (simp add: ntrip_server_uart_handler_def Let_def up_log_def destroy_socket_def
      vTaskResume_server_task_def up_trace_set_bits)

lemma attempt_begin_simps:
  "\<not> sleep_suspended (attempt_begin st)" "event_bits (attempt_begin st) = event_bits st"
  "worker (attempt_begin st) = worker st" "data_keep_alive (attempt_begin st) = data_keep_alive st"
  by (simp_all add: attempt_begin_def)

lemma attempt_rest_resolve_error:
  "cfg_host e = Some host \<Longrightarrow> cfg_password e = Some password \<Longrightarrow>
   cfg_mountpoint e = Some mountpoint \<Longrightarrow> connect_ret e = CONNECT_SOCKET_ERROR_RESOLVE p \<Longrightarrow>
     worker (attempt_rest p s e) = AtRetryDelay"
  by (simp add: attempt_rest_def Let_def up_log_def error_exit_simps)

text \<open>
  Claim C5 says that after the keep-alive threshold without a chunk the
  \<open>data_ready\<close> bit is cleared and the worker stops attempting connections.  The
  worker suspends the keep-alive task at \<open>_error\<close> and resumes it only after the
  bit test of the next pass, so the silence that passes during the backoff of a
  retrying worker is not counted.  After the start, one chunk and a connection
  attempt that fails, the worker is at the top of its loop with the bit set and
  the keep-alive task suspended: eleven periods of that task change nothing,
  and the worker then makes its next connection attempt.
\<close>

theorem keep_alive_suspended_during_backoff:
  "(ntrip_server_sleep_task
      \<lparr>NTRIP_KEEP_ALIVE_THRESHOLD = 10000, NTRIP_SERVER_NAME = ''NTRIP-DUO'',
       app_version = ''v1.0'', CONNECT_SOCKET_ERROR_RESOLVE = -2,
       CONNECT_SOCKET_ERROR_CONNECT = -3, extract_http_header = (\<lambda>buf name. Some buf),
       ntrip_response_ok = (\<lambda>status. status = ''ICY 200 OK''), status_tag = ''SRV''\<rparr> ^^ 11)
     (ntrip_server_task
        \<lparr>NTRIP_KEEP_ALIVE_THRESHOLD = 10000, NTRIP_SERVER_NAME = ''NTRIP-DUO'',
         app_version = ''v1.0'', CONNECT_SOCKET_ERROR_RESOLVE = -2,
         CONNECT_SOCKET_ERROR_CONNECT = -3, extract_http_header = (\<lambda>buf name. Some buf),
         ntrip_response_ok = (\<lambda>status. status = ''ICY 200 OK''), status_tag = ''SRV''\<rparr>
        (ntrip_server_uart_handler (ntrip_server_task_start True False True) ''chunk'' True 0)
        \<lparr>cfg_host = Some ''caster.example.com'', cfg_password = Some ''secret'',
         cfg_mountpoint = Some ''TEST'', cfg_port = 2101, connect_ret = -3, write_ret = 0,
         read_ret = 0, read_buf = []\<rparr>)
   = \<lparr>event_bits = 2, sock = -3, data_keep_alive = 0, status_led_active = None,
      worker = AtRetryDelay, sleep_suspended = True, endpoint = None,
      up_trace = [USetBits DATA_READY_BIT, URetryDelay,
        UNmea ''$PESP,NTRIP,SRV,CONNECTING,%s:%d,%s'' [S ''caster.example.com'', D 2101, S ''TEST''],
        UConnect ''caster.example.com'' 2101]\<rparr> \<and>
   new_events
     \<lparr>event_bits = 2, sock = -3, data_keep_alive = 0, status_led_active = None,
      worker = AtRetryDelay, sleep_suspended = True, endpoint = None,
      up_trace = [USetBits DATA_READY_BIT, URetryDelay,
        UNmea ''$PESP,NTRIP,SRV,CONNECTING,%s:%d,%s'' [S ''caster.example.com'', D 2101, S ''TEST''],
        UConnect ''caster.example.com'' 2101]\<rparr>
     (ntrip_server_task
        \<lparr>NTRIP_KEEP_ALIVE_THRESHOLD = 10000, NTRIP_SERVER_NAME = ''NTRIP-DUO'',
         app_version = ''v1.0'', CONNECT_SOCKET_ERROR_RESOLVE = -2,
         CONNECT_SOCKET_ERROR_CONNECT = -3, extract_http_header = (\<lambda>buf name. Some buf),
         ntrip_response_ok = (\<lambda>status. status = ''ICY 200 OK''), status_tag = ''SRV''\<rparr>
        \<lparr>event_bits = 2, sock = -3, data_keep_alive = 0, status_led_active = None,
         worker = AtRetryDelay, sleep_suspended = True, endpoint = None,
         up_trace = [USetBits DATA_READY_BIT, URetryDelay,
           UNmea ''$PESP,NTRIP,SRV,CONNECTING,%s:%d,%s'' [S ''caster.example.com'', D 2101, S ''TEST''],
           UConnect ''caster.example.com'' 2101]\<rparr>
        \<lparr>cfg_host = Some ''caster.example.com'', cfg_password = Some ''secret'',
         cfg_mountpoint = Some ''TEST'', cfg_port = 2101, connect_ret = -3, write_ret = 0,
         read_ret = 0, read_buf = []\<rparr>)
   = [URetryDelay,
      UNmea ''$PESP,NTRIP,SRV,CONNECTING,%s:%d,%s'' [S ''caster.example.com'', D 2101, S ''TEST''],
      UConnect ''caster.example.com'' 2101]"
proof -
  let ?p = "\<lparr>NTRIP_KEEP_ALIVE_THRESHOLD = 10000, NTRIP_SERVER_NAME = ''NTRIP-DUO'',
       app_version = ''v1.0'', CONNECT_SOCKET_ERROR_RESOLVE = -2,
       CONNECT_SOCKET_ERROR_CONNECT = -3, extract_http_header = (\<lambda>buf name. Some buf),
       ntrip_response_ok = (\<lambda>status. status = ''ICY 200 OK''), status_tag = ''SRV''\<rparr>"
  let ?e = "\<lparr>cfg_host = Some ''caster.example.com'', cfg_password = Some ''secret'',
         cfg_mountpoint = Some ''TEST'', cfg_port = 2101, connect_ret = -3, write_ret = 0,
         read_ret = 0, read_buf = []\<rparr>"
  let ?s2 = "\<lparr>event_bits = 2, sock = -3, data_keep_alive = 0, status_led_active = None,
      worker = AtRetryDelay, sleep_suspended = True, endpoint = None,
      up_trace = [USetBits DATA_READY_BIT, URetryDelay,
        UNmea ''$PESP,NTRIP,SRV,CONNECTING,%s:%d,%s'' [S ''caster.example.com'', D 2101, S ''TEST''],
        UConnect ''caster.example.com'' 2101]\<rparr>"
  have h: "ntrip_server_uart_handler (ntrip_server_task_start True False True) ''chunk'' True 0 =
      \<lparr>event_bits = 2, sock = -1, data_keep_alive = 0, status_led_active = None,
       worker = AtRetryDelay, sleep_suspended = True, endpoint = None,
       up_trace = [USetBits DATA_READY_BIT]\<rparr>"
    by (simp add: ntrip_server_uart_handler_def ntrip_server_task_start_def Let_def
        xEventGroupSetBits_def up_log_def DATA_READY_BIT_def CASTER_READY_BIT_def)
  have t: "ntrip_server_task ?p
      \<lparr>event_bits = 2, sock = -1, data_keep_alive = 0, status_led_active = None,
       worker = AtRetryDelay, sleep_suspended = True, endpoint = None,
       up_trace = [USetBits DATA_READY_BIT]\<rparr> ?e = ?s2"
    by (simp add: ntrip_server_task_def connect_attempt_def attempt_begin_def attempt_rest_def
        Let_def up_log_def error_exit_def destroy_socket_def DATA_READY_BIT_def)
  have 1: "(ntrip_server_sleep_task ?p ^^ 11) ?s2 = ?s2"
    by (rule sleep_task_suspended_funpow) simp
  have 2: "new_events ?s2 (ntrip_server_task ?p ?s2 ?e) =
      [URetryDelay,
       UNmea ''$PESP,NTRIP,SRV,CONNECTING,%s:%d,%s'' [S ''caster.example.com'', D 2101, S ''TEST''],
       UConnect ''caster.example.com'' 2101]"
    by (simp add: ntrip_server_task_def connect_attempt_def attempt_begin_def attempt_rest_def
        Let_def up_log_def error_exit_def destroy_socket_def DATA_READY_BIT_def new_events_def)
  show ?thesis unfolding h t using 1 2 by simp
qed

text \<open>
  Claim C5, as amended.  Time is counted in passes of the keep-alive task, each
  of which ends in a delay of a tenth of the threshold; the threshold is the
  constant \<open>NTRIP_KEEP_ALIVE_THRESHOLD\<close>, a positive multiple of 10.  Every chunk
  sets \<open>data_keep_alive\<close> to 0.  While the keep-alive task runs, which is from
  the start of a connection attempt of the worker until the worker next comes
  to \<open>_error\<close>, and no chunk arrives: the first ten passes leave the event bits
  as they are and the eleventh, which begins when the threshold has elapsed,
  clears \<open>DATA_READY_BIT\<close>.  No step of the worker changes that bit.  So when
  the threshold elapses during a connection attempt and the attempt then
  fails, the worker comes to the top of its loop with the bit clear, announces
  that it waits, blocks in \<open>xEventGroupWaitBits\<close> and makes no connection
  attempt, and the next chunk releases it; blocked, it does not move until
  then.  The handler called with the next chunk
  while the bit is clear calls \<open>xEventGroupSetBits\<close> for \<open>DATA_READY_BIT\<close>: a
  worker blocked on that bit is released (the wait clears the bit again on its
  way out), and otherwise the bit is set afterwards.
\<close>

theorem keep_alive_gates_reconnect:
  assumes T: "0 < NTRIP_KEEP_ALIVE_THRESHOLD p" "NTRIP_KEEP_ALIVE_THRESHOLD p mod 10 = 0"
      "NTRIP_KEEP_ALIVE_THRESHOLD p < 2 ^ 31"
  shows "data_keep_alive (ntrip_server_uart_handler st0 buffer take_ok sent) = 0 \<and>
    (\<not> sleep_suspended st \<and> data_keep_alive st = 0 \<longrightarrow>
       (\<forall>k\<le>10. event_bits ((ntrip_server_sleep_task p ^^ k) st) = event_bits st) \<and>
       event_bits ((ntrip_server_sleep_task p ^^ 11) st) AND DATA_READY_BIT = 0) \<and>
    ((worker st = AfterWait \<or> worker st = AtRetryDelay) \<and> data_keep_alive st = 0 \<and>
     worker (attempt_rest p ((ntrip_server_sleep_task p ^^ 11) (attempt_begin st)) e) = AtRetryDelay \<longrightarrow>
       worker (ntrip_server_task p
                 (attempt_rest p ((ntrip_server_sleep_task p ^^ 11) (attempt_begin st)) e) e') =
         WaitingForData \<and>
       new_events (attempt_rest p ((ntrip_server_sleep_task p ^^ 11) (attempt_begin st)) e)
         (ntrip_server_task p
            (attempt_rest p ((ntrip_server_sleep_task p ^^ 11) (attempt_begin st)) e) e') =
         [URetryDelay, UNmea (''$PESP,NTRIP,'' @ status_tag p @ '',WAITING'') []] \<and>
       worker (ntrip_server_uart_handler
                 (ntrip_server_task p
                    (attempt_rest p ((ntrip_server_sleep_task p ^^ 11) (attempt_begin st)) e) e')
                 buffer take_ok sent) = AfterWait) \<and>
    event_bits (ntrip_server_task p st e) AND DATA_READY_BIT = event_bits st AND DATA_READY_BIT \<and>
    (worker st = AtRetryDelay \<and> event_bits st AND DATA_READY_BIT = 0 \<longrightarrow>
       worker (ntrip_server_task p st e) = WaitingForData \<and>
       new_events st (ntrip_server_task p st e) =
         [URetryDelay, UNmea (''$PESP,NTRIP,'' @ status_tag p @ '',WAITING'') []] \<and>
       ntrip_server_task p (ntrip_server_task p st e) e' = ntrip_server_task p st e) \<and>
    (event_bits st AND DATA_READY_BIT = 0 \<longrightarrow>
       take 1 (new_events st (ntrip_server_uart_handler st buffer take_ok sent)) =
         [USetBits DATA_READY_BIT] \<and>
       (worker st = WaitingForData \<longrightarrow>
          worker (ntrip_server_uart_handler st buffer take_ok sent) = AfterWait) \<and>
       (worker st \<noteq> WaitingForData \<longrightarrow>
          event_bits (ntrip_server_uart_handler st buffer take_ok sent) AND DATA_READY_BIT \<noteq> 0))"
proof -
  have a: "\<not> sleep_suspended st \<and> data_keep_alive st = 0 \<longrightarrow>
       (\<forall>k\<le>10. event_bits ((ntrip_server_sleep_task p ^^ k) st) = event_bits st) \<and>
       event_bits ((ntrip_server_sleep_task p ^^ 11) st) AND DATA_READY_BIT = 0"
  proof
    assume "\<not> sleep_suspended st \<and> data_keep_alive st = 0"
    then have r: "\<not> sleep_suspended st" and z: "data_keep_alive st = 0" by simp_all
    have 1: "\<forall>k\<le>10. event_bits ((ntrip_server_sleep_task p ^^ k) st) = event_bits st"
      using sleep_task_steps [OF T r z] by blast
    have 2: "event_bits ((ntrip_server_sleep_task p ^^ 11) st) AND DATA_READY_BIT = 0"
      using sleep_task_clears(1) [OF T r z] by (simp add: clear_same_bit)
    from 1 2 show "(\<forall>k\<le>10. event_bits ((ntrip_server_sleep_task p ^^ k) st) = event_bits st) \<and>
       event_bits ((ntrip_server_sleep_task p ^^ 11) st) AND DATA_READY_BIT = 0"
      by blast
  qed
  let ?s3 = "attempt_rest p ((ntrip_server_sleep_task p ^^ 11) (attempt_begin st)) e"
  have chain: "(worker st = AfterWait \<or> worker st = AtRetryDelay) \<and> data_keep_alive st = 0 \<and>
     worker ?s3 = AtRetryDelay \<longrightarrow>
       worker (ntrip_server_task p ?s3 e') = WaitingForData \<and>
       new_events ?s3 (ntrip_server_task p ?s3 e') =
         [URetryDelay, UNmea (''$PESP,NTRIP,'' @ status_tag p @ '',WAITING'') []] \<and>
       worker (ntrip_server_uart_handler (ntrip_server_task p ?s3 e') buffer take_ok sent) =
         AfterWait"
  proof
    assume h: "(worker st = AfterWait \<or> worker st = AtRetryDelay) \<and> data_keep_alive st = 0 \<and>
       worker ?s3 = AtRetryDelay"
    let ?s1 = "attempt_begin st"
    let ?s2 = "(ntrip_server_sleep_task p ^^ 11) ?s1"
    have r: "\<not> sleep_suspended ?s1" and z: "data_keep_alive ?s1 = 0"
      using h by (simp_all add: attempt_begin_simps)
    have b2: "event_bits ?s2 AND DATA_READY_BIT = 0"
      using sleep_task_clears(1) [OF T r z] by (simp add: clear_same_bit)
    have w2: "worker ?s2 \<noteq> WaitingForData"
      using sleep_task_clears(2) [OF T r z] h by (auto simp add: attempt_begin_simps)
    have b3: "event_bits ?s3 AND DATA_READY_BIT = 0"
      using attempt_rest_data_bit [OF w2, of p e] b2 by simp
    from h have w3: "worker ?s3 = AtRetryDelay" by simp
    have w4: "worker (ntrip_server_task p ?s3 e') = WaitingForData"
      by (rule task_parks_without_data(1) [OF w3 b3])
    have b4: "event_bits (ntrip_server_task p ?s3 e') AND DATA_READY_BIT = 0"
      using task_parks_without_data(4) [OF w3 b3, of p e'] b3 by simp
    from task_parks_without_data(2) [OF w3 b3, of p e'] w4 handler_rearms(3) [OF b4 w4]
    show "worker (ntrip_server_task p ?s3 e') = WaitingForData \<and>
       new_events ?s3 (ntrip_server_task p ?s3 e') =
         [URetryDelay, UNmea (''$PESP,NTRIP,'' @ status_tag p @ '',WAITING'') []] \<and>
       worker (ntrip_server_uart_handler (ntrip_server_task p ?s3 e') buffer take_ok sent) =
         AfterWait"
      by blast
  qed
  have b: "worker st = AtRetryDelay \<and> event_bits st AND DATA_READY_BIT = 0 \<longrightarrow>
       worker (ntrip_server_task p st e) = WaitingForData \<and>
       new_events st (ntrip_server_task p st e) =
         [URetryDelay, UNmea (''$PESP,NTRIP,'' @ status_tag p @ '',WAITING'') []] \<and>
       ntrip_server_task p (ntrip_server_task p st e) e' = ntrip_server_task p st e"
    using task_parks_without_data(1,2,5) by blast
  have c: "event_bits st AND DATA_READY_BIT = 0 \<longrightarrow>
       take 1 (new_events st (ntrip_server_uart_handler st buffer take_ok sent)) =
         [USetBits DATA_READY_BIT] \<and>
       (worker st = WaitingForData \<longrightarrow>
          worker (ntrip_server_uart_handler st buffer take_ok sent) = AfterWait) \<and>
       (worker st \<noteq> WaitingForData \<longrightarrow>
          event_bits (ntrip_server_uart_handler st buffer take_ok sent) AND DATA_READY_BIT \<noteq> 0)"
    using handler_rearms(2,3,4) by blast
  from a chain b c handler_resets_keep_alive worker_keeps_data_bit show ?thesis by blast
qed

theorem keep_alive_gates_reconnect_witness:
  "worker (ntrip_server_task
       \<lparr>NTRIP_KEEP_ALIVE_THRESHOLD = 10000, NTRIP_SERVER_NAME = ''NTRIP-DUO'',
        app_version = ''v1.0'', CONNECT_SOCKET_ERROR_RESOLVE = -2,
        CONNECT_SOCKET_ERROR_CONNECT = -3, extract_http_header = (\<lambda>buf name. Some buf),
        ntrip_response_ok = (\<lambda>status. status = ''ICY 200 OK''), status_tag = ''SRV''\<rparr>
       (attempt_rest
          \<lparr>NTRIP_KEEP_ALIVE_THRESHOLD = 10000, NTRIP_SERVER_NAME = ''NTRIP-DUO'',
           app_version = ''v1.0'', CONNECT_SOCKET_ERROR_RESOLVE = -2,
           CONNECT_SOCKET_ERROR_CONNECT = -3, extract_http_header = (\<lambda>buf name. Some buf),
           ntrip_response_ok = (\<lambda>status. status = ''ICY 200 OK''), status_tag = ''SRV''\<rparr>
          ((ntrip_server_sleep_task
              \<lparr>NTRIP_KEEP_ALIVE_THRESHOLD = 10000, NTRIP_SERVER_NAME = ''NTRIP-DUO'',
               app_version = ''v1.0'', CONNECT_SOCKET_ERROR_RESOLVE = -2,
               CONNECT_SOCKET_ERROR_CONNECT = -3, extract_http_header = (\<lambda>buf name. Some buf),
               ntrip_response_ok = (\<lambda>status. status = ''ICY 200 OK''), status_tag = ''SRV''\<rparr> ^^ 11)
             (attempt_begin
                \<lparr>event_bits = 2, sock = -1, data_keep_alive = 0, status_led_active = None,
                 worker = AtRetryDelay, sleep_suspended = True, endpoint = None,
                 up_trace = []\<rparr>))
          \<lparr>cfg_host = Some ''caster.example.com'', cfg_password = Some ''secret'',
           cfg_mountpoint = Some ''TEST'', cfg_port = 2101, connect_ret = -2, write_ret = 0,
           read_ret = 0, read_buf = []\<rparr>)
       \<lparr>cfg_host = Some ''caster.example.com'', cfg_password = Some ''secret'',
        cfg_mountpoint = Some ''TEST'', cfg_port = 2101, connect_ret = 5, write_ret = 50,
        read_ret = 10, read_buf = ''ICY 200 OK''\<rparr>) = WaitingForData \<and>
   worker (ntrip_server_uart_handler
     (ntrip_server_task
       \<lparr>NTRIP_KEEP_ALIVE_THRESHOLD = 10000, NTRIP_SERVER_NAME = ''NTRIP-DUO'',
        app_version = ''v1.0'', CONNECT_SOCKET_ERROR_RESOLVE = -2,
        CONNECT_SOCKET_ERROR_CONNECT = -3, extract_http_header = (\<lambda>buf name. Some buf),
        ntrip_response_ok = (\<lambda>status. status = ''ICY 200 OK''), status_tag = ''SRV''\<rparr>
       (attempt_rest
          \<lparr>NTRIP_KEEP_ALIVE_THRESHOLD = 10000, NTRIP_SERVER_NAME = ''NTRIP-DUO'',
           app_version = ''v1.0'', CONNECT_SOCKET_ERROR_RESOLVE = -2,
           CONNECT_SOCKET_ERROR_CONNECT = -3, extract_http_header = (\<lambda>buf name. Some buf),
           ntrip_response_ok = (\<lambda>status. status = ''ICY 200 OK''), status_tag = ''SRV''\<rparr>
          ((ntrip_server_sleep_task
              \<lparr>NTRIP_KEEP_ALIVE_THRESHOLD = 10000, NTRIP_SERVER_NAME = ''NTRIP-DUO'',
               app_version = ''v1.0'', CONNECT_SOCKET_ERROR_RESOLVE = -2,
               CONNECT_SOCKET_ERROR_CONNECT = -3, extract_http_header = (\<lambda>buf name. Some buf),
               ntrip_response_ok = (\<lambda>status. status = ''ICY 200 OK''), status_tag = ''SRV''\<rparr> ^^ 11)
             (attempt_begin
                \<lparr>event_bits = 2, sock = -1, data_keep_alive = 0, status_led_active = None,
                 worker = AtRetryDelay, sleep_suspended = True, endpoint = None,
                 up_trace = []\<rparr>))
          \<lparr>cfg_host = Some ''caster.example.com'', cfg_password = Some ''secret'',
           cfg_mountpoint = Some ''TEST'', cfg_port = 2101, connect_ret = -2, write_ret = 0,
           read_ret = 0, read_buf = []\<rparr>)
       \<lparr>cfg_host = Some ''caster.example.com'', cfg_password = Some ''secret'',
        cfg_mountpoint = Some ''TEST'', cfg_port = 2101, connect_ret = 5, write_ret = 50,
        read_ret = 10, read_buf = ''ICY 200 OK''\<rparr>)
     ''chunk'' True 5) = AfterWait \<and>
   event_bits ((ntrip_server_sleep_task
       \<lparr>NTRIP_KEEP_ALIVE_THRESHOLD = 10000, NTRIP_SERVER_NAME = ''NTRIP-DUO'',
        app_version = ''v1.0'', CONNECT_SOCKET_ERROR_RESOLVE = -2,
        CONNECT_SOCKET_ERROR_CONNECT = -3, extract_http_header = (\<lambda>buf name. Some buf),
        ntrip_response_ok = (\<lambda>status. status = ''ICY 200 OK''), status_tag = ''SRV''\<rparr> ^^ 11)
     (attempt_begin
        \<lparr>event_bits = 2, sock = -1, data_keep_alive = 0, status_led_active = None,
         worker = AtRetryDelay, sleep_suspended = True, endpoint = None,
         up_trace = []\<rparr>)) AND DATA_READY_BIT = 0"
proof -
  let ?p = "\<lparr>NTRIP_KEEP_ALIVE_THRESHOLD = 10000, NTRIP_SERVER_NAME = ''NTRIP-DUO'',
        app_version = ''v1.0'', CONNECT_SOCKET_ERROR_RESOLVE = -2,
        CONNECT_SOCKET_ERROR_CONNECT = -3, extract_http_header = (\<lambda>buf name. Some buf),
        ntrip_response_ok = (\<lambda>status. status = ''ICY 200 OK''), status_tag = ''SRV''\<rparr>"
  let ?st = "\<lparr>event_bits = 2, sock = -1, data_keep_alive = 0, status_led_active = None,
        worker = AtRetryDelay, sleep_suspended = True, endpoint = None, up_trace = []\<rparr>"
  let ?e = "\<lparr>cfg_host = Some ''caster.example.com'', cfg_password = Some ''secret'',
           cfg_mountpoint = Some ''TEST'', cfg_port = 2101, connect_ret = -2, write_ret = 0,
           read_ret = 0, read_buf = []\<rparr>"
  let ?e' = "\<lparr>cfg_host = Some ''caster.example.com'', cfg_password = Some ''secret'',
        cfg_mountpoint = Some ''TEST'', cfg_port = 2101, connect_ret = 5, write_ret = 50,
        read_ret = 10, read_buf = ''ICY 200 OK''\<rparr>"
  have T: "0 < NTRIP_KEEP_ALIVE_THRESHOLD ?p" "NTRIP_KEEP_ALIVE_THRESHOLD ?p mod 10 = 0"
    "NTRIP_KEEP_ALIVE_THRESHOLD ?p < 2 ^ 31"
    by simp_all
  have fails: "worker (attempt_rest ?p ((ntrip_server_sleep_task ?p ^^ 11) (attempt_begin ?st)) ?e)
      = AtRetryDelay"
    by (rule attempt_rest_resolve_error [where host = "''caster.example.com''"
          and password = "''secret''" and mountpoint = "''TEST''"]) simp_all
  from keep_alive_gates_reconnect [OF T, of _ "''chunk''" True 5 ?st ?e ?e'] fails
  have 1: "worker (ntrip_server_task ?p
      (attempt_rest ?p ((ntrip_server_sleep_task ?p ^^ 11) (attempt_begin ?st)) ?e) ?e') = WaitingForData"
    and 2: "worker (ntrip_server_uart_handler (ntrip_server_task ?p
      (attempt_rest ?p ((ntrip_server_sleep_task ?p ^^ 11) (attempt_begin ?st)) ?e) ?e')
      ''chunk'' True 5) = AfterWait"
    by simp_all
  have r: "\<not> sleep_suspended (attempt_begin ?st) \<and> data_keep_alive (attempt_begin ?st) = 0"
    by (simp add: attempt_begin_def)
  from keep_alive_gates_reconnect [OF T, of _ _ _ _ "attempt_begin ?st"] r
  have 3: "event_bits ((ntrip_server_sleep_task ?p ^^ 11) (attempt_begin ?st)) AND DATA_READY_BIT = 0"
    by blast
  from 1 2 3 show ?thesis by blast
qed

lemma connect_attempt_first_write:
  assumes cfg: "cfg_host e = Some host" "cfg_password e = Some password"
      "cfg_mountpoint e = Some mountpoint"
    and conn: "connect_ret e \<noteq> CONNECT_SOCKET_ERROR_RESOLVE p"
      "connect_ret e \<noteq> CONNECT_SOCKET_ERROR_CONNECT p"
  shows "take 3 (new_events st (connect_attempt p st e)) =
     [UNmea (''$PESP,NTRIP,'' @ status_tag p @ '',CONNECTING,%s:%d,%s'')
        [S host, D (uint (cfg_port e)), S mountpoint],
      UConnect host (cfg_port e),
      UWrite (connect_ret e) (source_request p password mountpoint)]"
proof -
  let ?st4 = "up_log ((up_log (up_log (st\<lparr>sleep_suspended := False,
         endpoint := Some (host, cfg_port e, mountpoint)\<rparr>)
         (UNmea (''$PESP,NTRIP,'' @ status_tag p @ '',CONNECTING,%s:%d,%s'')
            [S host, D (uint (cfg_port e)), S mountpoint]))
         (UConnect host (cfg_port e)))\<lparr>sock := connect_ret e\<rparr>)
         (UWrite (connect_ret e) (source_request p password mountpoint))"
  have "\<exists>es. up_trace (connect_attempt p st e) = up_trace ?st4 @ es"
    using assms
    by (simp add: connect_attempt_def attempt_begin_def attempt_rest_def Let_def up_log_def error_exit_trace set_led_simps
        up_trace_set_bits split: option.splits)
  then obtain es where "up_trace (connect_attempt p st e) = up_trace ?st4 @ es" by blast
  then show ?thesis by (simp add: new_events_def up_log_def)
qed

text \<open>
  Claim C6, as amended.  A connection attempt whose \<open>connect_socket\<close> does not
  return one of its two error codes makes, after the status sentence and the
  connect itself, one \<open>write\<close> as its first, of at most \<open>BUFFER_SIZE - 1\<close> bytes
  of the formatted request.  When the formatted request is shorter than
  \<open>BUFFER_SIZE\<close>, the bytes written are exactly: the line \<open>SOURCE\<close>, credential
  and \<open>/mountpoint\<close>; the line \<open>Source-Agent: NTRIP\<close> with the server name and
  the version; and an empty line, each ended by CR LF.
\<close>

theorem source_request_format:
  assumes cfg: "cfg_host e = Some host" "cfg_password e = Some password"
      "cfg_mountpoint e = Some mountpoint"
    and conn: "connect_ret e \<noteq> CONNECT_SOCKET_ERROR_RESOLVE p"
      "connect_ret e \<noteq> CONNECT_SOCKET_ERROR_CONNECT p"
  shows "take 3 (new_events st (connect_attempt p st e)) =
     [UNmea (''$PESP,NTRIP,'' @ status_tag p @ '',CONNECTING,%s:%d,%s'')
        [S host, D (uint (cfg_port e)), S mountpoint],
      UConnect host (cfg_port e),
      UWrite (connect_ret e)
        (take 511
          (''SOURCE '' @ password @ '' /'' @ mountpoint @ [CHR 0x0D, CHR 0x0A] @
           ''Source-Agent: NTRIP '' @ NTRIP_SERVER_NAME p @ ''/'' @ drop 1 (app_version p) @
             [CHR 0x0D, CHR 0x0A] @
           [CHR 0x0D, CHR 0x0A]))] \<and>
    (length (request_text p password mountpoint) < BUFFER_SIZE \<longrightarrow>
       new_events st (connect_attempt p st e) ! 2 =
         UWrite (connect_ret e)
           (''SOURCE '' @ password @ '' /'' @ mountpoint @ [CHR 0x0D, CHR 0x0A] @
            ''Source-Agent: NTRIP '' @ NTRIP_SERVER_NAME p @ ''/'' @ drop 1 (app_version p) @
              [CHR 0x0D, CHR 0x0A] @
            [CHR 0x0D, CHR 0x0A]))"
proof -
  let ?full = "''SOURCE '' @ password @ '' /'' @ mountpoint @ [CHR 0x0D, CHR 0x0A] @
           ''Source-Agent: NTRIP '' @ NTRIP_SERVER_NAME p @ ''/'' @ drop 1 (app_version p) @
             [CHR 0x0D, CHR 0x0A] @
           [CHR 0x0D, CHR 0x0A]"
  have rt: "request_text p password mountpoint = ?full"
    by (simp add: request_text_def NEWLINE_def)
  have sr: "source_request p password mountpoint = take 511 ?full"
    unfolding source_request_def rt by (simp add: BUFFER_SIZE_def)
  note fw = connect_attempt_first_write [OF cfg conn, of st]
  have 1: "take 3 (new_events st (connect_attempt p st e)) =
     [UNmea (''$PESP,NTRIP,'' @ status_tag p @ '',CONNECTING,%s:%d,%s'')
        [S host, D (uint (cfg_port e)), S mountpoint],
      UConnect host (cfg_port e),
      UWrite (connect_ret e) (take 511 ?full)]"
    using fw unfolding sr .
  have 2: "length (request_text p password mountpoint) < BUFFER_SIZE \<longrightarrow>
       new_events st (connect_attempt p st e) ! 2 = UWrite (connect_ret e) ?full"
  proof
    assume "length (request_text p password mountpoint) < BUFFER_SIZE"
    then have "length ?full \<le> 511" unfolding rt by (simp add: BUFFER_SIZE_def)
    then have t: "take 511 ?full = ?full" by (rule take_all)
    have "take 3 (new_events st (connect_attempt p st e)) ! 2 = UWrite (connect_ret e) (take 511 ?full)"
      unfolding 1 by simp
    then show "new_events st (connect_attempt p st e) ! 2 = UWrite (connect_ret e) ?full"
      unfolding t by simp
  qed
  from 1 2 show ?thesis by blast
qed

text \<open>
  Claim C6 says that the first bytes written after a connect are always the
  request line, the agent line and a blank line.  The request is formatted by
  \<open>snprintf\<close> into a buffer of \<open>BUFFER_SIZE\<close> = 512 bytes and written with its
  \<open>strlen\<close>, so a longer request is cut.  With a credential of 600 characters
  the bytes written are \<open>SOURCE\<close>, a space and 504 characters of the
  credential: no line end, no agent line, no blank line.
\<close>

theorem source_request_truncated:
  "new_events
      \<lparr>event_bits = 2, sock = -1, data_keep_alive = 0, status_led_active = None,
       worker = AfterWait, sleep_suspended = True, endpoint = None, up_trace = []\<rparr>
      (connect_attempt
        \<lparr>NTRIP_KEEP_ALIVE_THRESHOLD = 10000, NTRIP_SERVER_NAME = ''NTRIP-DUO'',
         app_version = ''v1.0'', CONNECT_SOCKET_ERROR_RESOLVE = -2,
         CONNECT_SOCKET_ERROR_CONNECT = -3, extract_http_header = (\<lambda>buf name. Some buf),
         ntrip_response_ok = (\<lambda>status. status = ''ICY 200 OK''), status_tag = ''SRV''\<rparr>
        \<lparr>event_bits = 2, sock = -1, data_keep_alive = 0, status_led_active = None,
         worker = AfterWait, sleep_suspended = True, endpoint = None, up_trace = []\<rparr>
        \<lparr>cfg_host = Some ''caster.example.com'', cfg_password = Some (replicate 600 (CHR ''x'')),
         cfg_mountpoint = Some ''TEST'', cfg_port = 2101, connect_ret = 5, write_ret = 511,
         read_ret = 10, read_buf = ''ICY 200 OK''\<rparr>) ! 2
   = UWrite 5 (''SOURCE '' @ replicate 504 (CHR ''x''))"
proof -
  let ?p = "\<lparr>NTRIP_KEEP_ALIVE_THRESHOLD = 10000, NTRIP_SERVER_NAME = ''NTRIP-DUO'',
       app_version = ''v1.0'', CONNECT_SOCKET_ERROR_RESOLVE = -2,
       CONNECT_SOCKET_ERROR_CONNECT = -3, extract_http_header = (\<lambda>buf name. Some buf),
       ntrip_response_ok = (\<lambda>status. status = ''ICY 200 OK''), status_tag = ''SRV''\<rparr>"
  let ?st = "\<lparr>event_bits = 2, sock = -1, data_keep_alive = 0, status_led_active = None,
       worker = AfterWait, sleep_suspended = True, endpoint = None, up_trace = []\<rparr>"
  let ?e = "\<lparr>cfg_host = Some ''caster.example.com'', cfg_password = Some (replicate 600 (CHR ''x'')),
         cfg_mountpoint = Some ''TEST'', cfg_port = 2101, connect_ret = 5, write_ret = 511,
         read_ret = 10, read_buf = ''ICY 200 OK''\<rparr>"
  have w: "source_request ?p (replicate 600 (CHR ''x'')) ''TEST'' =
      ''SOURCE '' @ replicate 504 (CHR ''x'')"
    by (simp add: source_request_def request_text_def BUFFER_SIZE_def)
  have cfg: "cfg_host ?e = Some ''caster.example.com''"
    "cfg_password ?e = Some (replicate 600 (CHR ''x''))" "cfg_mountpoint ?e = Some ''TEST''"
    by simp_all
  have conn: "connect_ret ?e \<noteq> CONNECT_SOCKET_ERROR_RESOLVE ?p"
    "connect_ret ?e \<noteq> CONNECT_SOCKET_ERROR_CONNECT ?p" by simp_all
  have "take 3 (new_events ?st (connect_attempt ?p ?st ?e)) ! 2 =
      UWrite 5 (source_request ?p (replicate 600 (CHR ''x'')) ''TEST'')"
    unfolding connect_attempt_first_write [OF cfg conn] by simp
  then show ?thesis unfolding w by simp
qed

theorem source_request_format_witness:
  "new_events
      \<lparr>event_bits = 2, sock = -1, data_keep_alive = 0, status_led_active = None,
       worker = AfterWait, sleep_suspended = True, endpoint = None, up_trace = []\<rparr>
      (connect_attempt
        \<lparr>NTRIP_KEEP_ALIVE_THRESHOLD = 10000, NTRIP_SERVER_NAME = ''NTRIP-DUO'',
         app_version = ''v1.0'', CONNECT_SOCKET_ERROR_RESOLVE = -2,
         CONNECT_SOCKET_ERROR_CONNECT = -3, extract_http_header = (\<lambda>buf name. Some buf),
         ntrip_response_ok = (\<lambda>status. status = ''ICY 200 OK''), status_tag = ''SRV''\<rparr>
        \<lparr>event_bits = 2, sock = -1, data_keep_alive = 0, status_led_active = None,
         worker = AfterWait, sleep_suspended = True, endpoint = None, up_trace = []\<rparr>
        \<lparr>cfg_host = Some ''caster.example.com'', cfg_password = Some ''secret'',
         cfg_mountpoint = Some ''TEST'', cfg_port = 2101, connect_ret = 5, write_ret = 52,
         read_ret = 10, read_buf = ''ICY 200 OK''\<rparr>) ! 2
   = UWrite 5 (''SOURCE secret /TEST'' @ [CHR 0x0D, CHR 0x0A] @
               ''Source-Agent: NTRIP NTRIP-DUO/1.0'' @ [CHR 0x0D, CHR 0x0A] @
               [CHR 0x0D, CHR 0x0A])"
proof -
  let ?p = "\<lparr>NTRIP_KEEP_ALIVE_THRESHOLD = 10000, NTRIP_SERVER_NAME = ''NTRIP-DUO'',
       app_version = ''v1.0'', CONNECT_SOCKET_ERROR_RESOLVE = -2,
       CONNECT_SOCKET_ERROR_CONNECT = -3, extract_http_header = (\<lambda>buf name. Some buf),
       ntrip_response_ok = (\<lambda>status. status = ''ICY 200 OK''), status_tag = ''SRV''\<rparr>"
  let ?e = "\<lparr>cfg_host = Some ''caster.example.com'', cfg_password = Some ''secret'',
         cfg_mountpoint = Some ''TEST'', cfg_port = 2101, connect_ret = 5, write_ret = 52,
         read_ret = 10, read_buf = ''ICY 200 OK''\<rparr>"
  have fits: "length (request_text ?p ''secret'' ''TEST'') < BUFFER_SIZE"
    by (simp add: request_text_def NEWLINE_def BUFFER_SIZE_def)
  have cfg: "cfg_host ?e = Some ''caster.example.com''"
    "cfg_password ?e = Some ''secret''" "cfg_mountpoint ?e = Some ''TEST''"
    by simp_all
  have conn: "connect_ret ?e \<noteq> CONNECT_SOCKET_ERROR_RESOLVE ?p"
    "connect_ret ?e \<noteq> CONNECT_SOCKET_ERROR_CONNECT ?p" by simp_all
  from source_request_format [OF cfg conn] fits
  show ?thesis by simp
qed

end
